theory Spec2Isabelle
  imports Complex_Main "HOL-Library.Word"
begin

unbundle bit_operations_syntax

section \<open>JavaScript values\<close>

text \<open>
  A JavaScript string is a sequence of 16-bit code units; \<open>length\<close> is its
  \<open>.length\<close> and the \<open>i\<close>-th element is \<open>charCodeAt(i)\<close>. String literals of the
  source are written \<open>ustr ''...''\<close>.
\<close>

type_synonym jsstring = "16 word list"

definition ustr :: "string \<Rightarrow> jsstring" where
  "ustr s = map of_char s"

text \<open>
  Dynamically typed data (request bodies, cached results, response payloads). An object
  is the list of its own properties in the order JavaScript enumerates them: the
  integer-like names first, ascending, then the other names in insertion order. Numbers
  are rationals (no claim depends on rounding).
\<close>

datatype jsval =
    JUndefined
  | JNull
  | JBool bool
  | JNum rat
  | JStr jsstring
  | JArr "jsval list"
  | JObj "(jsstring \<times> jsval) list"

text \<open>
  Property read \<open>v.k\<close>: a \<open>TypeError\<close> on \<open>null\<close> and \<open>undefined\<close>, the own property
  of an object, and \<open>undefined\<close> on every other value (the property names the source reads
  are never \<open>length\<close> or an index). \<open>get_prop\<close> is the read once the value is known
  not to be \<open>null\<close> or \<open>undefined\<close>; \<open>member\<close> (below, with the errors) raises.
\<close>

definition get_prop :: "jsval \<Rightarrow> jsstring \<Rightarrow> jsval" where
  "get_prop v k =
     (case v of
        JObj kvs \<Rightarrow> (case map_of kvs k of Some x \<Rightarrow> x | None \<Rightarrow> JUndefined)
      | _ \<Rightarrow> JUndefined)"

definition nullish :: "jsval \<Rightarrow> bool" where
  "nullish v = (v = JUndefined \<or> v = JNull)"

fun truthy :: "jsval \<Rightarrow> bool" where
  "truthy JUndefined = False"
| "truthy JNull = False"
| "truthy (JBool b) = b"
| "truthy (JNum n) = (n \<noteq> 0)"
| "truthy (JStr s) = (s \<noteq> [])"
| "truthy (JArr _) = True"
| "truthy (JObj _) = True"

section \<open>Error taxonomy (src/utils/errors.ts)\<close>

text \<open>
  The error classes, each extending \<open>Error\<close> directly. \<open>OtherError name message\<close> is any
  other throwable (a plain \<open>Error\<close>, a \<open>TypeError\<close>, ...).
\<close>

datatype js_error =
    ValidationError jsstring "jsstring option"
  | AuthenticationError jsstring
  | AuthorizationError jsstring
  | NotFoundError jsstring
  | ExternalAPIError jsstring jsstring "js_error option"
  | RateLimitError jsstring
  | InternalServerError jsstring
  | OtherError jsstring jsstring

text \<open>The message of the \<open>TypeError\<close> of a property read on \<open>null\<close> or \<open>undefined\<close>,
  as Node words it: \<open>Cannot read properties of undefined (reading 'k')\<close>.\<close>

definition cannot_read :: "jsval \<Rightarrow> jsstring \<Rightarrow> jsstring" where
  "cannot_read v k =
     ustr ''Cannot read properties of '' @ (if v = JNull then ustr ''null'' else ustr ''undefined'')
     @ ustr '' (reading '' @ [0x27] @ k @ [0x27] @ ustr '')''"

definition member :: "jsval \<Rightarrow> jsstring \<Rightarrow> js_error + jsval" where
  "member v k =
     (if nullish v then Inl (OtherError (ustr ''TypeError'') (cannot_read v k))
      else Inr (get_prop v k))"

text \<open>\<open>v?.k\<close>\<close>

definition opt_member :: "jsval \<Rightarrow> jsstring \<Rightarrow> jsval" where
  "opt_member v k = (if nullish v then JUndefined else get_prop v k)"

fun error_message :: "js_error \<Rightarrow> jsstring" where
  "error_message (ValidationError m _) = m"
| "error_message (AuthenticationError m) = m"
| "error_message (AuthorizationError m) = m"
| "error_message (NotFoundError m) = m"
| "error_message (ExternalAPIError m _ _) = m"
| "error_message (RateLimitError m) = m"
| "error_message (InternalServerError m) = m"
| "error_message (OtherError _ m) = m"

record ErrorResponse =
  er_error :: jsstring
  er_message :: jsstring
  er_code :: "jsstring option"
  er_timestamp :: jsstring

text \<open>\<open>ErrorHandler.createErrorResponse\<close>; \<open>production\<close> is
  \<open>process.env.NODE_ENV === 'production'\<close>.\<close>

fun createErrorResponse :: "bool \<Rightarrow> jsstring \<Rightarrow> js_error \<Rightarrow> ErrorResponse" where
  "createErrorResponse production timestamp (ValidationError m f) =
     \<lparr>er_error = ustr ''Validation Error'', er_message = m,
      er_code = Some (ustr ''VALIDATION_ERROR''), er_timestamp = timestamp\<rparr>"
| "createErrorResponse production timestamp (AuthenticationError m) =
     \<lparr>er_error = ustr ''Authentication Error'', er_message = m,
      er_code = Some (ustr ''AUTHENTICATION_ERROR''), er_timestamp = timestamp\<rparr>"
| "createErrorResponse production timestamp (AuthorizationError m) =
     \<lparr>er_error = ustr ''Authorization Error'', er_message = m,
      er_code = Some (ustr ''AUTHORIZATION_ERROR''), er_timestamp = timestamp\<rparr>"
| "createErrorResponse production timestamp (NotFoundError m) =
     \<lparr>er_error = ustr ''Not Found'', er_message = m,
      er_code = Some (ustr ''NOT_FOUND''), er_timestamp = timestamp\<rparr>"
| "createErrorResponse production timestamp (ExternalAPIError m service orig) =
     \<lparr>er_error = ustr ''External API Error'', er_message = service @ ustr '': '' @ m,
      er_code = Some (ustr ''EXTERNAL_API_ERROR''), er_timestamp = timestamp\<rparr>"
| "createErrorResponse production timestamp (RateLimitError m) =
     \<lparr>er_error = ustr ''Rate Limit Exceeded'', er_message = m,
      er_code = Some (ustr ''RATE_LIMIT_EXCEEDED''), er_timestamp = timestamp\<rparr>"
| "createErrorResponse production timestamp e =
     \<lparr>er_error = ustr ''Internal Server Error'',
      er_message = (if production then ustr ''An unexpected error occurred''
                    else error_message e),
      er_code = Some (ustr ''INTERNAL_SERVER_ERROR''), er_timestamp = timestamp\<rparr>"

text \<open>\<open>ErrorHandler.getStatusCode\<close>: the \<open>instanceof\<close> chain, in the source's order.\<close>

fun getStatusCode :: "js_error \<Rightarrow> nat" where
  "getStatusCode (ValidationError _ _) = 400"
| "getStatusCode (AuthenticationError _) = 401"
| "getStatusCode (AuthorizationError _) = 403"
| "getStatusCode (NotFoundError _) = 404"
| "getStatusCode (RateLimitError _) = 429"
| "getStatusCode (ExternalAPIError _ _ _) = 502"
| "getStatusCode _ = 500"

text \<open>The kinds of the specification's error envelope, and the kind the code's
  classification (\<open>createErrorResponse\<close>) gives each error.\<close>

datatype error_kind =
  Validation | Authentication | Authorization | NotFound | ExternalProvider | RateLimit
  | Internal

fun kind_of :: "js_error \<Rightarrow> error_kind" where
  "kind_of (ValidationError _ _) = Validation"
| "kind_of (AuthenticationError _) = Authentication"
| "kind_of (AuthorizationError _) = Authorization"
| "kind_of (NotFoundError _) = NotFound"
| "kind_of (ExternalAPIError _ _ _) = ExternalProvider"
| "kind_of (RateLimitError _) = RateLimit"
| "kind_of _ = Internal"

text \<open>The status table as the specification words it.\<close>

fun spec_status_of_kind :: "error_kind \<Rightarrow> nat" where
  "spec_status_of_kind Validation = 400"
| "spec_status_of_kind Authentication = 401"
| "spec_status_of_kind Authorization = 403"
| "spec_status_of_kind NotFound = 404"
| "spec_status_of_kind RateLimit = 429"
| "spec_status_of_kind ExternalProvider = 502"
| "spec_status_of_kind Internal = 500"

section \<open>Authenticator (src/middleware/auth.ts)\<close>

datatype auth_method = jwt | api_key

record AuthContext =
  userId :: jsstring
  email :: jsstring
  authMethod :: auth_method

text \<open>
  \<open>authenticateAPIKey\<close>. \<open>validAPIKey\<close> is \<open>process.env.API_SECRET_KEY\<close>: absent
  (\<open>None\<close>) or a string; \<open>!validAPIKey\<close> holds when it is absent or empty.
\<close>

definition authenticateAPIKey :: "jsstring option \<Rightarrow> jsstring \<Rightarrow> js_error + AuthContext" where
  "authenticateAPIKey validAPIKey apiKey =
     (case validAPIKey of
        None \<Rightarrow> Inl (AuthenticationError (ustr ''API key authentication not configured''))
      | Some secret \<Rightarrow>
          if secret = [] then
            Inl (AuthenticationError (ustr ''API key authentication not configured''))
          else if apiKey \<noteq> secret then
            Inl (AuthenticationError (ustr ''Invalid API key''))
          else
            Inr \<lparr>userId = ustr ''system'', email = ustr ''system@ialla.app'',
                 authMethod = api_key\<rparr>)"

section \<open>Cache keys (utils/cache.ts)\<close>

text \<open>
  \<open>JSON.stringify\<close> without indentation, after ECMAScript's \<open>SerializeJSONProperty\<close>
  and \<open>QuoteJSONString\<close>: a property whose value is \<open>undefined\<close> is left out of an
  object, an \<open>undefined\<close> array element is written \<open>null\<close>, and a lone surrogate is
  escaped. How a number is printed (\<open>Number::toString\<close>) is a parameter \<open>ns\<close>.
\<close>

definition hex_digit :: "nat \<Rightarrow> 16 word" where
  "hex_digit d = (if d < 10 then of_nat (48 + d) else of_nat (87 + d))"

definition unicode_escape :: "16 word \<Rightarrow> jsstring" where
  "unicode_escape c =
     (let n = unat c in
      [0x5C, 0x75, hex_digit (n div 4096), hex_digit (n div 256 mod 16),
       hex_digit (n div 16 mod 16), hex_digit (n mod 16)])"

definition is_high_surrogate :: "16 word \<Rightarrow> bool" where
  "is_high_surrogate c = (0xD800 \<le> c \<and> c \<le> 0xDBFF)"

definition is_low_surrogate :: "16 word \<Rightarrow> bool" where
  "is_low_surrogate c = (0xDC00 \<le> c \<and> c \<le> 0xDFFF)"

definition quote_unit :: "16 word \<Rightarrow> jsstring" where
  "quote_unit c =
     (if c = 0x08 then [0x5C, 0x62]
      else if c = 0x09 then [0x5C, 0x74]
      else if c = 0x0A then [0x5C, 0x6E]
      else if c = 0x0C then [0x5C, 0x66]
      else if c = 0x0D then [0x5C, 0x72]
      else if c = 0x22 then [0x5C, 0x22]
      else if c = 0x5C then [0x5C, 0x5C]
      else if c < 0x20 \<or> is_high_surrogate c \<or> is_low_surrogate c then unicode_escape c
      else [c])"

fun quote_units :: "jsstring \<Rightarrow> jsstring" where
  "quote_units [] = []"
| "quote_units [c] = quote_unit c"
| "quote_units (c # d # cs) =
     (if is_high_surrogate c \<and> is_low_surrogate d then c # d # quote_units cs
      else quote_unit c @ quote_units (d # cs))"

definition QuoteJSONString :: "jsstring \<Rightarrow> jsstring" where
  "QuoteJSONString s = [0x22] @ quote_units s @ [0x22]"

text \<open>\<open>Array.prototype.join\<close> on strings.\<close>

fun join :: "jsstring \<Rightarrow> jsstring list \<Rightarrow> jsstring" where
  "join sep [] = []"
| "join sep [x] = x"
| "join sep (x # y # ys) = x @ sep @ join sep (y # ys)"

fun SerializeJSONProperty :: "(rat \<Rightarrow> jsstring) \<Rightarrow> jsval \<Rightarrow> jsstring option"
  and serialize_elements :: "(rat \<Rightarrow> jsstring) \<Rightarrow> jsval list \<Rightarrow> jsstring list"
  and serialize_properties ::
    "(rat \<Rightarrow> jsstring) \<Rightarrow> (jsstring \<times> jsval) list \<Rightarrow> jsstring list"
where
  "SerializeJSONProperty ns JUndefined = None"
| "SerializeJSONProperty ns JNull = Some (ustr ''null'')"
| "SerializeJSONProperty ns (JBool b) = Some (if b then ustr ''true'' else ustr ''false'')"
| "SerializeJSONProperty ns (JNum n) = Some (ns n)"
| "SerializeJSONProperty ns (JStr s) = Some (QuoteJSONString s)"
| "SerializeJSONProperty ns (JArr vs) =
     Some (ustr ''['' @ join (ustr '','') (serialize_elements ns vs) @ ustr '']'')"
| "SerializeJSONProperty ns (JObj kvs) =
     Some (ustr ''{'' @ join (ustr '','') (serialize_properties ns kvs) @ ustr ''}'')"
| "serialize_elements ns [] = []"
| "serialize_elements ns (v # vs) =
     (case SerializeJSONProperty ns v of None \<Rightarrow> ustr ''null'' | Some s \<Rightarrow> s)
     # serialize_elements ns vs"
| "serialize_properties ns [] = []"
| "serialize_properties ns ((k, v) # kvs) =
     (case SerializeJSONProperty ns v of
        None \<Rightarrow> serialize_properties ns kvs
      | Some s \<Rightarrow> (QuoteJSONString k @ ustr '':'' @ s) # serialize_properties ns kvs)"

text \<open>\<open>JSON.stringify\<close> of an object literal (never \<open>undefined\<close>).\<close>

definition stringify_object ::
  "(rat \<Rightarrow> jsstring) \<Rightarrow> (jsstring \<times> jsval) list \<Rightarrow> jsstring" where
  "stringify_object ns kvs =
     ustr ''{'' @ join (ustr '','') (serialize_properties ns kvs) @ ustr ''}''"

text \<open>\<open>Number.prototype.toString(36)\<close> on a non-negative integer.\<close>

definition digit36 :: "nat \<Rightarrow> 16 word" where
  "digit36 d = (if d < 10 then of_nat (48 + d) else of_nat (87 + d))"

function toString36 :: "nat \<Rightarrow> jsstring" where
  "toString36 n =
     (if n < 36 then [digit36 n] else toString36 (n div 36) @ [digit36 (n mod 36)])"
  by pat_completeness auto
termination
  by (relation "measure id") auto

text \<open>
  \<open>CacheService.hashString\<close>. One round of the loop is
  \<open>hash = ((hash << 5) - hash) + char; hash = hash & hash\<close>: the sum is exact in a double
  and \<open>hash & hash\<close> is \<open>ToInt32\<close>, so the round is the same arithmetic modulo \<open>2^32\<close>,
  read as a signed value by \<open>Math.abs\<close> at the end.
\<close>

definition hash_step :: "32 word \<Rightarrow> 16 word \<Rightarrow> 32 word" where
  "hash_step hash c = (push_bit 5 hash - hash) + ucast c"

definition hashString :: "jsstring \<Rightarrow> jsstring" where
  "hashString str =
     (if length str = 0 then ustr ''0''
      else toString36 (nat \<bar>sint (foldl hash_step 0 str)\<bar>))"

text \<open>\<open>m => ({ role: m.role, content: m.content })\<close>\<close>

definition pick_role_content :: "jsval \<Rightarrow> js_error + jsval" where
  "pick_role_content m =
     (case member m (ustr ''role'') of
        Inl e \<Rightarrow> Inl e
      | Inr r \<Rightarrow>
          (case member m (ustr ''content'') of
             Inl e \<Rightarrow> Inl e
           | Inr c \<Rightarrow> Inr (JObj [(ustr ''role'', r), (ustr ''content'', c)])))"

text \<open>\<open>messages.map(f)\<close> for an \<open>f\<close> that may raise: the first error wins.\<close>

fun map_raising :: "('a \<Rightarrow> js_error + 'b) \<Rightarrow> 'a list \<Rightarrow> js_error + 'b list" where
  "map_raising f [] = Inr []"
| "map_raising f (x # xs) =
     (case f x of
        Inl e \<Rightarrow> Inl e
      | Inr y \<Rightarrow> (case map_raising f xs of Inl e \<Rightarrow> Inl e | Inr ys \<Rightarrow> Inr (y # ys)))"

definition generateOpenAIKey ::
  "(rat \<Rightarrow> jsstring) \<Rightarrow> jsval list \<Rightarrow> jsval \<Rightarrow> jsval \<Rightarrow> jsval \<Rightarrow> js_error + jsstring" where
  "generateOpenAIKey ns messages userProfile studyTopic vocabularyContext =
     (case map_raising pick_role_content messages of
        Inl e \<Rightarrow> Inl e
      | Inr ms \<Rightarrow>
          (let content = stringify_object ns
                 [(ustr ''messages'', JArr ms),
                  (ustr ''userProfile'', userProfile),
                  (ustr ''studyTopic'', studyTopic),
                  (ustr ''vocabularyContext'', vocabularyContext)]
           in Inr (ustr ''openai:'' @ hashString content)))"

definition generateElevenLabsVoiceKey ::
  "(rat \<Rightarrow> jsstring) \<Rightarrow> jsstring \<Rightarrow> jsstring \<Rightarrow> jsval \<Rightarrow> jsstring" where
  "generateElevenLabsVoiceKey ns text voiceId settings =
     (let content = stringify_object ns
            [(ustr ''text'', JStr text), (ustr ''voiceId'', JStr voiceId),
             (ustr ''settings'', settings)]
      in ustr ''elevenlabs:voice:'' @ hashString content)"

section \<open>The environment and the state of a request\<close>

text \<open>
  What lies outside the repository is an oracle of the environment \<open>env\<close>: the identity
  provider, the three providers, the log sink and the database, the ECMAScript built-ins
  that print numbers and dates, and the schema library's texts and format checks. What a
  request can change is the \<open>world\<close>.
\<close>

datatype sink_outcome = SinkOk | SinkError jsstring | SinkThrows jsstring

datatype console_line = ConsoleLog jsstring | ConsoleWarn jsstring | ConsoleError jsstring

record LogEntry =
  le_sessionId :: jsstring
  le_serviceName :: jsstring
  le_endpoint :: jsstring
  le_method :: jsstring
  le_requestBody :: jsval
  le_responseStatus :: "nat option"
  le_responseBody :: jsval
  le_duration :: "nat option"
  le_errorMessage :: "jsstring option"
  le_timestamp :: jsstring

text \<open>
  The rows written to the table \<open>unified_logs\<close>, by \<open>event_category\<close>: \<open>api_call\<close>
  (\<open>logApiCall\<close>), \<open>cache\<close> (\<open>logCacheOperation\<close>: operation, key, service), \<open>error\<close>
  (\<open>logError\<close>: message, name, context) and \<open>system/email_sent\<close> (\<open>logEmailSend\<close>:
  template, provider id, recipient, data).
\<close>

datatype log_row =
    ApiCallRow LogEntry
  | CacheRow jsstring jsstring jsstring
  | ErrorRow jsstring jsstring jsval
  | EmailSentRow jsstring jsval jsstring jsval

record auth_user =
  u_id :: jsstring
  u_email :: "jsstring option"

text \<open>\<open>supabase.auth.getUser(token)\<close>: it rejects, or resolves to \<open>{data: {user}, error}\<close>.\<close>

datatype getUser_outcome = GetUserRejects | GetUserResult "auth_user option" bool

text \<open>\<open>fetch\<close>: it rejects, or resolves to a response (\<open>ok\<close>, \<open>status\<close>, \<open>text()\<close>, and
  \<open>json()\<close>, which rejects on \<open>None\<close>).\<close>

datatype fetch_outcome = FetchRejects jsstring | FetchResponse bool nat jsstring "jsval option"

text \<open>\<open>openai.chat.completions.create\<close>: it rejects (also when the response has no
  \<open>choices\<close> to index), or yields \<open>response.choices[0]?.message?.content\<close>.\<close>

datatype openai_outcome = OpenAIRejects jsstring | OpenAIContent jsval

text \<open>\<open>resend.emails.send\<close>: it rejects, or resolves to \<open>{data, error}\<close> (the error by its
  message).\<close>

datatype resend_outcome = ResendRejects jsstring | ResendResult jsval "jsstring option"

record rendered_email =
  r_subject :: jsstring
  r_text :: jsstring
  r_html :: jsstring
  r_tags :: jsval

datatype provider_call =
    OpenAICall jsstring
  | FetchCall jsstring jsstring jsval
  | ResendCall jsstring rendered_email

text \<open>Operations on the table \<open>user_action_logs\<close>: the row inserted, or the user, query
  parameters \<open>limit\<close>, \<open>offset\<close> and \<open>actionType\<close> of a selection.\<close>

datatype db_call =
    DbInsert jsval
  | DbSelect jsstring jsval jsval jsval

datatype adapter_method =
    M_analyzeConversation | M_analyzeVocabularyPractice | M_generateVoice
  | M_startConversation | M_sendMessage | M_endConversation | M_sendEmail

datatype http_body = NoBody | ErrorBody ErrorResponse | Json jsval

record analysis_prompt =
  prompt_name :: jsstring
  prompt_version :: jsstring
  prompt_template :: jsstring

record env =
  e_API_SECRET_KEY :: "jsstring option"
  e_production :: bool
  e_logging_configured :: bool
  e_sessionId :: jsstring
  e_sink :: "nat \<Rightarrow> log_row \<Rightarrow> sink_outcome"
  e_getUser :: "jsstring \<Rightarrow> getUser_outcome"
  e_numberToString :: "rat \<Rightarrow> jsstring"
  e_toISOString :: "nat \<Rightarrow> jsstring"
  e_toString :: "jsval \<Rightarrow> jsstring"
  e_zod_issues :: "jsval \<Rightarrow> jsstring list"
  e_isEmail :: "jsstring \<Rightarrow> bool"
  e_isDatetime :: "jsstring \<Rightarrow> bool"
  e_getActivePrompt :: "jsstring \<Rightarrow> jsval \<Rightarrow> analysis_prompt option"
  e_generatePrompt ::
    "analysis_prompt \<Rightarrow> jsval list \<Rightarrow> jsval \<Rightarrow> jsval \<Rightarrow> js_error + jsstring"
  e_generateVocabularyPrompt ::
    "analysis_prompt \<Rightarrow> jsval list \<Rightarrow> jsval \<Rightarrow> jsval \<Rightarrow> js_error + jsstring"
  e_JSON_parse :: "jsstring \<Rightarrow> jsval option"
  e_openai :: "provider_call list \<Rightarrow> jsstring \<Rightarrow> nat \<times> openai_outcome"
  e_fetch :: "provider_call list \<Rightarrow> jsstring \<Rightarrow> jsstring \<Rightarrow> jsval \<Rightarrow> nat \<times> fetch_outcome"
  e_renderTemplate :: "jsstring \<Rightarrow> jsval \<Rightarrow> js_error + rendered_email"
  e_resend :: "provider_call list \<Rightarrow> jsstring \<Rightarrow> rendered_email \<Rightarrow> nat \<times> resend_outcome"
  e_profile :: "jsstring \<Rightarrow> jsval"
  e_db_insert :: "db_call list \<Rightarrow> jsval \<Rightarrow> jsval \<times> jsstring option"
  e_db_select :: "db_call list \<Rightarrow> jsstring \<Rightarrow> jsval \<Rightarrow> jsval \<Rightarrow> jsval \<Rightarrow> jsval \<times> jsstring option"
  e_cache_set :: "nat \<Rightarrow> jsstring \<Rightarrow> jsstring option"

text \<open>
  \<open>w_clock\<close> is \<open>Date.now()\<close>. Only a provider call lets time pass: the awaits on the
  log sink, the database and the identity provider take no time here, so a duration or a
  timestamp is what the source computes up to the time those take. \<open>w_cache\<close> is the
  store of the cache: the value under a key and the time it expires, and \<open>w_cache_sets\<close>
  counts the calls of its \<open>set\<close>. \<open>w_response\<close> is the response sent: the first write wins, a
  later one finds the headers sent and changes nothing. \<open>w_invoked\<close> records each entry
  into a method of a provider adapter.
\<close>

record world =
  w_clock :: nat
  w_cache :: "jsstring \<Rightarrow> (jsval \<times> nat) option"
  w_cache_sets :: nat
  w_unified_logs :: "log_row list"
  w_sink_attempts :: nat
  w_console :: "console_line list"
  w_provider_calls :: "provider_call list"
  w_invoked :: "adapter_method list"
  w_db_calls :: "db_call list"
  w_response :: "(nat \<times> http_body) option"

text \<open>A computation that may raise: the outcome and the new state.\<close>

type_synonym 'a io = "world \<Rightarrow> (js_error + 'a) \<times> world"

definition io_return :: "'a \<Rightarrow> 'a io" where
  "io_return x = (\<lambda>w. (Inr x, w))"

definition io_throw :: "js_error \<Rightarrow> 'a io" where
  "io_throw e = (\<lambda>w. (Inl e, w))"

definition io_bind :: "'a io \<Rightarrow> ('a \<Rightarrow> 'b io) \<Rightarrow> 'b io" where
  "io_bind m f = (\<lambda>w. case m w of (Inl e, w') \<Rightarrow> (Inl e, w') | (Inr x, w') \<Rightarrow> f x w')"

text \<open>\<open>try { m } catch (error) { h error }\<close>\<close>

definition io_catch :: "'a io \<Rightarrow> (js_error \<Rightarrow> 'a io) \<Rightarrow> 'a io" where
  "io_catch m h = (\<lambda>w. case m w of (Inl e, w') \<Rightarrow> h e w' | (Inr x, w') \<Rightarrow> (Inr x, w'))"

definition io_lift :: "js_error + 'a \<Rightarrow> 'a io" where
  "io_lift r = (\<lambda>w. (r, w))"

definition io_now :: "nat io" where
  "io_now = (\<lambda>w. (Inr (w_clock w), w))"

definition io_invoked :: "adapter_method \<Rightarrow> unit io" where
  "io_invoked m = (\<lambda>w. (Inr (), w\<lparr>w_invoked := w_invoked w @ [m]\<rparr>))"

definition console_print :: "console_line \<Rightarrow> unit io" where
  "console_print l = (\<lambda>w. (Inr (), w\<lparr>w_console := w_console w @ [l]\<rparr>))"

text \<open>\<open>res.status(status).json(body)\<close> and \<open>res.status(status).end()\<close>.\<close>

definition res_send :: "nat \<Rightarrow> http_body \<Rightarrow> unit io" where
  "res_send status body =
     (\<lambda>w. (Inr (), if w_response w = None then w\<lparr>w_response := Some (status, body)\<rparr> else w))"

section \<open>Call logger (src/utils/logging.ts)\<close>

text \<open>
  \<open>supabase.from('unified_logs').insert(row)\<close>: the sink accepts the row, resolves to an
  \<open>{error}\<close> (here its message), or rejects.
\<close>

definition sink_insert :: "env \<Rightarrow> log_row \<Rightarrow> jsstring option io" where
  "sink_insert E row =
     (\<lambda>w. let w1 = w\<lparr>w_sink_attempts := Suc (w_sink_attempts w)\<rparr> in
        case e_sink E (w_sink_attempts w) row of
          SinkOk \<Rightarrow> (Inr None, w1\<lparr>w_unified_logs := w_unified_logs w1 @ [row]\<rparr>)
        | SinkError m \<Rightarrow> (Inr (Some m), w1)
        | SinkThrows m \<Rightarrow> (Inl (OtherError (ustr ''Error'') m), w1))"

text \<open>The argument of \<open>logApiCall\<close>, a \<open>Partial<LogEntry>\<close>. No caller passes headers.\<close>

record LogData =
  ld_serviceName :: "jsstring option"
  ld_endpoint :: "jsstring option"
  ld_method :: "jsstring option"
  ld_requestBody :: jsval
  ld_responseStatus :: "nat option"
  ld_responseBody :: jsval
  ld_duration :: "nat option"
  ld_errorMessage :: "jsstring option"

text \<open>The entry \<open>logApiCall\<close> builds: the defaults, overridden by what the caller gave.\<close>

definition logEntry_of :: "env \<Rightarrow> LogData \<Rightarrow> nat \<Rightarrow> LogEntry" where
  "logEntry_of E logData now =
     \<lparr>le_sessionId = e_sessionId E,
      le_serviceName = (case ld_serviceName logData of None \<Rightarrow> ustr ''unknown'' | Some s \<Rightarrow> s),
      le_endpoint = (case ld_endpoint logData of None \<Rightarrow> [] | Some s \<Rightarrow> s),
      le_method = (case ld_method logData of None \<Rightarrow> ustr ''GET'' | Some s \<Rightarrow> s),
      le_requestBody = ld_requestBody logData,
      le_responseStatus = ld_responseStatus logData,
      le_responseBody = ld_responseBody logData,
      le_duration = ld_duration logData,
      le_errorMessage = ld_errorMessage logData,
      le_timestamp = e_toISOString E now\<rparr>"

definition logApiCall :: "env \<Rightarrow> LogData \<Rightarrow> unit io" where
  "logApiCall E logData =
     (if \<not> e_logging_configured E then
        console_print (ConsoleLog (ustr ''Logging disabled - Supabase not configured''))
      else
        io_catch
          (io_bind io_now (\<lambda>now.
           io_bind (sink_insert E (ApiCallRow (logEntry_of E logData now))) (\<lambda>error.
             case error of
               Some m \<Rightarrow> console_print (ConsoleError (ustr ''Failed to log API call''))
             | None \<Rightarrow> console_print (ConsoleLog (ustr ''API call logged successfully'')))))
          (\<lambda>error. console_print (ConsoleError (ustr ''Logging service error''))))"

fun error_name :: "js_error \<Rightarrow> jsstring" where
  "error_name (ValidationError _ _) = ustr ''ValidationError''"
| "error_name (AuthenticationError _) = ustr ''AuthenticationError''"
| "error_name (AuthorizationError _) = ustr ''AuthorizationError''"
| "error_name (NotFoundError _) = ustr ''NotFoundError''"
| "error_name (ExternalAPIError _ _ _) = ustr ''ExternalAPIError''"
| "error_name (RateLimitError _) = ustr ''RateLimitError''"
| "error_name (InternalServerError _) = ustr ''InternalServerError''"
| "error_name (OtherError n _) = n"

definition logError :: "env \<Rightarrow> js_error \<Rightarrow> jsval \<Rightarrow> unit io" where
  "logError E error context =
     (if \<not> e_logging_configured E then
        console_print (ConsoleError (ustr ''Error logging disabled - Supabase not configured''))
      else
        io_catch
          (io_bind (sink_insert E (ErrorRow (error_message error) (error_name error) context))
             (\<lambda>logError.
                case logError of
                  Some m \<Rightarrow> console_print (ConsoleError (ustr ''Failed to log error''))
                | None \<Rightarrow> io_return ()))
          (\<lambda>logErr. console_print (ConsoleError (ustr ''Error logging failed''))))"

definition logCacheOperation :: "env \<Rightarrow> jsstring \<Rightarrow> jsstring \<Rightarrow> jsstring \<Rightarrow> unit io" where
  "logCacheOperation E operation key serviceName =
     io_bind
       (console_print
          (ConsoleLog (ustr ''Cache '' @ operation @ ustr '': '' @ key @ ustr '' ('' @ serviceName
                       @ ustr '')'')))
       (\<lambda>_. if e_logging_configured E then
              io_catch
                (io_bind (sink_insert E (CacheRow operation key serviceName)) (\<lambda>_. io_return ()))
                (\<lambda>error. console_print (ConsoleWarn (ustr ''Cache logging failed'')))
            else io_return ())"

section \<open>Cache (utils/cache.ts)\<close>

datatype cache_service = openai | elevenlabs | user_profiles | email_templates

fun serviceTTLs :: "cache_service \<Rightarrow> nat" where
  "serviceTTLs openai = 7200"
| "serviceTTLs elevenlabs = 3600"
| "serviceTTLs user_profiles = 1800"
| "serviceTTLs email_templates = 86400"

definition defaultTTL :: nat where
  "defaultTTL = 3600"

text \<open>
  \<open>CacheService.get\<close> and \<open>set\<close> hand over to the node-cache library: \<open>set\<close> stores the
  value with the time it expires (\<open>ttl\<close> seconds from now), \<open>get\<close> yields the value while
  that time has not passed and \<open>undefined\<close> otherwise. \<open>get\<close> does not raise for a string
  key. Whether a \<open>set\<close> raises is the library's affair, outside the repository: the oracle
  \<open>e_cache_set\<close> gives, for the count of earlier calls and the key, the message of the
  error raised, or \<open>None\<close> when the value is stored. \<open>CacheService.set\<close> has no guard of
  its own.
\<close>

definition cache_lookup :: "world \<Rightarrow> jsstring \<Rightarrow> jsval" where
  "cache_lookup w key =
     (case w_cache w key of
        None \<Rightarrow> JUndefined
      | Some (v, t) \<Rightarrow> if t < w_clock w then JUndefined else v)"

definition cache_get :: "jsstring \<Rightarrow> jsval io" where
  "cache_get key = (\<lambda>w. (Inr (cache_lookup w key), w))"

definition cache_set :: "env \<Rightarrow> jsstring \<Rightarrow> jsval \<Rightarrow> cache_service option \<Rightarrow> bool io" where
  "cache_set E key data service =
     (\<lambda>w. let ttl = (case service of Some s \<Rightarrow> serviceTTLs s | None \<Rightarrow> defaultTTL) in
        case e_cache_set E (w_cache_sets w) key of
          Some m \<Rightarrow>
            (Inl (OtherError (ustr ''Error'') m), w\<lparr>w_cache_sets := Suc (w_cache_sets w)\<rparr>)
        | None \<Rightarrow>
            (Inr True, w\<lparr>w_cache := (w_cache w)(key \<mapsto> (data, w_clock w + ttl * 1000)),
                          w_cache_sets := Suc (w_cache_sets w)\<rparr>))"

section \<open>Authenticator, continued\<close>

text \<open>
  Of a request: the method, the URL, the headers the code reads, the parsed JSON body
  (\<open>undefined\<close> without one) and the query parameters (an object of strings).
\<close>

record request =
  rq_method :: jsstring
  rq_url :: jsstring
  rq_authorization :: "jsstring option"
  rq_x_api_key :: "jsstring option"
  rq_user_agent :: "jsstring option"
  rq_body :: jsval
  rq_query :: jsval

definition authenticateJWT :: "env \<Rightarrow> jsstring \<Rightarrow> js_error + AuthContext" where
  "authenticateJWT E authHeader =
     (if authHeader = [] \<or> take 7 authHeader \<noteq> ustr ''Bearer '' then
        Inl (AuthenticationError (ustr ''Invalid authorization header''))
      else
        (let token = drop 7 authHeader in
         case e_getUser E token of
           GetUserRejects \<Rightarrow> Inl (AuthenticationError (ustr ''Token validation failed''))
         | GetUserResult user error \<Rightarrow>
             (case user of
                None \<Rightarrow> Inl (AuthenticationError (ustr ''Invalid or expired token''))
              | Some u \<Rightarrow>
                  if error then Inl (AuthenticationError (ustr ''Invalid or expired token''))
                  else Inr \<lparr>userId = u_id u,
                            email = (case u_email u of None \<Rightarrow> [] | Some m \<Rightarrow> m),
                            authMethod = jwt\<rparr>)))"

definition authenticate :: "env \<Rightarrow> request \<Rightarrow> js_error + AuthContext" where
  "authenticate E req =
     (case rq_authorization req of
        Some authHeader \<Rightarrow>
          if authHeader \<noteq> [] then authenticateJWT E authHeader
          else
            (case rq_x_api_key req of
               Some apiKey \<Rightarrow>
                 if apiKey \<noteq> [] then authenticateAPIKey (e_API_SECRET_KEY E) apiKey
                 else Inl (AuthenticationError (ustr ''No authentication provided''))
             | None \<Rightarrow> Inl (AuthenticationError (ustr ''No authentication provided'')))
      | None \<Rightarrow>
          (case rq_x_api_key req of
             Some apiKey \<Rightarrow>
               if apiKey \<noteq> [] then authenticateAPIKey (e_API_SECRET_KEY E) apiKey
               else Inl (AuthenticationError (ustr ''No authentication provided''))
           | None \<Rightarrow> Inl (AuthenticationError (ustr ''No authentication provided''))))"

fun is_AuthenticationError :: "js_error \<Rightarrow> bool" where
  "is_AuthenticationError (AuthenticationError _) = True"
| "is_AuthenticationError _ = False"

text \<open>\<open>authMiddleware\<close>: on failure it answers itself and raises the error again.\<close>

definition authMiddleware :: "env \<Rightarrow> request \<Rightarrow> AuthContext io" where
  "authMiddleware E req =
     (case authenticate E req of
        Inr authContext \<Rightarrow> io_return authContext
      | Inl error \<Rightarrow>
          io_bind io_now (\<lambda>now.
          io_bind
            (res_send (if is_AuthenticationError error then 401 else 500)
               (Json (JObj [(ustr ''error'', JStr (ustr ''Authentication Error'')),
                            (ustr ''message'', JStr (error_message error)),
                            (ustr ''timestamp'', JStr (e_toISOString E now))])))
            (\<lambda>_. io_throw error)))"

section \<open>Error handler (src/utils/errors.ts), continued\<close>

fun isRetryable :: "js_error \<Rightarrow> bool" where
  "isRetryable (RateLimitError _) = True"
| "isRetryable (ExternalAPIError _ _ _) = True"
| "isRetryable (InternalServerError _) = True"
| "isRetryable _ = False"

text \<open>\<open>ErrorHandler.logError\<close>: the context of the caller, extended.\<close>

definition ErrorHandler_logError :: "env \<Rightarrow> js_error \<Rightarrow> (jsstring \<times> jsval) list \<Rightarrow> unit io" where
  "ErrorHandler_logError E error context =
     logError E error
       (JObj (context @
              [(ustr ''errorType'', JStr (error_name error)),
               (ustr ''statusCode'', JNum (of_nat (getStatusCode error))),
               (ustr ''isRetryable'', JBool (isRetryable error))]))"

definition handleError ::
  "env \<Rightarrow> js_error \<Rightarrow> (jsstring \<times> jsval) list \<Rightarrow> (nat \<times> ErrorResponse) io" where
  "handleError E error context =
     io_bind (ErrorHandler_logError E error context) (\<lambda>_.
     io_bind io_now (\<lambda>now.
       let errorResponse = createErrorResponse (e_production E) (e_toISOString E now) error;
           statusCode = getStatusCode error
       in io_return (statusCode, errorResponse)))"

definition from_opt_string :: "jsstring option \<Rightarrow> jsval" where
  "from_opt_string s = (case s of None \<Rightarrow> JUndefined | Some x \<Rightarrow> JStr x)"

text \<open>\<open>asyncHandler(fn)\<close> applied to a request.\<close>

definition asyncHandler :: "env \<Rightarrow> request \<Rightarrow> unit io \<Rightarrow> unit io" where
  "asyncHandler E req fn =
     io_catch fn
       (\<lambda>error.
          io_bind
            (handleError E error
               [(ustr ''endpoint'', JStr (rq_url req)),
                (ustr ''method'', JStr (rq_method req)),
                (ustr ''userAgent'', from_opt_string (rq_user_agent req))])
            (\<lambda>(statusCode, body). res_send statusCode (ErrorBody body)))"

section \<open>Completion adapter (src/services/OpenAIService.ts)\<close>

definition getFallbackAnalysis :: jsval where
  "getFallbackAnalysis =
     JObj [(ustr ''summary'', JStr (ustr ''Conversation analysis failed - using fallback summary'')),
           (ustr ''keyTopics'', JArr [JStr (ustr ''conversation''), JStr (ustr ''language practice'')]),
           (ustr ''userInsights'',
              JObj [(ustr ''languageLevel'', JStr (ustr ''Unknown'')),
                    (ustr ''commonMistakes'', JArr []),
                    (ustr ''interests'', JArr []),
                    (ustr ''learningStyle'', JStr (ustr ''practical'')),
                    (ustr ''strengths'', JArr []),
                    (ustr ''areasForImprovement'', JArr [])]),
           (ustr ''conversationType'', JStr (ustr ''general'')),
           (ustr ''learningProgress'',
              JObj [(ustr ''vocabularyProgress'', JStr (ustr ''Not assessed'')),
                    (ustr ''grammarProgress'', JStr (ustr ''Not assessed'')),
                    (ustr ''fluencyProgress'', JStr (ustr ''Not assessed''))])]"

text \<open>\<open>responseText.match(/\\{[\\s\\S]*\\}/)\<close>: from the first opening brace to the last
  closing brace after it.\<close>

definition jsonMatch :: "jsstring \<Rightarrow> jsstring option" where
  "jsonMatch responseText =
     (case dropWhile (\<lambda>c. c \<noteq> 0x7B) responseText of
        [] \<Rightarrow> None
      | b # rest \<Rightarrow>
          (case dropWhile (\<lambda>c. c \<noteq> 0x7D) (rev rest) of
             [] \<Rightarrow> None
           | r \<Rightarrow> Some (b # rev r)))"

text \<open>\<open>v || d\<close> and \<open>Array.isArray(v) ? v : []\<close>\<close>

definition or_default :: "jsval \<Rightarrow> jsstring \<Rightarrow> jsval" where
  "or_default v d = (if truthy v then v else JStr d)"

definition array_or_empty :: "jsval \<Rightarrow> jsval" where
  "array_or_empty v = (case v of JArr xs \<Rightarrow> v | _ \<Rightarrow> JArr [])"

text \<open>
  \<open>parseAnalysisResponse\<close>. \<open>JSON.parse\<close> is the oracle \<open>e_JSON_parse\<close> (\<open>None\<close> when it
  raises); every error inside is caught and answered with the fallback analysis.
\<close>

definition parseAnalysisResponse :: "env \<Rightarrow> jsval \<Rightarrow> jsval" where
  "parseAnalysisResponse E responseText =
     (case responseText of
        JStr text \<Rightarrow>
          (case jsonMatch text of
             None \<Rightarrow> getFallbackAnalysis
           | Some m \<Rightarrow>
               (case e_JSON_parse E m of
                  None \<Rightarrow> getFallbackAnalysis
                | Some analysis \<Rightarrow>
                    if nullish analysis then getFallbackAnalysis
                    else
                      (let ui = get_prop analysis (ustr ''userInsights'');
                           lp = get_prop analysis (ustr ''learningProgress'')
                       in JObj
                         [(ustr ''summary'',
                             or_default (get_prop analysis (ustr ''summary''))
                               (ustr ''No summary available'')),
                          (ustr ''keyTopics'',
                             array_or_empty (get_prop analysis (ustr ''keyTopics''))),
                          (ustr ''userInsights'',
                             JObj
                               [(ustr ''languageLevel'',
                                   or_default (opt_member ui (ustr ''languageLevel''))
                                     (ustr ''Unknown'')),
                                (ustr ''commonMistakes'',
                                   array_or_empty (opt_member ui (ustr ''commonMistakes''))),
                                (ustr ''interests'',
                                   array_or_empty (opt_member ui (ustr ''interests''))),
                                (ustr ''learningStyle'',
                                   or_default (opt_member ui (ustr ''learningStyle''))
                                     (ustr ''practical'')),
                                (ustr ''strengths'',
                                   array_or_empty (opt_member ui (ustr ''strengths''))),
                                (ustr ''areasForImprovement'',
                                   array_or_empty (opt_member ui (ustr ''areasForImprovement'')))]),
                          (ustr ''conversationType'',
                             or_default (get_prop analysis (ustr ''conversationType''))
                               (ustr ''general'')),
                          (ustr ''learningProgress'',
                             JObj
                               [(ustr ''vocabularyProgress'',
                                   or_default (opt_member lp (ustr ''vocabularyProgress''))
                                     (ustr ''Not assessed'')),
                                (ustr ''grammarProgress'',
                                   or_default (opt_member lp (ustr ''grammarProgress''))
                                     (ustr ''Not assessed'')),
                                (ustr ''fluencyProgress'',
                                   or_default (opt_member lp (ustr ''fluencyProgress''))
                                     (ustr ''Not assessed''))])])))
      | _ \<Rightarrow> getFallbackAnalysis)"

text \<open>The call to the completion provider: it is recorded, takes its time, and raises
  when the provider rejects.\<close>

definition openai_create :: "env \<Rightarrow> jsstring \<Rightarrow> jsval io" where
  "openai_create E generatedPrompt =
     (\<lambda>w. let (ms, outcome) = e_openai E (w_provider_calls w) generatedPrompt;
              w1 = w\<lparr>w_provider_calls := w_provider_calls w @ [OpenAICall generatedPrompt],
                     w_clock := w_clock w + ms\<rparr>
          in case outcome of
               OpenAIRejects m \<Rightarrow> (Inl (OtherError (ustr ''Error'') m), w1)
             | OpenAIContent c \<Rightarrow> (Inr c, w1))"

definition openai_endpoint :: jsstring where
  "openai_endpoint = ustr ''https://api.openai.com/v1/chat/completions''"

text \<open>
  \<open>analyzeConversation\<close>. The text of the prompt (\<open>generatePrompt\<close> over the conversation
  text and the profile, by \<open>String.prototype.replace\<close>) is the oracle \<open>e_generatePrompt\<close>,
  which may raise a \<open>TypeError\<close> on ill-typed fields; it only flows into the provider call.
\<close>

definition openai_logged :: "nat \<Rightarrow> nat \<Rightarrow> jsval \<Rightarrow> jsval \<Rightarrow> jsstring option \<Rightarrow> LogData" where
  "openai_logged status duration requestBody responseBody errorMessage =
     \<lparr>ld_serviceName = Some (ustr ''openai''),
      ld_endpoint = Some openai_endpoint,
      ld_method = Some (ustr ''POST''),
      ld_requestBody = requestBody,
      ld_responseStatus = Some status,
      ld_responseBody = responseBody,
      ld_duration = Some duration,
      ld_errorMessage = errorMessage\<rparr>"

text \<open>\<open>userProfile?.interface_language || 'en'\<close>\<close>

definition languageCode_of :: "jsval \<Rightarrow> jsval" where
  "languageCode_of userProfile =
     (let il = opt_member userProfile (ustr ''interface_language'')
      in if truthy il then il else JStr (ustr ''en''))"

text \<open>The \<open>try\<close> block after a cache miss.\<close>

definition analyze_miss ::
  "env \<Rightarrow> nat \<Rightarrow> jsstring \<Rightarrow> jsval list \<Rightarrow> jsval \<Rightarrow> jsval \<Rightarrow> jsval io" where
  "analyze_miss E startTime cacheKey messages userProfile studyTopic =
     (let conversationType = ustr ''general'';
          languageCode = languageCode_of userProfile
      in case e_getActivePrompt E conversationType languageCode of
           None \<Rightarrow>
             io_throw (OtherError (ustr ''Error'')
               (ustr ''No active prompt found for conversation type: '' @ conversationType
                @ ustr '', language: '' @ e_toString E languageCode))
         | Some prompt \<Rightarrow>
             io_bind (io_lift (e_generatePrompt E prompt messages userProfile studyTopic))
               (\<lambda>generatedPrompt.
             io_bind (openai_create E generatedPrompt) (\<lambda>analysisText.
             io_bind io_now (\<lambda>t1.
             if \<not> truthy analysisText then
               io_throw (OtherError (ustr ''Error'') (ustr ''No analysis received from OpenAI''))
             else
               io_bind (io_return (parseAnalysisResponse E analysisText)) (\<lambda>analysis.
               io_bind (cache_set E cacheKey analysis (Some openai)) (\<lambda>_.
               io_bind
                 (logApiCall E
                    (openai_logged 200 (t1 - startTime)
                       (JObj [(ustr ''model'', JStr (ustr ''gpt-4o-mini'')),
                              (ustr ''messageCount'', JNum (of_nat (length messages))),
                              (ustr ''hasStudyTopic'', JBool (truthy studyTopic))])
                       (JObj [(ustr ''analysis'', JStr (ustr ''success''))])
                       None))
                 (\<lambda>_. io_return analysis)))))))"

text \<open>The \<open>catch\<close> block.\<close>

definition analyze_failed :: "env \<Rightarrow> nat \<Rightarrow> js_error \<Rightarrow> jsval io" where
  "analyze_failed E startTime error =
     io_bind io_now (\<lambda>t.
     io_bind
       (logApiCall E
          (openai_logged 500 (t - startTime) JUndefined JUndefined (Some (error_message error))))
       (\<lambda>_. io_return getFallbackAnalysis))"

definition analyzeConversation :: "env \<Rightarrow> jsval list \<Rightarrow> jsval \<Rightarrow> jsval \<Rightarrow> jsval io" where
  "analyzeConversation E messages userProfile studyTopic =
     io_bind (io_invoked M_analyzeConversation) (\<lambda>_.
     io_bind io_now (\<lambda>startTime.
     io_catch
       (io_bind
          (io_lift (generateOpenAIKey (e_numberToString E) messages userProfile studyTopic
                      JUndefined))
          (\<lambda>cacheKey.
        io_bind (cache_get cacheKey) (\<lambda>cached.
        if truthy cached then
          io_bind (logCacheOperation E (ustr ''hit'') cacheKey (ustr ''openai'')) (\<lambda>_.
          io_return cached)
        else
          io_bind (logCacheOperation E (ustr ''miss'') cacheKey (ustr ''openai'')) (\<lambda>_.
          analyze_miss E startTime cacheKey messages userProfile studyTopic))))
       (analyze_failed E startTime)))"

text \<open>
  \<open>analyzeVocabularyPractice\<close>: the same shape with the conversation type
  \<open>vocabulary_practice\<close>, the vocabulary context in the key and in the prompt (the oracle
  \<open>e_generateVocabularyPrompt\<close>), and its own summary of the request in the log.
\<close>

definition vocabulary_miss ::
  "env \<Rightarrow> nat \<Rightarrow> jsstring \<Rightarrow> jsval list \<Rightarrow> jsval \<Rightarrow> jsval \<Rightarrow> jsval io" where
  "vocabulary_miss E startTime cacheKey messages userProfile vocabularyContext =
     (let conversationType = ustr ''vocabulary_practice'';
          languageCode = languageCode_of userProfile
      in case e_getActivePrompt E conversationType languageCode of
           None \<Rightarrow>
             io_throw (OtherError (ustr ''Error'')
               (ustr ''No active prompt found for conversation type: '' @ conversationType
                @ ustr '', language: '' @ e_toString E languageCode))
         | Some prompt \<Rightarrow>
             io_bind
               (io_lift (e_generateVocabularyPrompt E prompt messages userProfile
                           vocabularyContext))
               (\<lambda>generatedPrompt.
             io_bind (openai_create E generatedPrompt) (\<lambda>analysisText.
             io_bind io_now (\<lambda>t1.
             if \<not> truthy analysisText then
               io_throw (OtherError (ustr ''Error'') (ustr ''No analysis received from OpenAI''))
             else
               io_bind (io_return (parseAnalysisResponse E analysisText)) (\<lambda>analysis.
               io_bind (cache_set E cacheKey analysis (Some openai)) (\<lambda>_.
               io_bind
                 (logApiCall E
                    (openai_logged 200 (t1 - startTime)
                       (JObj [(ustr ''model'', JStr (ustr ''gpt-4o-mini'')),
                              (ustr ''messageCount'', JNum (of_nat (length messages))),
                              (ustr ''hasVocabularyContext'', JBool True)])
                       (JObj [(ustr ''analysis'', JStr (ustr ''success''))])
                       None))
                 (\<lambda>_. io_return analysis)))))))"

definition analyzeVocabularyPractice :: "env \<Rightarrow> jsval list \<Rightarrow> jsval \<Rightarrow> jsval \<Rightarrow> jsval io" where
  "analyzeVocabularyPractice E messages userProfile vocabularyContext =
     io_bind (io_invoked M_analyzeVocabularyPractice) (\<lambda>_.
     io_bind io_now (\<lambda>startTime.
     io_catch
       (io_bind
          (io_lift (generateOpenAIKey (e_numberToString E) messages userProfile JUndefined
                      vocabularyContext))
          (\<lambda>cacheKey.
        io_bind (cache_get cacheKey) (\<lambda>cached.
        if truthy cached then
          io_bind (logCacheOperation E (ustr ''hit'') cacheKey (ustr ''openai'')) (\<lambda>_.
          io_return cached)
        else
          io_bind (logCacheOperation E (ustr ''miss'') cacheKey (ustr ''openai'')) (\<lambda>_.
          vocabulary_miss E startTime cacheKey messages userProfile vocabularyContext))))
       (analyze_failed E startTime)))"

section \<open>Voice adapter (services/ElevenLabsService.ts)\<close>

definition baseUrl :: jsstring where
  "baseUrl = ustr ''https://api.elevenlabs.io/v1''"

text \<open>
  An array index as a property name: the canonical decimal text of an integer below
  \<open>2^32 - 1\<close> (\<open>0\<close>, or digits not starting with \<open>0\<close>).
\<close>

definition is_digit :: "16 word \<Rightarrow> bool" where
  "is_digit c = (0x30 \<le> c \<and> c \<le> 0x39)"

definition array_index :: "jsstring \<Rightarrow> nat option" where
  "array_index k =
     (if k = [] then None
      else if \<not> list_all is_digit k then None
      else if hd k = 0x30 \<and> 1 < length k then None
      else (let n = foldl (\<lambda>a c. 10 * a + (unat c - 48)) 0 k
            in if n < 2 ^ 32 - 1 then Some n else None))"

text \<open>
  Defining one property, as object spread \<open>{...base, ...ext}\<close> does for each property of
  \<open>ext\<close>: a name already there keeps its place and takes the new value; a new array
  index goes among the array indices, in ascending order, before every other name; any
  other new name goes to the end.
\<close>

fun insert_index ::
  "nat \<Rightarrow> jsstring \<Rightarrow> jsval \<Rightarrow> (jsstring \<times> jsval) list \<Rightarrow> (jsstring \<times> jsval) list" where
  "insert_index n k v [] = [(k, v)]"
| "insert_index n k v ((k', v') # kvs) =
     (case array_index k' of
        None \<Rightarrow> (k, v) # (k', v') # kvs
      | Some m \<Rightarrow> if m < n then (k', v') # insert_index n k v kvs else (k, v) # (k', v') # kvs)"

definition obj_assign :: "(jsstring \<times> jsval) list \<Rightarrow> jsstring \<Rightarrow> jsval \<Rightarrow> (jsstring \<times> jsval) list" where
  "obj_assign kvs k v =
     (if k \<in> set (map fst kvs) then map (\<lambda>(k', v'). if k' = k then (k, v) else (k', v')) kvs
      else (case array_index k of
              None \<Rightarrow> kvs @ [(k, v)]
            | Some n \<Rightarrow> insert_index n k v kvs))"

definition obj_spread ::
  "(jsstring \<times> jsval) list \<Rightarrow> (jsstring \<times> jsval) list \<Rightarrow> (jsstring \<times> jsval) list" where
  "obj_spread base ext = foldl (\<lambda>acc (k, v). obj_assign acc k v) base ext"

record fetch_response =
  fr_ok :: bool
  fr_status :: nat
  fr_text :: jsstring
  fr_json :: "jsval option"

text \<open>The call to the voice provider: recorded, takes its time, raises when \<open>fetch\<close>
  rejects.\<close>

definition fetch_call :: "env \<Rightarrow> jsstring \<Rightarrow> jsstring \<Rightarrow> jsval \<Rightarrow> fetch_response io" where
  "fetch_call E method endpoint body =
     (\<lambda>w. let (ms, outcome) = e_fetch E (w_provider_calls w) method endpoint body;
              w1 = w\<lparr>w_provider_calls := w_provider_calls w @ [FetchCall method endpoint body],
                     w_clock := w_clock w + ms\<rparr>
          in case outcome of
               FetchRejects m \<Rightarrow> (Inl (OtherError (ustr ''Error'') m), w1)
             | FetchResponse ok status txt js \<Rightarrow>
                 (Inr \<lparr>fr_ok = ok, fr_status = status, fr_text = txt, fr_json = js\<rparr>, w1))"

text \<open>\<open>await response.json()\<close>\<close>

definition response_json :: "fetch_response \<Rightarrow> jsval io" where
  "response_json response =
     (case fr_json response of
        None \<Rightarrow> io_throw (OtherError (ustr ''SyntaxError'') (ustr ''Unexpected token''))
      | Some data \<Rightarrow> io_return data)"

definition elevenlabs_api_error :: "env \<Rightarrow> fetch_response \<Rightarrow> js_error" where
  "elevenlabs_api_error E response =
     OtherError (ustr ''Error'')
       (ustr ''ElevenLabs API error: '' @ e_numberToString E (of_nat (fr_status response))
        @ ustr '' - '' @ fr_text response)"

definition elevenlabs_logged ::
  "jsstring \<Rightarrow> jsstring \<Rightarrow> nat \<Rightarrow> nat \<Rightarrow> jsval \<Rightarrow> jsval \<Rightarrow> jsstring option \<Rightarrow> LogData" where
  "elevenlabs_logged endpoint method status duration requestBody responseBody errorMessage =
     \<lparr>ld_serviceName = Some (ustr ''elevenlabs''),
      ld_endpoint = Some endpoint,
      ld_method = Some method,
      ld_requestBody = requestBody,
      ld_responseStatus = Some status,
      ld_responseBody = responseBody,
      ld_duration = Some duration,
      ld_errorMessage = errorMessage\<rparr>"

text \<open>The \<open>catch\<close> block shared in shape by the four methods: log the failure, raise an
  \<open>ExternalAPIError\<close>.\<close>

definition elevenlabs_failed ::
  "env \<Rightarrow> nat \<Rightarrow> jsstring \<Rightarrow> jsstring \<Rightarrow> jsstring \<Rightarrow> js_error \<Rightarrow> 'a io" where
  "elevenlabs_failed E startTime endpoint method message error =
     io_bind io_now (\<lambda>t.
     io_bind
       (logApiCall E
          (elevenlabs_logged endpoint method 500 (t - startTime) JUndefined JUndefined
             (Some (error_message error))))
       (\<lambda>_. io_throw (ExternalAPIError message (ustr ''elevenlabs'') (Some error))))"

text \<open>The body shared by \<open>startConversation\<close>, \<open>sendMessage\<close> and \<open>endConversation\<close>:
  call, check \<open>response.ok\<close>, read the JSON, log, return it.\<close>

definition conversation_call ::
  "env \<Rightarrow> nat \<Rightarrow> jsstring \<Rightarrow> jsstring \<Rightarrow> jsval \<Rightarrow> jsval io" where
  "conversation_call E startTime method endpoint requestBody =
     io_bind (fetch_call E method endpoint requestBody) (\<lambda>response.
     io_bind io_now (\<lambda>t1.
     if \<not> fr_ok response then io_throw (elevenlabs_api_error E response)
     else
       io_bind (response_json response) (\<lambda>data.
       io_bind
         (logApiCall E
            (elevenlabs_logged endpoint method (fr_status response) (t1 - startTime)
               requestBody data None))
         (\<lambda>_. io_return data))))"

definition startConversation :: "env \<Rightarrow> jsstring \<Rightarrow> (jsstring \<times> jsval) list option \<Rightarrow> jsval io" where
  "startConversation E agentId config =
     io_bind (io_invoked M_startConversation) (\<lambda>_.
     io_bind io_now (\<lambda>startTime.
     let endpoint = baseUrl @ ustr ''/convai/conversation'' in
     io_catch
       (conversation_call E startTime (ustr ''POST'') endpoint
          (JObj (obj_spread [(ustr ''agent_id'', JStr agentId)]
                   (case config of None \<Rightarrow> [] | Some c \<Rightarrow> c))))
       (elevenlabs_failed E startTime endpoint (ustr ''POST'')
          (ustr ''Failed to start ElevenLabs conversation''))))"

definition sendMessage ::
  "env \<Rightarrow> jsstring \<Rightarrow> jsstring \<Rightarrow> (jsstring \<times> jsval) list option \<Rightarrow> jsval io" where
  "sendMessage E conversationId message config =
     io_bind (io_invoked M_sendMessage) (\<lambda>_.
     io_bind io_now (\<lambda>startTime.
     let endpoint = baseUrl @ ustr ''/convai/conversation/'' @ conversationId @ ustr ''/message'' in
     io_catch
       (conversation_call E startTime (ustr ''POST'') endpoint
          (JObj (obj_spread [(ustr ''message'', JStr message)]
                   (case config of None \<Rightarrow> [] | Some c \<Rightarrow> c))))
       (elevenlabs_failed E startTime endpoint (ustr ''POST'')
          (ustr ''Failed to send message to ElevenLabs conversation''))))"

definition endConversation :: "env \<Rightarrow> jsstring \<Rightarrow> jsval io" where
  "endConversation E conversationId =
     io_bind (io_invoked M_endConversation) (\<lambda>_.
     io_bind io_now (\<lambda>startTime.
     let endpoint = baseUrl @ ustr ''/convai/conversation/'' @ conversationId in
     io_catch
       (conversation_call E startTime (ustr ''DELETE'') endpoint JUndefined)
       (elevenlabs_failed E startTime endpoint (ustr ''DELETE'')
          (ustr ''Failed to end ElevenLabs conversation''))))"

text \<open>\<open>Math.round(duration / 1000)\<close> on a non-negative integer.\<close>

definition round_seconds :: "nat \<Rightarrow> nat" where
  "round_seconds duration = (duration + 500) div 1000"

definition voice_endpoint :: "jsstring \<Rightarrow> jsstring" where
  "voice_endpoint voiceId = baseUrl @ ustr ''/text-to-speech/'' @ voiceId"

definition voice_requestBody :: "jsstring \<Rightarrow> (jsstring \<times> jsval) list \<Rightarrow> jsval" where
  "voice_requestBody text settings =
     JObj [(ustr ''text'', JStr text),
           (ustr ''model_id'', JStr (ustr ''eleven_multilingual_v2'')),
           (ustr ''voice_settings'',
              JObj (obj_spread [(ustr ''stability'', JNum (1 / 2)),
                                (ustr ''similarity_boost'', JNum (1 / 2))] settings))]"

text \<open>\<open>settings = {}\<close>: the default of the parameter.\<close>

definition settings_or_empty :: "(jsstring \<times> jsval) list option \<Rightarrow> (jsstring \<times> jsval) list" where
  "settings_or_empty settings_arg = (case settings_arg of None \<Rightarrow> [] | Some s \<Rightarrow> s)"

text \<open>The \<open>try\<close> block of \<open>generateVoice\<close> after a cache miss.\<close>

definition voice_miss ::
  "env \<Rightarrow> nat \<Rightarrow> jsstring \<Rightarrow> jsstring \<Rightarrow> jsstring \<Rightarrow> (jsstring \<times> jsval) list \<Rightarrow> jsval io" where
  "voice_miss E startTime cacheKey text voiceId settings =
     (let endpoint = voice_endpoint voiceId;
          requestBody = voice_requestBody text settings
      in io_bind (fetch_call E (ustr ''POST'') endpoint requestBody) (\<lambda>response.
         io_bind io_now (\<lambda>t1.
         if \<not> fr_ok response then io_throw (elevenlabs_api_error E response)
         else
           (let audioUrl = ustr ''https://api.elevenlabs.io/v1/text-to-speech/'' @ voiceId
                  @ ustr ''/generated_'' @ e_numberToString E (of_nat t1) @ ustr ''.mp3'';
                seconds = JNum (of_nat (round_seconds (t1 - startTime)));
                result = JObj [(ustr ''audioUrl'', JStr audioUrl), (ustr ''duration'', seconds)]
            in io_bind (cache_set E cacheKey result (Some elevenlabs)) (\<lambda>_.
               io_bind
                 (logApiCall E
                    (elevenlabs_logged endpoint (ustr ''POST'') (fr_status response)
                       (t1 - startTime) requestBody
                       (JObj [(ustr ''audioUrl'', JStr audioUrl), (ustr ''duration'', seconds)])
                       None))
                 (\<lambda>_. io_return result))))))"

text \<open>\<open>generateVoice(text, voiceId, settings = {})\<close>: \<open>settings\<close> is the validated object
  of the schema, or absent.\<close>

definition generateVoice ::
  "env \<Rightarrow> jsstring \<Rightarrow> jsstring \<Rightarrow> (jsstring \<times> jsval) list option \<Rightarrow> jsval io" where
  "generateVoice E text voiceId settings_arg =
     (let settings = settings_or_empty settings_arg in
      io_bind (io_invoked M_generateVoice) (\<lambda>_.
      io_bind io_now (\<lambda>startTime.
      io_catch
        (let cacheKey =
               generateElevenLabsVoiceKey (e_numberToString E) text voiceId (JObj settings)
         in io_bind (cache_get cacheKey) (\<lambda>cached.
            if truthy cached then
              io_bind (logCacheOperation E (ustr ''hit'') cacheKey (ustr ''elevenlabs'')) (\<lambda>_.
              io_return cached)
            else
              io_bind (logCacheOperation E (ustr ''miss'') cacheKey (ustr ''elevenlabs'')) (\<lambda>_.
              voice_miss E startTime cacheKey text voiceId settings)))
        (elevenlabs_failed E startTime (voice_endpoint voiceId)
           (ustr ''POST'') (ustr ''Failed to generate voice with ElevenLabs'')))))"

section \<open>Email adapter (services/ResendService.ts)\<close>

record EmailData =
  emailType :: jsstring
  to :: jsstring
  data :: jsval

definition getRequiredFields :: "jsstring \<Rightarrow> js_error + jsstring list" where
  "getRequiredFields et =
     (if et = ustr ''student_invitation'' then
        Inr [ustr ''studentName'', ustr ''teacherName'', ustr ''invitationLink'', ustr ''language'']
      else if et = ustr ''teacher_invitation'' then
        Inr [ustr ''teacherName'', ustr ''studentName'', ustr ''invitationLink'', ustr ''language'']
      else if et = ustr ''contact'' then
        Inr [ustr ''name'', ustr ''email'', ustr ''message'']
      else if et = ustr ''welcome'' then
        Inr [ustr ''userName'', ustr ''language'', ustr ''dashboardLink'']
      else Inl (ValidationError (ustr ''Unknown email type: '' @ et) None))"

definition validateEmailData :: "jsstring \<Rightarrow> jsval \<Rightarrow> js_error + unit" where
  "validateEmailData et d =
     (case getRequiredFields et of
        Inl e \<Rightarrow> Inl e
      | Inr requiredFields \<Rightarrow>
          if requiredFields \<noteq> [] \<and> nullish d then
            Inl (OtherError (ustr ''TypeError'') (cannot_read d (hd requiredFields)))
          else
            (let missingFields = filter (\<lambda>field. \<not> truthy (get_prop d field)) requiredFields in
             if length missingFields > 0 then
               Inl (ValidationError
                      (ustr ''Missing required fields for '' @ et @ ustr '': ''
                       @ join (ustr '', '') missingFields) None)
             else Inr ()))"

text \<open>
  \<open>renderEmailTemplate\<close>: the \<open>switch\<close> over the four templates. What a template renders
  (template literals over the data, which may raise a \<open>TypeError\<close> on an ill-typed field)
  is the oracle \<open>e_renderTemplate\<close>; it only flows into the provider call and the log.
\<close>

definition renderEmailTemplate :: "env \<Rightarrow> jsstring \<Rightarrow> jsval \<Rightarrow> js_error + rendered_email" where
  "renderEmailTemplate E et d =
     (if et = ustr ''student_invitation'' \<or> et = ustr ''teacher_invitation''
         \<or> et = ustr ''contact'' \<or> et = ustr ''welcome''
      then e_renderTemplate E et d
      else Inl (ValidationError (ustr ''Unknown email type: '' @ et) None))"

text \<open>The call to the email provider: recorded, takes its time, raises when it rejects.\<close>

definition resend_send :: "env \<Rightarrow> jsstring \<Rightarrow> rendered_email \<Rightarrow> (jsval \<times> jsstring option) io" where
  "resend_send E recipient rendered =
     (\<lambda>w. let (ms, outcome) = e_resend E (w_provider_calls w) recipient rendered;
              w1 = w\<lparr>w_provider_calls := w_provider_calls w @ [ResendCall recipient rendered],
                     w_clock := w_clock w + ms\<rparr>
          in case outcome of
               ResendRejects m \<Rightarrow> (Inl (OtherError (ustr ''Error'') m), w1)
             | ResendResult d err \<Rightarrow> (Inr (d, err), w1))"

text \<open>\<open>logEmailSend\<close>, through the service's own client of the log sink.\<close>

definition logEmailSend :: "env \<Rightarrow> EmailData \<Rightarrow> jsval \<Rightarrow> unit io" where
  "logEmailSend E emailData resendId =
     io_catch
       (io_bind
          (sink_insert E
             (EmailSentRow (emailType emailData) resendId (to emailData) (data emailData)))
          (\<lambda>_. io_return ()))
       (\<lambda>error. console_print (ConsoleError (ustr ''Failed to log email send'')))"

definition resend_endpoint :: jsstring where
  "resend_endpoint = ustr ''https://api.resend.com/emails''"

definition resend_logged :: "nat \<Rightarrow> nat \<Rightarrow> jsval \<Rightarrow> jsval \<Rightarrow> jsstring option \<Rightarrow> LogData" where
  "resend_logged status duration requestBody responseBody errorMessage =
     \<lparr>ld_serviceName = Some (ustr ''resend''),
      ld_endpoint = Some resend_endpoint,
      ld_method = Some (ustr ''POST''),
      ld_requestBody = requestBody,
      ld_responseStatus = Some status,
      ld_responseBody = responseBody,
      ld_duration = Some duration,
      ld_errorMessage = errorMessage\<rparr>"

text \<open>The \<open>try\<close> block of \<open>sendEmail\<close>.\<close>

definition send_attempt :: "env \<Rightarrow> nat \<Rightarrow> EmailData \<Rightarrow> jsval io" where
  "send_attempt E startTime emailData =
     io_bind (io_lift (validateEmailData (emailType emailData) (data emailData))) (\<lambda>_.
     io_bind (io_lift (renderEmailTemplate E (emailType emailData) (data emailData)))
       (\<lambda>renderedEmail.
     io_bind (resend_send E (to emailData) renderedEmail) (\<lambda>(response_data, response_error).
     io_bind io_now (\<lambda>t1.
     case response_error of
       Some m \<Rightarrow> io_throw (OtherError (ustr ''Error'') (ustr ''Resend API error: '' @ m))
     | None \<Rightarrow>
         (let sent_id = or_default (opt_member response_data (ustr ''id'')) (ustr ''unknown'') in
          io_bind (logEmailSend E emailData sent_id) (\<lambda>_.
          io_bind
            (logApiCall E
               (resend_logged 200 (t1 - startTime)
                  (JObj [(ustr ''to'', JStr (to emailData)),
                         (ustr ''subject'', JStr (r_subject renderedEmail)),
                         (ustr ''emailType'', JStr (emailType emailData))])
                  response_data None))
            (\<lambda>_. io_return (JObj [(ustr ''id'', sent_id),
                                    (ustr ''status'', JStr (ustr ''sent''))]))))))))"

definition send_failed :: "env \<Rightarrow> nat \<Rightarrow> js_error \<Rightarrow> jsval io" where
  "send_failed E startTime error =
     io_bind io_now (\<lambda>t.
     io_bind
       (logApiCall E
          (resend_logged 500 (t - startTime) JUndefined JUndefined (Some (error_message error))))
       (\<lambda>_. io_throw (ExternalAPIError (ustr ''Failed to send email via Resend'')
                        (ustr ''resend'') (Some error))))"

definition sendEmail :: "env \<Rightarrow> EmailData \<Rightarrow> jsval io" where
  "sendEmail E emailData =
     io_bind (io_invoked M_sendEmail) (\<lambda>_.
     io_bind io_now (\<lambda>startTime.
     io_catch (send_attempt E startTime emailData) (send_failed E startTime)))"

section \<open>Request schemas\<close>

text \<open>
  The schemas are declared with the zod library. \<open>z.object\<close> accepts an object (not
  \<open>null\<close>, not an array), checks the declared keys and drops the others;
  \<open>.optional()\<close> accepts an absent key. The result keeps the declared keys that the
  input has, in the order of the declaration. The texts of the issues of a refused body
  (\<open>e_zod_issues\<close>) and the format checks \<open>.email()\<close> and \<open>.datetime()\<close> are the library's.
\<close>

definition is_object :: "jsval \<Rightarrow> bool" where
  "is_object v = (case v of JObj kvs \<Rightarrow> True | _ \<Rightarrow> False)"

definition opt_string :: "jsval \<Rightarrow> bool" where
  "opt_string v = (case v of JUndefined \<Rightarrow> True | JStr s \<Rightarrow> True | _ \<Rightarrow> False)"

definition opt_boolean :: "jsval \<Rightarrow> bool" where
  "opt_boolean v = (case v of JUndefined \<Rightarrow> True | JBool b \<Rightarrow> True | _ \<Rightarrow> False)"

definition opt_record :: "jsval \<Rightarrow> bool" where
  "opt_record v = (case v of JUndefined \<Rightarrow> True | JObj kvs \<Rightarrow> True | _ \<Rightarrow> False)"

text \<open>\<open>z.number().min(0).max(1).optional()\<close>\<close>

definition opt_unit_number :: "jsval \<Rightarrow> bool" where
  "opt_unit_number v = (case v of JUndefined \<Rightarrow> True | JNum n \<Rightarrow> 0 \<le> n \<and> n \<le> 1 | _ \<Rightarrow> False)"

text \<open>\<open>z.string().min(lo).max(hi)\<close>\<close>

definition string_between :: "nat \<Rightarrow> nat \<Rightarrow> jsval \<Rightarrow> bool" where
  "string_between lo hi v = (case v of JStr s \<Rightarrow> lo \<le> length s \<and> length s \<le> hi | _ \<Rightarrow> False)"

text \<open>\<open>z.string().min(lo)\<close>\<close>

definition string_min :: "nat \<Rightarrow> jsval \<Rightarrow> bool" where
  "string_min lo v = (case v of JStr s \<Rightarrow> lo \<le> length s | _ \<Rightarrow> False)"

definition string_of :: "jsval \<Rightarrow> jsstring" where
  "string_of v = (case v of JStr s \<Rightarrow> s | _ \<Rightarrow> [])"

text \<open>The declared keys that the input has, in the order of the declaration.\<close>

definition pick_keys :: "jsstring list \<Rightarrow> jsval \<Rightarrow> (jsstring \<times> jsval) list" where
  "pick_keys keys v =
     concat (map (\<lambda>k. case get_prop v k of JUndefined \<Rightarrow> [] | x \<Rightarrow> [(k, x)]) keys)"

definition settings_keys :: "jsstring list" where
  "settings_keys =
     [ustr ''stability'', ustr ''similarity_boost'', ustr ''style'', ustr ''use_speaker_boost'']"

definition voice_settings_ok :: "jsval \<Rightarrow> bool" where
  "voice_settings_ok v =
     (case v of
        JUndefined \<Rightarrow> True
      | JObj kvs \<Rightarrow>
          opt_unit_number (get_prop v (ustr ''stability''))
          \<and> opt_unit_number (get_prop v (ustr ''similarity_boost''))
          \<and> opt_unit_number (get_prop v (ustr ''style''))
          \<and> opt_boolean (get_prop v (ustr ''use_speaker_boost''))
      | _ \<Rightarrow> False)"

definition VoiceRequestSchema_ok :: "jsval \<Rightarrow> bool" where
  "VoiceRequestSchema_ok body =
     (is_object body
      \<and> string_between 1 5000 (get_prop body (ustr ''text''))
      \<and> string_min 1 (get_prop body (ustr ''voiceId''))
      \<and> voice_settings_ok (get_prop body (ustr ''settings'')))"

record VoiceRequest =
  vr_text :: jsstring
  vr_voiceId :: jsstring
  vr_settings :: "(jsstring \<times> jsval) list option"

text \<open>\<open>VoiceRequestSchema.safeParse(req.body)\<close>: the issues, or the data.\<close>

definition VoiceRequestSchema_safeParse :: "env \<Rightarrow> jsval \<Rightarrow> jsstring list + VoiceRequest" where
  "VoiceRequestSchema_safeParse E body =
     (if VoiceRequestSchema_ok body then
        Inr \<lparr>vr_text = string_of (get_prop body (ustr ''text'')),
             vr_voiceId = string_of (get_prop body (ustr ''voiceId'')),
             vr_settings =
               (case get_prop body (ustr ''settings'') of
                  JUndefined \<Rightarrow> None
                | st \<Rightarrow> Some (pick_keys settings_keys st))\<rparr>
      else Inl (e_zod_issues E body))"

definition email_types :: "jsstring list" where
  "email_types =
     [ustr ''student_invitation'', ustr ''teacher_invitation'', ustr ''contact'', ustr ''welcome'']"

definition EmailRequestSchema_ok :: "env \<Rightarrow> jsval \<Rightarrow> bool" where
  "EmailRequestSchema_ok E body =
     (is_object body
      \<and> (case get_prop body (ustr ''emailType'') of JStr s \<Rightarrow> s \<in> set email_types | _ \<Rightarrow> False)
      \<and> (case get_prop body (ustr ''to'') of JStr s \<Rightarrow> e_isEmail E s | _ \<Rightarrow> False)
      \<and> is_object (get_prop body (ustr ''data'')))"

definition EmailRequestSchema_safeParse :: "env \<Rightarrow> jsval \<Rightarrow> jsstring list + EmailData" where
  "EmailRequestSchema_safeParse E body =
     (if EmailRequestSchema_ok E body then
        Inr \<lparr>emailType = string_of (get_prop body (ustr ''emailType'')),
             to = string_of (get_prop body (ustr ''to'')),
             data = get_prop body (ustr ''data'')\<rparr>
      else Inl (e_zod_issues E body))"

definition conversation_actions :: "jsstring list" where
  "conversation_actions =
     [ustr ''start_conversation'', ustr ''send_message'', ustr ''end_conversation'']"

definition ConversationRequestSchema_ok :: "jsval \<Rightarrow> bool" where
  "ConversationRequestSchema_ok body =
     (is_object body
      \<and> (case get_prop body (ustr ''action'') of
            JStr s \<Rightarrow> s \<in> set conversation_actions | _ \<Rightarrow> False)
      \<and> opt_string (get_prop body (ustr ''agentId''))
      \<and> opt_string (get_prop body (ustr ''message''))
      \<and> opt_string (get_prop body (ustr ''conversationId''))
      \<and> opt_record (get_prop body (ustr ''config'')))"

record ConversationRequest =
  cr_action :: jsstring
  cr_agentId :: "jsstring option"
  cr_message :: "jsstring option"
  cr_conversationId :: "jsstring option"
  cr_config :: "(jsstring \<times> jsval) list option"

definition to_opt_string :: "jsval \<Rightarrow> jsstring option" where
  "to_opt_string v = (case v of JStr s \<Rightarrow> Some s | _ \<Rightarrow> None)"

definition to_opt_record :: "jsval \<Rightarrow> (jsstring \<times> jsval) list option" where
  "to_opt_record v = (case v of JObj kvs \<Rightarrow> Some kvs | _ \<Rightarrow> None)"

definition ConversationRequestSchema_safeParse ::
  "env \<Rightarrow> jsval \<Rightarrow> jsstring list + ConversationRequest" where
  "ConversationRequestSchema_safeParse E body =
     (if ConversationRequestSchema_ok body then
        Inr \<lparr>cr_action = string_of (get_prop body (ustr ''action'')),
             cr_agentId = to_opt_string (get_prop body (ustr ''agentId'')),
             cr_message = to_opt_string (get_prop body (ustr ''message'')),
             cr_conversationId = to_opt_string (get_prop body (ustr ''conversationId'')),
             cr_config = to_opt_record (get_prop body (ustr ''config''))\<rparr>
      else Inl (e_zod_issues E body))"

text \<open>
  \<open>AnalyzeRequestSchema\<close> (api/openai/analyze): a non-empty array of messages, the profile,
  and optionally a study topic and a vocabulary context, each a \<open>z.object\<close>.
\<close>

definition is_string :: "jsval \<Rightarrow> bool" where
  "is_string v = (case v of JStr s \<Rightarrow> True | _ \<Rightarrow> False)"

text \<open>\<open>z.array(z.string()).optional()\<close>\<close>

definition opt_string_array :: "jsval \<Rightarrow> bool" where
  "opt_string_array v =
     (case v of JUndefined \<Rightarrow> True | JArr xs \<Rightarrow> list_all is_string xs | _ \<Rightarrow> False)"

definition message_roles :: "jsstring list" where
  "message_roles = [ustr ''user'', ustr ''assistant'', ustr ''system'']"

definition message_keys :: "jsstring list" where
  "message_keys = [ustr ''role'', ustr ''content'', ustr ''created_at'']"

definition message_ok :: "jsval \<Rightarrow> bool" where
  "message_ok m =
     (is_object m
      \<and> (case get_prop m (ustr ''role'') of JStr s \<Rightarrow> s \<in> set message_roles | _ \<Rightarrow> False)
      \<and> string_min 1 (get_prop m (ustr ''content''))
      \<and> opt_string (get_prop m (ustr ''created_at'')))"

definition messages_ok :: "jsval \<Rightarrow> bool" where
  "messages_ok v = (case v of JArr ms \<Rightarrow> ms \<noteq> [] \<and> list_all message_ok ms | _ \<Rightarrow> False)"

definition profile_keys :: "jsstring list" where
  "profile_keys =
     [ustr ''native_language'', ustr ''practice_languages'', ustr ''level'',
      ustr ''learning_goals'', ustr ''first_name'', ustr ''interface_language'']"

definition userProfile_ok :: "jsval \<Rightarrow> bool" where
  "userProfile_ok v =
     (is_object v
      \<and> opt_string (get_prop v (ustr ''native_language''))
      \<and> opt_string_array (get_prop v (ustr ''practice_languages''))
      \<and> opt_string (get_prop v (ustr ''level''))
      \<and> opt_string (get_prop v (ustr ''learning_goals''))
      \<and> opt_string (get_prop v (ustr ''first_name''))
      \<and> opt_string (get_prop v (ustr ''interface_language'')))"

definition topic_keys :: "jsstring list" where
  "topic_keys = [ustr ''title'', ustr ''description'']"

definition studyTopic_ok :: "jsval \<Rightarrow> bool" where
  "studyTopic_ok v =
     (case v of
        JUndefined \<Rightarrow> True
      | JObj kvs \<Rightarrow>
          is_string (get_prop v (ustr ''title'')) \<and> opt_string (get_prop v (ustr ''description''))
      | _ \<Rightarrow> False)"

definition word_keys :: "jsstring list" where
  "word_keys = [ustr ''word'', ustr ''translation'']"

definition word_ok :: "jsval \<Rightarrow> bool" where
  "word_ok v =
     (is_object v \<and> is_string (get_prop v (ustr ''word''))
      \<and> opt_string (get_prop v (ustr ''translation'')))"

definition words_ok :: "jsval \<Rightarrow> bool" where
  "words_ok v = (case v of JArr ws \<Rightarrow> list_all word_ok ws | _ \<Rightarrow> False)"

definition vocabularyContext_ok :: "jsval \<Rightarrow> bool" where
  "vocabularyContext_ok v =
     (case v of
        JUndefined \<Rightarrow> True
      | JObj kvs \<Rightarrow>
          is_string (get_prop v (ustr ''word_list_title''))
          \<and> is_string (get_prop v (ustr ''word_list_topic''))
          \<and> words_ok (get_prop v (ustr ''word_list_words''))
      | _ \<Rightarrow> False)"

definition AnalyzeRequestSchema_ok :: "jsval \<Rightarrow> bool" where
  "AnalyzeRequestSchema_ok body =
     (is_object body
      \<and> messages_ok (get_prop body (ustr ''messages''))
      \<and> userProfile_ok (get_prop body (ustr ''userProfile''))
      \<and> studyTopic_ok (get_prop body (ustr ''studyTopic''))
      \<and> vocabularyContext_ok (get_prop body (ustr ''vocabularyContext'')))"

record AnalyzeRequest =
  ar_messages :: "jsval list"
  ar_userProfile :: jsval
  ar_studyTopic :: jsval
  ar_vocabularyContext :: jsval

definition elements :: "jsval \<Rightarrow> jsval list" where
  "elements v = (case v of JArr xs \<Rightarrow> xs | _ \<Rightarrow> [])"

text \<open>The data of an accepted body: of each object the declared keys that the input has,
  in the order of the declaration.\<close>

definition parsed_vocabularyContext :: "jsval \<Rightarrow> jsval" where
  "parsed_vocabularyContext v =
     (case v of
        JUndefined \<Rightarrow> JUndefined
      | _ \<Rightarrow>
          JObj [(ustr ''word_list_title'', get_prop v (ustr ''word_list_title'')),
                (ustr ''word_list_topic'', get_prop v (ustr ''word_list_topic'')),
                (ustr ''word_list_words'',
                   JArr (map (\<lambda>w. JObj (pick_keys word_keys w))
                           (elements (get_prop v (ustr ''word_list_words'')))))])"

definition AnalyzeRequestSchema_data :: "jsval \<Rightarrow> AnalyzeRequest" where
  "AnalyzeRequestSchema_data body =
     \<lparr>ar_messages =
        map (\<lambda>m. JObj (pick_keys message_keys m)) (elements (get_prop body (ustr ''messages''))),
      ar_userProfile = JObj (pick_keys profile_keys (get_prop body (ustr ''userProfile''))),
      ar_studyTopic =
        (case get_prop body (ustr ''studyTopic'') of
           JUndefined \<Rightarrow> JUndefined
         | st \<Rightarrow> JObj (pick_keys topic_keys st)),
      ar_vocabularyContext = parsed_vocabularyContext (get_prop body (ustr ''vocabularyContext''))\<rparr>"

definition AnalyzeRequestSchema_safeParse :: "env \<Rightarrow> jsval \<Rightarrow> jsstring list + AnalyzeRequest" where
  "AnalyzeRequestSchema_safeParse E body =
     (if AnalyzeRequestSchema_ok body then Inr (AnalyzeRequestSchema_data body)
      else Inl (e_zod_issues E body))"

text \<open>The error a handler raises on a refused body.\<close>

definition invalid_request_data :: "jsstring list \<Rightarrow> js_error" where
  "invalid_request_data issues =
     ValidationError (ustr ''Invalid request data: '' @ join (ustr '', '') issues) None"

section \<open>Request handlers\<close>

definition method_not_allowed :: "env \<Rightarrow> unit io" where
  "method_not_allowed E =
     io_bind io_now (\<lambda>now.
     res_send 405
       (Json (JObj [(ustr ''error'', JStr (ustr ''Method Not Allowed'')),
                    (ustr ''message'', JStr (ustr ''Only POST requests are allowed'')),
                    (ustr ''timestamp'', JStr (e_toISOString E now))])))"

text \<open>Text analysis, \<open>POST /api/openai/analyze\<close>. Response headers are not modelled.\<close>

definition analyze_handler :: "env \<Rightarrow> request \<Rightarrow> unit io" where
  "analyze_handler E req =
     asyncHandler E req
       (if rq_method req = ustr ''OPTIONS'' then res_send 200 NoBody
        else if rq_method req \<noteq> ustr ''POST'' then method_not_allowed E
        else
          io_bind (authMiddleware E req) (\<lambda>authContext.
          case AnalyzeRequestSchema_safeParse E (rq_body req) of
            Inl issues \<Rightarrow> io_throw (invalid_request_data issues)
          | Inr d \<Rightarrow>
              io_bind
                (if truthy (ar_vocabularyContext d) then
                   analyzeVocabularyPractice E (ar_messages d) (ar_userProfile d)
                     (ar_vocabularyContext d)
                 else
                   analyzeConversation E (ar_messages d) (ar_userProfile d) (ar_studyTopic d))
                (\<lambda>analysis.
              io_bind io_now (\<lambda>now.
              res_send 200
                (Json (JObj [(ustr ''success'', JBool True),
                             (ustr ''data'', analysis),
                             (ustr ''timestamp'', JStr (e_toISOString E now))]))))))"

text \<open>Voice synthesis, \<open>POST /api/elevenlabs/voice\<close>.\<close>

definition voice_handler :: "env \<Rightarrow> request \<Rightarrow> unit io" where
  "voice_handler E req =
     asyncHandler E req
       (if rq_method req = ustr ''OPTIONS'' then res_send 200 NoBody
        else if rq_method req \<noteq> ustr ''POST'' then method_not_allowed E
        else
          io_bind (authMiddleware E req) (\<lambda>authContext.
          case VoiceRequestSchema_safeParse E (rq_body req) of
            Inl issues \<Rightarrow> io_throw (invalid_request_data issues)
          | Inr d \<Rightarrow>
              io_bind (generateVoice E (vr_text d) (vr_voiceId d) (vr_settings d)) (\<lambda>result.
              io_bind io_now (\<lambda>now.
              res_send 200
                (Json (JObj [(ustr ''success'', JBool True),
                             (ustr ''data'', result),
                             (ustr ''timestamp'', JStr (e_toISOString E now))]))))))"

text \<open>Email send, \<open>POST /api/resend/send\<close>.\<close>

definition email_handler :: "env \<Rightarrow> request \<Rightarrow> unit io" where
  "email_handler E req =
     asyncHandler E req
       (if rq_method req = ustr ''OPTIONS'' then res_send 200 NoBody
        else if rq_method req \<noteq> ustr ''POST'' then method_not_allowed E
        else
          io_bind (authMiddleware E req) (\<lambda>authContext.
          case EmailRequestSchema_safeParse E (rq_body req) of
            Inl issues \<Rightarrow> io_throw (invalid_request_data issues)
          | Inr d \<Rightarrow>
              io_bind (sendEmail E d) (\<lambda>result.
              io_bind io_now (\<lambda>now.
              res_send 200
                (Json (JObj [(ustr ''success'', JBool True),
                             (ustr ''data'', result),
                             (ustr ''message'', JStr (ustr ''Email sent successfully'')),
                             (ustr ''timestamp'', JStr (e_toISOString E now))]))))))"

text \<open>\<open>!s\<close> for an optional string.\<close>

definition absent :: "jsstring option \<Rightarrow> bool" where
  "absent s = (case s of None \<Rightarrow> True | Some x \<Rightarrow> x = [])"

definition present :: "jsstring option \<Rightarrow> jsstring" where
  "present s = (case s of None \<Rightarrow> [] | Some x \<Rightarrow> x)"

text \<open>The \<open>switch\<close> of the conversation handler.\<close>

definition conversation_route :: "env \<Rightarrow> ConversationRequest \<Rightarrow> jsval io" where
  "conversation_route E d =
     (if cr_action d = ustr ''start_conversation'' then
        (if absent (cr_agentId d) then
           io_throw (ValidationError (ustr ''agentId is required for start_conversation'') None)
         else startConversation E (present (cr_agentId d)) (cr_config d))
      else if cr_action d = ustr ''send_message'' then
        (if absent (cr_conversationId d) \<or> absent (cr_message d) then
           io_throw (ValidationError
                       (ustr ''conversationId and message are required for send_message'') None)
         else sendMessage E (present (cr_conversationId d)) (present (cr_message d)) (cr_config d))
      else if cr_action d = ustr ''end_conversation'' then
        (if absent (cr_conversationId d) then
           io_throw (ValidationError
                       (ustr ''conversationId is required for end_conversation'') None)
         else endConversation E (present (cr_conversationId d)))
      else io_throw (ValidationError (ustr ''Unknown action: '' @ cr_action d) None))"

text \<open>Voice conversation, \<open>POST /api/elevenlabs/conversation\<close>.\<close>

definition conversation_handler :: "env \<Rightarrow> request \<Rightarrow> unit io" where
  "conversation_handler E req =
     asyncHandler E req
       (if rq_method req = ustr ''OPTIONS'' then res_send 200 NoBody
        else if rq_method req \<noteq> ustr ''POST'' then method_not_allowed E
        else
          io_bind (authMiddleware E req) (\<lambda>authContext.
          case ConversationRequestSchema_safeParse E (rq_body req) of
            Inl issues \<Rightarrow> io_throw (invalid_request_data issues)
          | Inr d \<Rightarrow>
              io_bind (conversation_route E d) (\<lambda>result.
              io_bind io_now (\<lambda>now.
              res_send 200
                (Json (JObj [(ustr ''success'', JBool True),
                             (ustr ''data'', result),
                             (ustr ''action'', JStr (cr_action d)),
                             (ustr ''timestamp'', JStr (e_toISOString E now))]))))))"

section \<open>Per-user activity log (api/users/[userId]/activity/logs.ts)\<close>

definition action_types :: "jsstring list" where
  "action_types =
     [ustr ''login'', ustr ''logout'', ustr ''conversation_start'', ustr ''conversation_end'',
      ustr ''settings_change'', ustr ''profile_update'', ustr ''study_plan_action'',
      ustr ''vocabulary_practice'', ustr ''voice_interaction'', ustr ''page_view'',
      ustr ''feature_usage'']"

definition activity_metadata_ok :: "env \<Rightarrow> jsval \<Rightarrow> bool" where
  "activity_metadata_ok E v =
     (case v of
        JUndefined \<Rightarrow> True
      | JObj kvs \<Rightarrow>
          opt_string (get_prop v (ustr ''ipAddress''))
          \<and> opt_string (get_prop v (ustr ''userAgent''))
          \<and> opt_string (get_prop v (ustr ''sessionId''))
          \<and> (case get_prop v (ustr ''timestamp'') of
                JUndefined \<Rightarrow> True | JStr s \<Rightarrow> e_isDatetime E s | _ \<Rightarrow> False)
      | _ \<Rightarrow> False)"

definition ActivityLogRequestSchema_ok :: "env \<Rightarrow> jsval \<Rightarrow> bool" where
  "ActivityLogRequestSchema_ok E body =
     (is_object body
      \<and> (case get_prop body (ustr ''actionType'') of
            JStr s \<Rightarrow> s \<in> set action_types | _ \<Rightarrow> False)
      \<and> opt_record (get_prop body (ustr ''actionData''))
      \<and> activity_metadata_ok E (get_prop body (ustr ''metadata'')))"

definition metadata_keys :: "jsstring list" where
  "metadata_keys = [ustr ''ipAddress'', ustr ''userAgent'', ustr ''sessionId'', ustr ''timestamp'']"

record ActivityLogRequest =
  al_actionType :: jsstring
  al_actionData :: jsval
  al_metadata :: jsval

definition ActivityLogRequestSchema_safeParse ::
  "env \<Rightarrow> jsval \<Rightarrow> jsstring list + ActivityLogRequest" where
  "ActivityLogRequestSchema_safeParse E body =
     (if ActivityLogRequestSchema_ok E body then
        Inr \<lparr>al_actionType = string_of (get_prop body (ustr ''actionType'')),
             al_actionData = get_prop body (ustr ''actionData''),
             al_metadata =
               (case get_prop body (ustr ''metadata'') of
                  JUndefined \<Rightarrow> JUndefined
                | m \<Rightarrow> JObj (pick_keys metadata_keys m))\<rparr>
      else Inl (e_zod_issues E body))"

text \<open>\<open>v || null\<close>\<close>

definition or_null :: "jsval \<Rightarrow> jsval" where
  "or_null v = (if truthy v then v else JNull)"

text \<open>\<open>insert(row).select().single()\<close> and the selection on \<open>user_action_logs\<close>: each
  resolves to \<open>{data, error}\<close> (the error by its message).\<close>

definition db_insert :: "env \<Rightarrow> jsval \<Rightarrow> (jsval \<times> jsstring option) io" where
  "db_insert E row =
     (\<lambda>w. (Inr (e_db_insert E (w_db_calls w) row),
            w\<lparr>w_db_calls := w_db_calls w @ [DbInsert row]\<rparr>))"

definition db_select :: "env \<Rightarrow> jsstring \<Rightarrow> jsval \<Rightarrow> jsval \<Rightarrow> jsval \<Rightarrow> (jsval \<times> jsstring option) io" where
  "db_select E uid limit offset actionType =
     (\<lambda>w. (Inr (e_db_select E (w_db_calls w) uid limit offset actionType),
            w\<lparr>w_db_calls := w_db_calls w @ [DbSelect uid limit offset actionType]\<rparr>))"

definition activity_logged :: "jsstring \<Rightarrow> jsstring \<Rightarrow> nat \<Rightarrow> jsval \<Rightarrow> jsval \<Rightarrow> LogData" where
  "activity_logged uid method status requestBody responseBody =
     \<lparr>ld_serviceName = Some (ustr ''activity''),
      ld_endpoint = Some (ustr ''/api/users/'' @ uid @ ustr ''/activity/logs''),
      ld_method = Some method,
      ld_requestBody = requestBody,
      ld_responseStatus = Some status,
      ld_responseBody = responseBody,
      ld_duration = Some 0,
      ld_errorMessage = None\<rparr>"

text \<open>The \<open>POST\<close> branch: create a record.\<close>

definition activity_post :: "env \<Rightarrow> request \<Rightarrow> jsstring \<Rightarrow> unit io" where
  "activity_post E req uid =
     (case ActivityLogRequestSchema_safeParse E (rq_body req) of
        Inl issues \<Rightarrow> io_throw (invalid_request_data issues)
      | Inr d \<Rightarrow>
          io_bind
            (db_insert E
               (JObj [(ustr ''user_id'', JStr uid),
                      (ustr ''action_type'', JStr (al_actionType d)),
                      (ustr ''action_data'', or_null (al_actionData d)),
                      (ustr ''ip_address'',
                         or_null (opt_member (al_metadata d) (ustr ''ipAddress''))),
                      (ustr ''user_agent'',
                         or_null (opt_member (al_metadata d) (ustr ''userAgent''))),
                      (ustr ''session_id'',
                         or_null (opt_member (al_metadata d) (ustr ''sessionId'')))]))
            (\<lambda>(logEntry, error).
               case error of
                 Some m \<Rightarrow>
                   io_throw (OtherError (ustr ''Error'')
                               (ustr ''Failed to create activity log: '' @ m))
               | None \<Rightarrow>
                   io_bind
                     (logApiCall E
                        (activity_logged uid (ustr ''POST'') 201
                           (JObj [(ustr ''actionType'', JStr (al_actionType d)),
                                  (ustr ''actionData'', al_actionData d),
                                  (ustr ''metadata'', al_metadata d)])
                           logEntry))
                     (\<lambda>_.
                   io_bind (io_lift (member logEntry (ustr ''id''))) (\<lambda>entry_id.
                   res_send 201
                     (Json (JObj
                        [(ustr ''success'', JBool True),
                         (ustr ''data'',
                            JObj [(ustr ''id'', entry_id),
                                  (ustr ''userId'', get_prop logEntry (ustr ''user_id'')),
                                  (ustr ''actionType'', get_prop logEntry (ustr ''action_type'')),
                                  (ustr ''actionData'', get_prop logEntry (ustr ''action_data'')),
                                  (ustr ''createdAt'', get_prop logEntry (ustr ''created_at''))]),
                         (ustr ''message'',
                            JStr (ustr ''Activity log created successfully''))]))))))"

text \<open>\<open>const { k = d } = req.query\<close>\<close>

definition query_default :: "jsval \<Rightarrow> jsstring \<Rightarrow> jsstring \<Rightarrow> jsval" where
  "query_default q k d = (case get_prop q k of JUndefined \<Rightarrow> JStr d | v \<Rightarrow> v)"

text \<open>The \<open>GET\<close> branch: list the records of the user.\<close>

definition activity_get :: "env \<Rightarrow> request \<Rightarrow> jsstring \<Rightarrow> unit io" where
  "activity_get E req uid =
     (let limit = query_default (rq_query req) (ustr ''limit'') (ustr ''50'');
          offset = query_default (rq_query req) (ustr ''offset'') (ustr ''0'');
          actionType = get_prop (rq_query req) (ustr ''actionType'')
      in io_bind (db_select E uid limit offset actionType) (\<lambda>(logs, error).
           case error of
             Some m \<Rightarrow>
               io_throw (OtherError (ustr ''Error'')
                           (ustr ''Failed to fetch activity logs: '' @ m))
           | None \<Rightarrow>
               io_bind
                 (logApiCall E
                    (activity_logged uid (ustr ''GET'') 200
                       (JObj [(ustr ''limit'', limit), (ustr ''offset'', offset),
                              (ustr ''actionType'', actionType)])
                       logs))
                 (\<lambda>_.
               res_send 200
                 (Json (JObj [(ustr ''success'', JBool True),
                              (ustr ''data'', logs),
                              (ustr ''message'',
                                 JStr (ustr ''Activity logs retrieved successfully''))])))))"

text \<open>
  The access check: a token user asking for another user's records must have the role
  \<open>admin\<close> in the profile store (\<open>e_profile\<close>: the profile row, or \<open>null\<close>).
\<close>

definition activity_access_check :: "env \<Rightarrow> AuthContext \<Rightarrow> jsstring \<Rightarrow> unit io" where
  "activity_access_check E authContext uid =
     (if authMethod authContext = jwt \<and> userId authContext \<noteq> uid then
        (let profile = e_profile E (userId authContext) in
         if opt_member profile (ustr ''user_role'') \<noteq> JStr (ustr ''admin'') then
           io_throw (ValidationError
                       (ustr ''Access denied: You can only access your own activity logs'') None)
         else io_return ())
      else io_return ())"

definition activity_handler :: "env \<Rightarrow> request \<Rightarrow> unit io" where
  "activity_handler E req =
     asyncHandler E req
       (if rq_method req = ustr ''OPTIONS'' then res_send 200 NoBody
        else
          io_bind (authMiddleware E req) (\<lambda>authContext.
          case get_prop (rq_query req) (ustr ''userId'') of
            JStr uid \<Rightarrow>
              if uid = [] then io_throw (ValidationError (ustr ''User ID is required'') None)
              else
                io_bind (activity_access_check E authContext uid) (\<lambda>_.
                if rq_method req = ustr ''POST'' then activity_post E req uid
                else if rq_method req = ustr ''GET'' then activity_get E req uid
                else
                  res_send 405
                    (Json (JObj [(ustr ''success'', JBool False),
                                 (ustr ''message'', JStr (ustr ''Method not allowed''))])))
          | _ \<Rightarrow> io_throw (ValidationError (ustr ''User ID is required'') None)))"

section \<open>A sample environment\<close>

text \<open>Concrete oracles and a starting state, for evaluating the model on examples.\<close>

function decimal :: "nat \<Rightarrow> jsstring" where
  "decimal n = (if n < 10 then [of_nat (48 + n)] else decimal (n div 10) @ [of_nat (48 + n mod 10)])"
  by pat_completeness auto
termination
  by (relation "measure id") auto

text \<open>Prints a natural number in decimal; the samples hold no other number.\<close>

definition print_number :: "rat \<Rightarrow> jsstring" where
  "print_number q = (if 0 \<le> q \<and> q = of_int \<lfloor>q\<rfloor> then decimal (nat \<lfloor>q\<rfloor>) else [])"

definition sample_prompt :: analysis_prompt where
  "sample_prompt =
     \<lparr>prompt_name = ustr ''general'', prompt_version = ustr ''1'',
      prompt_template = ustr ''Analyze''\<rparr>"

definition sample_rendered :: rendered_email where
  "sample_rendered = \<lparr>r_subject = ustr ''Welcome'', r_text = [], r_html = [], r_tags = JArr []\<rparr>"

definition env0 :: env where
  "env0 =
     \<lparr>e_API_SECRET_KEY = Some (ustr ''k1''),
      e_production = True,
      e_logging_configured = True,
      e_sessionId = ustr ''api_1_abc'',
      e_sink = (\<lambda>n row. SinkOk),
      e_getUser =
        (\<lambda>token. if token = ustr ''t1''
                then GetUserResult (Some \<lparr>u_id = ustr ''u1'', u_email = None\<rparr>) False
                else GetUserResult None True),
      e_numberToString = print_number,
      e_toISOString = (\<lambda>t. ustr ''T'' @ decimal t),
      e_toString = string_of,
      e_zod_issues = (\<lambda>body. [ustr ''Invalid input'']),
      e_isEmail = (\<lambda>s. 0x40 \<in> set s),
      e_isDatetime = (\<lambda>s. True),
      e_getActivePrompt =
        (\<lambda>conversationType languageCode.
           Some sample_prompt),
      e_generatePrompt = (\<lambda>p messages userProfile studyTopic. Inr (prompt_template p)),
      e_generateVocabularyPrompt =
        (\<lambda>p messages userProfile vocabularyContext. Inr (prompt_template p)),
      e_JSON_parse = (\<lambda>s. if s = ustr ''{}'' then Some (JObj []) else None),
      e_openai = (\<lambda>calls generatedPrompt. (120, OpenAIContent (JStr (ustr ''{}'')))),
      e_fetch = (\<lambda>calls method endpoint body. (250, FetchResponse True 200 [] (Some (JObj [])))),
      e_renderTemplate =
        (\<lambda>et d. Inr sample_rendered),
      e_resend =
        (\<lambda>calls recipient rendered.
           (80, ResendResult (JObj [(ustr ''id'', JStr (ustr ''e1''))]) None)),
      e_profile = (\<lambda>uid. JObj [(ustr ''user_role'', JStr (ustr ''student''))]),
      e_db_insert = (\<lambda>calls row. (row, None)),
      e_db_select = (\<lambda>calls uid limit offset actionType. (JArr [], None)),
      e_cache_set = (\<lambda>n key. None)\<rparr>"

definition world0 :: world where
  "world0 =
     \<lparr>w_clock = 1000,
      w_cache = (\<lambda>key. None),
      w_cache_sets = 0,
      w_unified_logs = [],
      w_sink_attempts = 0,
      w_console = [],
      w_provider_calls = [],
      w_invoked = [],
      w_db_calls = [],
      w_response = None\<rparr>"

text \<open>Two profiles with the same fields, listed in a different order.\<close>

definition profile_level_first :: jsval where
  "profile_level_first =
     JObj [(ustr ''level'', JStr (ustr ''A1'')), (ustr ''first_name'', JStr (ustr ''Al''))]"

definition profile_name_first :: jsval where
  "profile_name_first =
     JObj [(ustr ''first_name'', JStr (ustr ''Al'')), (ustr ''level'', JStr (ustr ''A1''))]"

text \<open>Two messages with the same role and content: one with a further field, one with
  its fields in the other order. Two settings objects with the same declared fields.\<close>

definition message_dated :: jsval where
  "message_dated =
     JObj [(ustr ''role'', JStr (ustr ''user'')), (ustr ''content'', JStr (ustr ''Hello'')),
           (ustr ''created_at'', JStr (ustr ''2024-01-01''))]"

definition message_plain :: jsval where
  "message_plain =
     JObj [(ustr ''content'', JStr (ustr ''Hello'')), (ustr ''role'', JStr (ustr ''user''))]"

definition settings_ordered :: jsval where
  "settings_ordered = JObj [(ustr ''stability'', JNum 1), (ustr ''style'', JNum 0)]"

definition settings_shuffled :: jsval where
  "settings_shuffled =
     JObj [(ustr ''style'', JNum 0), (ustr ''stability'', JNum 1), (ustr ''extra'', JNull)]"

section \<open>Notions for the proofs\<close>

text \<open>
  What a request leaves behind apart from the log: the clock, the cache and the count of
  its writes, the calls made to providers and to the database, the adapter methods
  entered and the response.
\<close>

definition primary ::
  "world \<Rightarrow> nat \<times> (jsstring \<Rightarrow> (jsval \<times> nat) option) \<times> nat \<times> provider_call list
           \<times> adapter_method list \<times> db_call list \<times> (nat \<times> http_body) option" where
  "primary w =
     (w_clock w, w_cache w, w_cache_sets w, w_provider_calls w, w_invoked w, w_db_calls w,
      w_response w)"

text \<open>Two computations agree up to the log: from states with the same primary part they
  reach the same outcome and states with the same primary part.\<close>

definition sim :: "'a io \<Rightarrow> 'a io \<Rightarrow> bool" where
  "sim m1 m2 =
     (\<forall>w1 w2. primary w1 = primary w2 \<longrightarrow>
        fst (m1 w1) = fst (m2 w2) \<and> primary (snd (m1 w1)) = primary (snd (m2 w2)))"

text \<open>A computation that never raises and leaves the primary part alone.\<close>

definition quiet :: "unit io \<Rightarrow> bool" where
  "quiet m = (\<forall>w. fst (m w) = Inr () \<and> primary (snd (m w)) = primary w)"

text \<open>The same environment with another log sink, configured or not.\<close>

definition with_sink :: "env \<Rightarrow> (nat \<Rightarrow> log_row \<Rightarrow> sink_outcome) \<Rightarrow> bool \<Rightarrow> env" where
  "with_sink E s c = E\<lparr>e_sink := s, e_logging_configured := c\<rparr>"

text \<open>The same environment with the call logger not configured.\<close>

definition mute :: "env \<Rightarrow> env" where
  "mute E = with_sink E (\<lambda>n row. SinkOk) False"

text \<open>A provider call that fails: the call rejects, or its answer is an error (no
  completion text, a response that is not \<open>ok\<close>, an \<open>error\<close> from the email provider).\<close>

fun openai_failed :: "openai_outcome \<Rightarrow> bool" where
  "openai_failed (OpenAIRejects m) = True"
| "openai_failed (OpenAIContent c) = (\<not> truthy c)"

fun fetch_failed :: "fetch_outcome \<Rightarrow> bool" where
  "fetch_failed (FetchRejects m) = True"
| "fetch_failed (FetchResponse ok status txt js) = (\<not> ok)"

fun resend_failed :: "resend_outcome \<Rightarrow> bool" where
  "resend_failed (ResendRejects m) = True"
| "resend_failed (ResendResult d err) = (err \<noteq> None)"

text \<open>The \<open>api_call\<close> records among rows of the log, in the order written.\<close>

fun api_call_of :: "log_row \<Rightarrow> LogEntry list" where
  "api_call_of (ApiCallRow entry) = [entry]"
| "api_call_of _ = []"

definition api_calls :: "log_row list \<Rightarrow> LogEntry list" where
  "api_calls rows = concat (map api_call_of rows)"

text \<open>The rows a computation appended to the log, from the state before and the state after.\<close>

definition rows_written :: "world \<Rightarrow> world \<Rightarrow> log_row list" where
  "rows_written w w' = drop (length (w_unified_logs w)) (w_unified_logs w')"

text \<open>A record that carries a method, an endpoint, a status and the given duration.\<close>

definition complete_record :: "nat \<Rightarrow> LogEntry \<Rightarrow> bool" where
  "complete_record elapsed entry \<longleftrightarrow>
     le_method entry \<noteq> [] \<and> le_endpoint entry \<noteq> [] \<and> le_duration entry = Some elapsed
     \<and> le_responseStatus entry \<noteq> None"

text \<open>One entry for each \<open>api_call\<close> record written between two states: whether it is
  complete, with the time elapsed between the states as its duration.\<close>

definition call_records :: "world \<Rightarrow> world \<Rightarrow> bool list" where
  "call_records w w' =
     map (complete_record (w_clock w' - w_clock w)) (api_calls (rows_written w w'))"

section \<open>Sample requests and states\<close>

text \<open>A sink that is down, and sample requests.\<close>

definition sink_down :: "nat \<Rightarrow> log_row \<Rightarrow> sink_outcome" where
  "sink_down n row = SinkThrows (ustr ''sink unreachable'')"

definition welcome_data :: jsval where
  "welcome_data =
     JObj [(ustr ''userName'', JStr (ustr ''Al'')), (ustr ''language'', JStr (ustr ''Spanish'')),
           (ustr ''dashboardLink'', JStr (ustr ''https://ialla.app''))]"

definition email_request :: request where
  "email_request =
     \<lparr>rq_method = ustr ''POST'', rq_url = ustr ''/api/resend/send'',
      rq_authorization = None, rq_x_api_key = Some (ustr ''k1''), rq_user_agent = None,
      rq_body = JObj [(ustr ''emailType'', JStr (ustr ''welcome'')),
                      (ustr ''to'', JStr (ustr ''al@example.org'')),
                      (ustr ''data'', welcome_data)],
      rq_query = JObj []\<rparr>"

text \<open>The sample environment with every provider failing.\<close>

definition env_down :: env where
  "env_down =
     env0\<lparr>e_openai := (\<lambda>calls generatedPrompt. (120, OpenAIRejects (ustr ''503''))),
          e_fetch :=
            (\<lambda>calls method endpoint body. (250, FetchResponse False 500 (ustr ''overloaded'') None)),
          e_resend :=
            (\<lambda>calls recipient rendered. (80, ResendResult JNull (Some (ustr ''rate limited''))))\<rparr>"

definition voice_request :: request where
  "voice_request =
     \<lparr>rq_method = ustr ''POST'', rq_url = ustr ''/api/elevenlabs/voice'',
      rq_authorization = None, rq_x_api_key = Some (ustr ''k1''), rq_user_agent = None,
      rq_body = JObj [(ustr ''text'', JStr (ustr ''Hi'')), (ustr ''voiceId'', JStr (ustr ''v1''))],
      rq_query = JObj []\<rparr>"

definition system_context :: AuthContext where
  "system_context =
     \<lparr>userId = ustr ''system'', email = ustr ''system@ialla.app'', authMethod = api_key\<rparr>"

text \<open>A state whose cache holds a voice result and an analysis, both unexpired.\<close>

definition sample_voice_key :: jsstring where
  "sample_voice_key = generateElevenLabsVoiceKey print_number (ustr ''Hi'') (ustr ''v1'') (JObj [])"

definition sample_analysis_key :: jsstring where
  "sample_analysis_key =
     ustr ''openai:'' @ hashString (stringify_object print_number
       [(ustr ''messages'',
           JArr [JObj [(ustr ''role'', JStr (ustr ''user'')),
                       (ustr ''content'', JStr (ustr ''Hello''))]]),
        (ustr ''userProfile'', profile_level_first),
        (ustr ''studyTopic'', JUndefined),
        (ustr ''vocabularyContext'', JUndefined)])"

definition sample_voice :: jsval where
  "sample_voice =
     JObj [(ustr ''audioUrl'', JStr (ustr ''https://api.elevenlabs.io/v1/text-to-speech/v1/generated_7.mp3'')),
           (ustr ''duration'', JNum 1)]"

definition sample_analysis :: jsval where
  "sample_analysis = JObj [(ustr ''summary'', JStr (ustr ''A greeting'')), (ustr ''keyTopics'', JArr [])]"

definition world_cached :: world where
  "world_cached =
     world0\<lparr>w_cache :=
              (\<lambda>key. if key = sample_voice_key then Some (sample_voice, 5000)
                    else if key = sample_analysis_key then Some (sample_analysis, 5000)
                    else None)\<rparr>"

text \<open>A voice request with an empty text and no credentials; an email request of an
  undeclared type; and a request by user \<open>u1\<close> for the activity records of user \<open>u2\<close>.\<close>

definition empty_text_request :: request where
  "empty_text_request =
     \<lparr>rq_method = ustr ''POST'', rq_url = ustr ''/api/elevenlabs/voice'',
      rq_authorization = None, rq_x_api_key = None, rq_user_agent = None,
      rq_body = JObj [(ustr ''text'', JStr []), (ustr ''voiceId'', JStr (ustr ''v1''))],
      rq_query = JObj []\<rparr>"

definition unknown_type_request :: request where
  "unknown_type_request =
     \<lparr>rq_method = ustr ''POST'', rq_url = ustr ''/api/resend/send'',
      rq_authorization = None, rq_x_api_key = Some (ustr ''k1''), rq_user_agent = None,
      rq_body = JObj [(ustr ''emailType'', JStr (ustr ''unknown_type'')),
                      (ustr ''to'', JStr (ustr ''al@example.org'')),
                      (ustr ''data'', welcome_data)],
      rq_query = JObj []\<rparr>"

definition no_action_request :: request where
  "no_action_request =
     \<lparr>rq_method = ustr ''POST'', rq_url = ustr ''/api/elevenlabs/conversation'',
      rq_authorization = None, rq_x_api_key = Some (ustr ''k1''), rq_user_agent = None,
      rq_body = JObj [(ustr ''agentId'', JStr (ustr ''a1''))],
      rq_query = JObj []\<rparr>"

definition cross_user_request :: request where
  "cross_user_request =
     \<lparr>rq_method = ustr ''GET'', rq_url = ustr ''/api/users/u2/activity/logs'',
      rq_authorization = Some (ustr ''Bearer t1''), rq_x_api_key = None, rq_user_agent = None,
      rq_body = JUndefined,
      rq_query = JObj [(ustr ''userId'', JStr (ustr ''u2''))]\<rparr>"

text \<open>The sample environment with a completion that holds no JSON.\<close>

definition env_prose :: env where
  "env_prose =
     env0\<lparr>e_openai :=
            (\<lambda>calls generatedPrompt. (120, OpenAIContent (JStr (ustr ''I cannot help with that''))))\<rparr>"

text \<open>An analysis request: one message and a profile.\<close>

definition analysis_request :: request where
  "analysis_request =
     \<lparr>rq_method = ustr ''POST'', rq_url = ustr ''/api/openai/analyze'',
      rq_authorization = None, rq_x_api_key = Some (ustr ''k1''), rq_user_agent = None,
      rq_body = JObj [(ustr ''messages'', JArr [message_plain]),
                      (ustr ''userProfile'', profile_level_first)],
      rq_query = JObj []\<rparr>"

definition message_parsed :: jsval where
  "message_parsed =
     JObj [(ustr ''role'', JStr (ustr ''user'')), (ustr ''content'', JStr (ustr ''Hello''))]"

text \<open>The state that request leaves behind in that environment, apart from the log.\<close>

definition prose_cached :: world where
  "prose_cached =
     world0\<lparr>w_invoked := [M_analyzeConversation],
            w_provider_calls := [OpenAICall (ustr ''Analyze'')],
            w_clock := 1120,
            w_cache := (\<lambda>key. None)(sample_analysis_key \<mapsto> (getFallbackAnalysis, 7201120)),
            w_cache_sets := 1\<rparr>"

text \<open>The sample environment with one provider failing: the completion provider rejects,
  the voice provider answers 500, the email provider returns an error.\<close>

definition env_completion_down :: env where
  "env_completion_down =
     env0\<lparr>e_openai := (\<lambda>calls generatedPrompt. (120, OpenAIRejects (ustr ''503'')))\<rparr>"

definition env_voice_down :: env where
  "env_voice_down =
     env0\<lparr>e_fetch :=
            (\<lambda>calls method endpoint body.
               (250, FetchResponse False 500 (ustr ''overloaded'') None))\<rparr>"

definition env_email_down :: env where
  "env_email_down =
     env0\<lparr>e_resend :=
            (\<lambda>calls recipient rendered. (80, ResendResult JNull (Some (ustr ''rate limited''))))\<rparr>"

text \<open>A welcome email whose data holds none of the fields of the template, and a request
  to start a conversation that names no agent.\<close>

definition welcome_missing_request :: request where
  "welcome_missing_request =
     \<lparr>rq_method = ustr ''POST'', rq_url = ustr ''/api/resend/send'',
      rq_authorization = None, rq_x_api_key = Some (ustr ''k1''), rq_user_agent = None,
      rq_body = JObj [(ustr ''emailType'', JStr (ustr ''welcome'')),
                      (ustr ''to'', JStr (ustr ''al@example.org'')),
                      (ustr ''data'', JObj [])],
      rq_query = JObj []\<rparr>"

definition start_without_agent_request :: request where
  "start_without_agent_request =
     \<lparr>rq_method = ustr ''POST'', rq_url = ustr ''/api/elevenlabs/conversation'',
      rq_authorization = None, rq_x_api_key = Some (ustr ''k1''), rq_user_agent = None,
      rq_body = JObj [(ustr ''action'', JStr (ustr ''start_conversation''))],
      rq_query = JObj []\<rparr>"

text \<open>The sample environment with a cache whose \<open>set\<close> raises.\<close>

definition sample_vocabulary :: jsval where
  "sample_vocabulary =
     JObj [(ustr ''word_list_title'', JStr (ustr ''Food'')),
           (ustr ''word_list_topic'', JStr (ustr ''food'')),
           (ustr ''word_list_words'', JArr [])]"

definition env_cache_raises :: env where
  "env_cache_raises = env0\<lparr>e_cache_set := (\<lambda>n key. Some (ustr ''ECACHEFULL''))\<rparr>"

section \<open>String literals\<close>

lemma of_char_word16_inj: "inj (of_char :: char \<Rightarrow> 16 word)"
proof (rule injI)
  fix c d :: char
  assume h: "(of_char c :: 16 word) = of_char d"
  have u: "unat (of_char x :: 16 word) = of_char x" for x :: char
  proof -
    have "(of_char x :: 16 word) = of_nat (of_char x)"
      by (simp add: of_nat_of_char)
    moreover have "(of_char x :: nat) < 2 ^ 16"
    proof -
      have "(of_char x :: nat) < 256" by (rule nat_of_char_less_256)
      moreover have "(256 :: nat) < 2 ^ 16" by simp
      ultimately show ?thesis by (rule less_trans)
    qed
    ultimately show ?thesis
      by (simp add: unat_of_nat take_bit_nat_eq_self)
  qed
  from h have "unat (of_char c :: 16 word) = unat (of_char d :: 16 word)" by simp
  then have "(of_char c :: nat) = of_char d" by (simp only: u)
  then show "c = d" by simp
qed

lemma ustr_eq_iff [simp]: "ustr a = ustr b \<longleftrightarrow> a = b"
  unfolding ustr_def using of_char_word16_inj by (simp add: inj_eq inj_mapI)

lemma ustr_Nil_iff [simp]: "ustr a = [] \<longleftrightarrow> a = []" "[] = ustr a \<longleftrightarrow> a = []"
  by (auto simp: ustr_def)

section \<open>Error taxonomy: the status of an error\<close>

text \<open>
  C4. The HTTP status an error is serialized with depends on its kind alone:
  Validation 400, Authentication 401, Authorization 403, NotFound 404, RateLimit 429,
  ExternalProvider 502, and 500 for every other error (an \<open>InternalServerError\<close> or any
  unclassified throwable).
\<close>

theorem getStatusCode_by_kind:
  "getStatusCode e = spec_status_of_kind (kind_of e)
   \<and> getStatusCode (ValidationError m f) = 400
   \<and> getStatusCode (AuthenticationError m) = 401
   \<and> getStatusCode (AuthorizationError m) = 403
   \<and> getStatusCode (NotFoundError m) = 404
   \<and> getStatusCode (RateLimitError m) = 429
   \<and> getStatusCode (ExternalAPIError m s orig) = 502
   \<and> getStatusCode (InternalServerError m) = 500
   \<and> getStatusCode (OtherError n m) = 500"
  by (cases e) simp_all

section \<open>Authenticator: the static key\<close>

text \<open>
  C5. With a secret configured, a presented key equal to the secret authenticates as
  identity \<open>system\<close> with method \<open>api_key\<close>; every other key, whatever its content, fails
  with an \<open>AuthenticationError\<close>, whose status is 401.
\<close>

theorem authenticateAPIKey_exact_match:
  assumes "secret \<noteq> []"
  shows "authenticateAPIKey (Some secret) apiKey =
           (if apiKey = secret then
              Inr \<lparr>userId = ustr ''system'', email = ustr ''system@ialla.app'',
                   authMethod = api_key\<rparr>
            else Inl (AuthenticationError (ustr ''Invalid API key'')))
         \<and> getStatusCode (AuthenticationError (ustr ''Invalid API key'')) = 401"
  using assms by (simp add: authenticateAPIKey_def)

theorem authenticateAPIKey_exact_match_witness:
  "authenticateAPIKey (Some (ustr ''k1'')) (ustr ''k1'') =
     Inr \<lparr>userId = ustr ''system'', email = ustr ''system@ialla.app'', authMethod = api_key\<rparr>
   \<and> authenticateAPIKey (Some (ustr ''k1'')) (ustr ''k1x'') =
     Inl (AuthenticationError (ustr ''Invalid API key''))"
  using authenticateAPIKey_exact_match [of "ustr ''k1''" "ustr ''k1''"]
        authenticateAPIKey_exact_match [of "ustr ''k1''" "ustr ''k1x''"]
  by simp

section \<open>Cache keys: what the key depends on\<close>

declare toString36.simps [simp del] decimal.simps [simp del]

lemmas stringify_eval =
  stringify_object_def QuoteJSONString_def quote_unit_def is_high_surrogate_def
  is_low_surrogate_def ustr_def

lemmas hash_eval = hashString_def hash_step_def digit36_def toString36.simps ustr_def

lemma content_level_first:
  "stringify_object ns
     [(ustr ''messages'', JArr []), (ustr ''userProfile'', profile_level_first),
      (ustr ''studyTopic'', JUndefined), (ustr ''vocabularyContext'', JUndefined)]
   = ustr ''{\"messages\":[],\"userProfile\":{\"level\":\"A1\",\"first_name\":\"Al\"}}''"
  by (simp add: stringify_eval profile_level_first_def)

lemma hash_level_first:
  "hashString (ustr ''{\"messages\":[],\"userProfile\":{\"level\":\"A1\",\"first_name\":\"Al\"}}'')
   = ustr ''nbtekx''"
  by (simp add: hash_eval)

lemma content_name_first:
  "stringify_object ns
     [(ustr ''messages'', JArr []), (ustr ''userProfile'', profile_name_first),
      (ustr ''studyTopic'', JUndefined), (ustr ''vocabularyContext'', JUndefined)]
   = ustr ''{\"messages\":[],\"userProfile\":{\"first_name\":\"Al\",\"level\":\"A1\"}}''"
  by (simp add: stringify_eval profile_name_first_def)

lemma hash_name_first:
  "hashString (ustr ''{\"messages\":[],\"userProfile\":{\"first_name\":\"Al\",\"level\":\"A1\"}}'')
   = ustr ''dgrx63''"
  by (simp add: hash_eval)

lemma ustr_append: "ustr a @ ustr b = ustr (a @ b)"
  by (simp add: ustr_def)

lemma k1: "generateOpenAIKey ns [] profile_level_first JUndefined JUndefined
   = Inr (ustr ''openai:nbtekx'')"
  by (simp add: generateOpenAIKey_def content_level_first hash_level_first ustr_append)

lemma k2: "generateOpenAIKey ns [] profile_name_first JUndefined JUndefined
   = Inr (ustr ''openai:dgrx63'')"
  by (simp add: generateOpenAIKey_def content_name_first hash_name_first ustr_append)


lemma map_raising_cong:
  "list_all2 (\<lambda>a b. f a = f b) xs ys \<Longrightarrow> map_raising f xs = map_raising f ys"
  by (induction xs ys rule: list_all2_induct) (simp_all split: sum.splits)

lemma pick_role_content_cong:
  assumes "member a (ustr ''role'') = member b (ustr ''role'')"
      and "member a (ustr ''content'') = member b (ustr ''content'')"
  shows "pick_role_content a = pick_role_content b"
  unfolding pick_role_content_def assms by (rule refl)

lemma pick_keys_cong:
  assumes "\<forall>k \<in> set keys. get_prop a k = get_prop b k"
  shows "pick_keys keys a = pick_keys keys b"
proof -
  have "map (\<lambda>k. case get_prop a k of JUndefined \<Rightarrow> [] | x \<Rightarrow> [(k, x)]) keys
      = map (\<lambda>k. case get_prop b k of JUndefined \<Rightarrow> [] | x \<Rightarrow> [(k, x)]) keys"
    using assms by (intro map_cong refl) simp
  then show ?thesis by (simp only: pick_keys_def)
qed



section \<open>The call logger never raises; the log does not steer a request\<close>

lemma primary_simps [simp]:
  "primary (w\<lparr>w_unified_logs := l\<rparr>) = primary w"
  "primary (w\<lparr>w_sink_attempts := n\<rparr>) = primary w"
  "primary (w\<lparr>w_console := c\<rparr>) = primary w"
  by (simp_all add: primary_def)

lemma primary_eqD:
  "primary w1 = primary w2 \<Longrightarrow>
     w_clock w1 = w_clock w2 \<and> w_cache w1 = w_cache w2 \<and> w_cache_sets w1 = w_cache_sets w2
     \<and> w_provider_calls w1 = w_provider_calls w2 \<and> w_invoked w1 = w_invoked w2
     \<and> w_db_calls w1 = w_db_calls w2 \<and> w_response w1 = w_response w2"
  by (simp add: primary_def)

lemma sim_return: "sim (io_return x) (io_return x)"
  by (simp add: sim_def io_return_def)

lemma sim_throw: "sim (io_throw e) (io_throw e)"
  by (simp add: sim_def io_throw_def)

lemma sim_lift: "sim (io_lift r) (io_lift r)"
  by (simp add: sim_def io_lift_def)

lemma io_bind_Inr: "m w = (Inr x, w') \<Longrightarrow> io_bind m f w = f x w'"
  by (simp add: io_bind_def)

lemma io_bind_Inl: "m w = (Inl e, w') \<Longrightarrow> io_bind m f w = (Inl e, w')"
  by (simp add: io_bind_def)

lemma io_catch_Inr: "m w = (Inr x, w') \<Longrightarrow> io_catch m h w = (Inr x, w')"
  by (simp add: io_catch_def)

lemma io_catch_Inl: "m w = (Inl e, w') \<Longrightarrow> io_catch m h w = h e w'"
  by (simp add: io_catch_def)

lemma simD:
  assumes "sim m1 m2" and "primary w1 = primary w2"
      and "m1 w1 = (r1, v1)" and "m2 w2 = (r2, v2)"
  shows "r1 = r2 \<and> primary v1 = primary v2"
  using assms unfolding sim_def by (metis fst_conv snd_conv)

lemma sim_bind:
  assumes "sim m1 m2" and "\<And>x. sim (f1 x) (f2 x)"
  shows "sim (io_bind m1 f1) (io_bind m2 f2)"
  unfolding sim_def
proof (intro allI impI)
  fix w1 w2 assume p: "primary w1 = primary w2"
  obtain r1 v1 where e1: "m1 w1 = (r1, v1)" by (cases "m1 w1")
  obtain r2 v2 where e2: "m2 w2 = (r2, v2)" by (cases "m2 w2")
  from simD [OF assms(1) p e1 e2] have r: "r2 = r1" and v: "primary v1 = primary v2" by simp_all
  show "fst (io_bind m1 f1 w1) = fst (io_bind m2 f2 w2) \<and>
        primary (snd (io_bind m1 f1 w1)) = primary (snd (io_bind m2 f2 w2))"
  proof (cases r1)
    case (Inl e)
    with e1 e2 r v show ?thesis by (simp add: io_bind_Inl)
  next
    case (Inr x)
    with e1 e2 r have "io_bind m1 f1 w1 = f1 x v1" "io_bind m2 f2 w2 = f2 x v2"
      by (simp_all add: io_bind_Inr)
    with assms(2) [of x] v show ?thesis by (simp add: sim_def)
  qed
qed

lemma sim_catch:
  assumes "sim m1 m2" and "\<And>e. sim (h1 e) (h2 e)"
  shows "sim (io_catch m1 h1) (io_catch m2 h2)"
  unfolding sim_def
proof (intro allI impI)
  fix w1 w2 assume p: "primary w1 = primary w2"
  obtain r1 v1 where e1: "m1 w1 = (r1, v1)" by (cases "m1 w1")
  obtain r2 v2 where e2: "m2 w2 = (r2, v2)" by (cases "m2 w2")
  from simD [OF assms(1) p e1 e2] have r: "r2 = r1" and v: "primary v1 = primary v2" by simp_all
  show "fst (io_catch m1 h1 w1) = fst (io_catch m2 h2 w2) \<and>
        primary (snd (io_catch m1 h1 w1)) = primary (snd (io_catch m2 h2 w2))"
  proof (cases r1)
    case (Inr x)
    with e1 e2 r v show ?thesis by (simp add: io_catch_Inr)
  next
    case (Inl e)
    with e1 e2 r have "io_catch m1 h1 w1 = h1 e v1" "io_catch m2 h2 w2 = h2 e v2"
      by (simp_all add: io_catch_Inl)
    with assms(2) [of e] v show ?thesis by (simp add: sim_def)
  qed
qed

lemma quiet_sim: "quiet m1 \<Longrightarrow> quiet m2 \<Longrightarrow> sim m1 m2"
  by (simp add: quiet_def sim_def)

lemma quietD:
  assumes "quiet m" and "m w = (r, v)"
  shows "r = Inr () \<and> primary v = primary w"
  using assms unfolding quiet_def by (metis fst_conv snd_conv)

lemma quiet_console: "quiet (console_print l)"
  by (simp add: quiet_def console_print_def)

lemma quiet_return: "quiet (io_return ())"
  by (simp add: quiet_def io_return_def)

lemma sink_insert_primary: "primary (snd (sink_insert E row w)) = primary w"
  by (simp add: sink_insert_def Let_def split: sink_outcome.splits)

text \<open>A write to the sink inside \<open>try\<close>, with quiet continuations.\<close>

lemma quiet_guarded:
  assumes "\<And>x. quiet (f x)" and "\<And>e. quiet (h e)"
  shows "quiet (io_catch (io_bind (sink_insert E row) f) h)"
  unfolding quiet_def
proof
  fix w
  obtain r v where s: "sink_insert E row w = (r, v)" by (cases "sink_insert E row w")
  with sink_insert_primary [of E row w] have p: "primary v = primary w" by simp
  show "fst (io_catch (io_bind (sink_insert E row) f) h w) = Inr () \<and>
        primary (snd (io_catch (io_bind (sink_insert E row) f) h w)) = primary w"
  proof (cases r)
    case (Inl e)
    with s have "io_bind (sink_insert E row) f w = (Inl e, v)" by (simp add: io_bind_Inl)
    then have "io_catch (io_bind (sink_insert E row) f) h w = h e v" by (rule io_catch_Inl)
    moreover obtain r' v' where h: "h e v = (r', v')" by (cases "h e v")
    ultimately show ?thesis using quietD [OF assms(2) h] p by simp
  next
    case (Inr x)
    obtain r' v' where f: "f x v = (r', v')" by (cases "f x v")
    from quietD [OF assms(1) f] have q: "r' = Inr ()" "primary v' = primary v" by simp_all
    from s Inr f q have "io_bind (sink_insert E row) f w = (Inr (), v')"
      by (simp add: io_bind_Inr)
    then have "io_catch (io_bind (sink_insert E row) f) h w = (Inr (), v')"
      by (rule io_catch_Inr)
    with q p show ?thesis by simp
  qed
qed

lemma quiet_bind:
  assumes "quiet m" and "\<And>x. quiet (k x)"
  shows "quiet (io_bind m k)"
  unfolding quiet_def
proof
  fix w
  obtain r v where m: "m w = (r, v)" by (cases "m w")
  from quietD [OF assms(1) m] have q: "r = Inr ()" "primary v = primary w" by simp_all
  obtain r' v' where k: "k () v = (r', v')" by (cases "k () v")
  from quietD [OF assms(2) k] have q': "r' = Inr ()" "primary v' = primary v" by simp_all
  from m q k have "io_bind m k w = (r', v')" by (simp add: io_bind_Inr)
  with q q' show "fst (io_bind m k w) = Inr () \<and> primary (snd (io_bind m k w)) = primary w"
    by simp
qed

lemma quiet_now_bind:
  assumes "\<And>now. quiet (k now)"
  shows "quiet (io_bind io_now k)"
  unfolding quiet_def
proof
  fix w
  have "io_bind io_now k w = k (w_clock w) w" by (simp add: io_bind_def io_now_def)
  moreover obtain r v where k: "k (w_clock w) w = (r, v)" by (cases "k (w_clock w) w")
  ultimately show "fst (io_bind io_now k w) = Inr () \<and> primary (snd (io_bind io_now k w)) = primary w"
    using quietD [OF assms k] by simp
qed

lemma quiet_logApiCall: "quiet (logApiCall E logData)"
proof (cases "e_logging_configured E")
  case False
  then show ?thesis by (simp add: logApiCall_def quiet_console)
next
  case True
  have "quiet (io_catch
          (io_bind io_now (\<lambda>now. io_bind (sink_insert E (ApiCallRow (entry now))) k)) h)"
    if "\<And>x. quiet (k x)" and "\<And>e. quiet (h e)" for entry k h
    unfolding quiet_def
  proof
    fix w
    have "io_bind io_now (\<lambda>now. io_bind (sink_insert E (ApiCallRow (entry now))) k) w
          = io_bind (sink_insert E (ApiCallRow (entry (w_clock w)))) k w"
      by (simp add: io_bind_def io_now_def)
    then have "io_catch (io_bind io_now (\<lambda>now. io_bind (sink_insert E (ApiCallRow (entry now))) k)) h w
          = io_catch (io_bind (sink_insert E (ApiCallRow (entry (w_clock w)))) k) h w"
      by (simp add: io_catch_def)
    with quiet_guarded [OF that, of E "ApiCallRow (entry (w_clock w))"]
    show "fst (io_catch (io_bind io_now (\<lambda>now. io_bind (sink_insert E (ApiCallRow (entry now))) k)) h w) = Inr () \<and>
          primary (snd (io_catch (io_bind io_now (\<lambda>now. io_bind (sink_insert E (ApiCallRow (entry now))) k)) h w)) = primary w"
      by (simp add: quiet_def)
  qed
  then show ?thesis
    using True
    by (simp add: logApiCall_def Let_def quiet_console split: option.splits)
qed

lemma quiet_logError: "quiet (logError E error context)"
  by (auto simp: logError_def intro!: quiet_console quiet_guarded quiet_return split: option.splits)

lemma quiet_logCacheOperation: "quiet (logCacheOperation E operation key serviceName)"
  by (auto simp: logCacheOperation_def intro!: quiet_bind quiet_console quiet_guarded quiet_return)

lemma quiet_logEmailSend: "quiet (logEmailSend E emailData resendId)"
  by (auto simp: logEmailSend_def intro!: quiet_console quiet_guarded quiet_return)

lemma with_sink_simps [simp]:
  "e_API_SECRET_KEY (with_sink E s c) = e_API_SECRET_KEY E"
  "e_production (with_sink E s c) = e_production E"
  "e_sessionId (with_sink E s c) = e_sessionId E"
  "e_getUser (with_sink E s c) = e_getUser E"
  "e_numberToString (with_sink E s c) = e_numberToString E"
  "e_toISOString (with_sink E s c) = e_toISOString E"
  "e_toString (with_sink E s c) = e_toString E"
  "e_zod_issues (with_sink E s c) = e_zod_issues E"
  "e_isEmail (with_sink E s c) = e_isEmail E"
  "e_isDatetime (with_sink E s c) = e_isDatetime E"
  "e_getActivePrompt (with_sink E s c) = e_getActivePrompt E"
  "e_generatePrompt (with_sink E s c) = e_generatePrompt E"
  "e_generateVocabularyPrompt (with_sink E s c) = e_generateVocabularyPrompt E"
  "e_cache_set (with_sink E s c) = e_cache_set E"
  "e_JSON_parse (with_sink E s c) = e_JSON_parse E"
  "e_openai (with_sink E s c) = e_openai E"
  "e_fetch (with_sink E s c) = e_fetch E"
  "e_renderTemplate (with_sink E s c) = e_renderTemplate E"
  "e_resend (with_sink E s c) = e_resend E"
  "e_profile (with_sink E s c) = e_profile E"
  "e_db_insert (with_sink E s c) = e_db_insert E"
  "e_db_select (with_sink E s c) = e_db_select E"
  by (simp_all add: with_sink_def)

named_theorems sim_intros

lemma sim_refl_pure [sim_intros]:
  "sim (io_return x) (io_return x)" "sim (io_throw e) (io_throw e)" "sim (io_lift r) (io_lift r)"
  by (rule sim_return sim_throw sim_lift)+

lemma sim_now [sim_intros]: "sim io_now io_now"
  by (simp add: sim_def io_now_def primary_def)

lemma sim_invoked [sim_intros]: "sim (io_invoked m) (io_invoked m)"
  by (simp add: sim_def io_invoked_def primary_def)

lemma sim_res_send [sim_intros]: "sim (res_send status body) (res_send status body)"
  by (simp add: sim_def res_send_def primary_def)

lemma cache_lookup_cong:
  assumes "w_clock w1 = w_clock w2" and "w_cache w1 = w_cache w2"
  shows "cache_lookup w1 key = cache_lookup w2 key"
  unfolding cache_lookup_def assms by (rule refl)

lemma sim_cache_get [sim_intros]: "sim (cache_get key) (cache_get key)"
  by (auto simp: sim_def cache_get_def primary_def intro: cache_lookup_cong)

lemma sim_cache_set [sim_intros]:
  "sim (cache_set E key v service) (cache_set (with_sink E s c) key v service)"
  by (simp add: sim_def cache_set_def primary_def Let_def split: option.splits)

lemma sim_openai_create [sim_intros]:
  "sim (openai_create E p) (openai_create (with_sink E s c) p)"
  by (simp add: sim_def openai_create_def primary_def Let_def split: prod.splits openai_outcome.splits)

lemma sim_fetch_call [sim_intros]:
  "sim (fetch_call E m ep b) (fetch_call (with_sink E s c) m ep b)"
  by (simp add: sim_def fetch_call_def primary_def Let_def split: prod.splits fetch_outcome.splits)

lemma sim_resend_send [sim_intros]:
  "sim (resend_send E t r) (resend_send (with_sink E s c) t r)"
  by (simp add: sim_def resend_send_def primary_def Let_def split: prod.splits resend_outcome.splits)

lemma sim_db_insert [sim_intros]:
  "sim (db_insert E row) (db_insert (with_sink E s c) row)"
  by (simp add: sim_def db_insert_def primary_def)

lemma sim_db_select [sim_intros]:
  "sim (db_select E u l off a) (db_select (with_sink E s c) u l off a)"
  by (simp add: sim_def db_select_def primary_def)

lemma sim_logs [sim_intros]:
  "sim (logApiCall E ld) (logApiCall E' ld')"
  "sim (logError E e ctx) (logError E' e' ctx')"
  "sim (logCacheOperation E op k sv) (logCacheOperation E' op' k' sv')"
  "sim (logEmailSend E ed rid) (logEmailSend E' ed' rid')"
  by (intro quiet_sim quiet_logApiCall quiet_logError quiet_logCacheOperation quiet_logEmailSend)+

lemma sim_if [sim_intros]:
  "(c \<Longrightarrow> sim a b) \<Longrightarrow> (\<not> c \<Longrightarrow> sim a' b') \<Longrightarrow> sim (if c then a else a') (if c then b else b')"
  by simp

lemma sim_case_option [sim_intros]:
  "sim a b \<Longrightarrow> (\<And>y. sim (f y) (g y)) \<Longrightarrow>
   sim (case x of None \<Rightarrow> a | Some y \<Rightarrow> f y) (case x of None \<Rightarrow> b | Some y \<Rightarrow> g y)"
  by (cases x) simp_all

lemma sim_case_sum [sim_intros]:
  "(\<And>y. sim (f y) (g y)) \<Longrightarrow> (\<And>y. sim (f' y) (g' y)) \<Longrightarrow>
   sim (case x of Inl y \<Rightarrow> f y | Inr y \<Rightarrow> f' y) (case x of Inl y \<Rightarrow> g y | Inr y \<Rightarrow> g' y)"
  by (cases x) simp_all

lemma sim_case_prod [sim_intros]:
  "(\<And>a b. sim (f a b) (g a b)) \<Longrightarrow> sim (case x of (a, b) \<Rightarrow> f a b) (case x of (a, b) \<Rightarrow> g a b)"
  by (cases x) simp

lemma sim_case_jsval [sim_intros]:
  assumes "sim a1 b1" "sim a2 b2" "\<And>x. sim (a3 x) (b3 x)" "\<And>x. sim (a4 x) (b4 x)"
    "\<And>x. sim (a5 x) (b5 x)" "\<And>x. sim (a6 x) (b6 x)" "\<And>x. sim (a7 x) (b7 x)"
  shows "sim (case_jsval a1 a2 a3 a4 a5 a6 a7 v) (case_jsval b1 b2 b3 b4 b5 b6 b7 v)"
  using assms by (cases v) simp_all

lemmas sim_comb [sim_intros] = sim_bind sim_catch

lemma with_sink_parse: "parseAnalysisResponse (with_sink E s c) = parseAnalysisResponse E"
  unfolding fun_eq_iff parseAnalysisResponse_def with_sink_simps by simp

lemma with_sink_api_error: "elevenlabs_api_error (with_sink E s c) = elevenlabs_api_error E"
  unfolding fun_eq_iff elevenlabs_api_error_def with_sink_simps by simp

lemma with_sink_render: "renderEmailTemplate (with_sink E s c) = renderEmailTemplate E"
  unfolding fun_eq_iff renderEmailTemplate_def with_sink_simps by simp

lemma with_sink_authenticate: "authenticate (with_sink E s c) = authenticate E"
  unfolding fun_eq_iff authenticate_def authenticateJWT_def with_sink_simps by simp

lemma with_sink_voice_schema:
  "VoiceRequestSchema_safeParse (with_sink E s c) = VoiceRequestSchema_safeParse E"
  unfolding fun_eq_iff VoiceRequestSchema_safeParse_def with_sink_simps by simp

lemma with_sink_email_schema:
  "EmailRequestSchema_safeParse (with_sink E s c) = EmailRequestSchema_safeParse E"
  unfolding fun_eq_iff EmailRequestSchema_safeParse_def EmailRequestSchema_ok_def
    with_sink_simps by simp

lemma with_sink_conversation_schema:
  "ConversationRequestSchema_safeParse (with_sink E s c) = ConversationRequestSchema_safeParse E"
  unfolding fun_eq_iff ConversationRequestSchema_safeParse_def with_sink_simps by simp

lemma with_sink_activity_schema:
  "ActivityLogRequestSchema_safeParse (with_sink E s c) = ActivityLogRequestSchema_safeParse E"
  unfolding fun_eq_iff ActivityLogRequestSchema_safeParse_def ActivityLogRequestSchema_ok_def
    activity_metadata_ok_def with_sink_simps by simp

lemma with_sink_analyze_schema:
  "AnalyzeRequestSchema_safeParse (with_sink E s c) = AnalyzeRequestSchema_safeParse E"
  unfolding fun_eq_iff AnalyzeRequestSchema_safeParse_def with_sink_simps by simp

lemmas with_sink_pure =
  with_sink_parse with_sink_api_error with_sink_render with_sink_authenticate
  with_sink_voice_schema with_sink_email_schema with_sink_conversation_schema
  with_sink_activity_schema with_sink_analyze_schema

lemma sim_analyzeConversation:
  "sim (analyzeConversation E ms up st) (analyzeConversation (with_sink E s c) ms up st)"
  unfolding analyzeConversation_def analyze_miss_def analyze_failed_def Let_def with_sink_simps
    with_sink_pure
  by (intro sim_intros)

lemma sim_analyzeVocabularyPractice:
  "sim (analyzeVocabularyPractice E ms up vc) (analyzeVocabularyPractice (with_sink E s c) ms up vc)"
  unfolding analyzeVocabularyPractice_def vocabulary_miss_def analyze_failed_def Let_def
    with_sink_simps with_sink_pure
  by (intro sim_intros)

lemma sim_generateVoice:
  "sim (generateVoice E t v st) (generateVoice (with_sink E s c) t v st)"
  unfolding generateVoice_def voice_miss_def elevenlabs_failed_def Let_def with_sink_simps
    with_sink_pure
  by (intro sim_intros)

lemma sim_conversation_call:
  "sim (conversation_call E t0 m ep b) (conversation_call (with_sink E s c) t0 m ep b)"
  unfolding conversation_call_def response_json_def Let_def with_sink_simps with_sink_pure
  by (intro sim_intros)

lemma sim_conversation_route:
  "sim (conversation_route E d) (conversation_route (with_sink E s c) d)"
  unfolding conversation_route_def startConversation_def sendMessage_def endConversation_def
    elevenlabs_failed_def Let_def with_sink_simps with_sink_pure
  by (intro sim_intros sim_conversation_call)

lemma sim_sendEmail:
  "sim (sendEmail E d) (sendEmail (with_sink E s c) d)"
  unfolding sendEmail_def send_attempt_def send_failed_def Let_def with_sink_simps with_sink_pure
  by (intro sim_intros)

lemma sim_authMiddleware:
  "sim (authMiddleware E req) (authMiddleware (with_sink E s c) req)"
  unfolding authMiddleware_def Let_def with_sink_simps with_sink_pure
  by (intro sim_intros)

lemma sim_asyncHandler:
  assumes "sim fn fn'"
  shows "sim (asyncHandler E req fn) (asyncHandler (with_sink E s c) req fn')"
  unfolding asyncHandler_def handleError_def ErrorHandler_logError_def Let_def with_sink_simps
    with_sink_pure
  by (intro sim_intros assms)

lemma sim_method_not_allowed:
  "sim (method_not_allowed E) (method_not_allowed (with_sink E s c))"
  unfolding method_not_allowed_def with_sink_simps
  by (intro sim_intros)

lemma sim_voice_handler:
  "sim (voice_handler E req) (voice_handler (with_sink E s c) req)"
  unfolding voice_handler_def with_sink_simps with_sink_pure
  by (intro sim_asyncHandler sim_intros sim_method_not_allowed sim_authMiddleware sim_generateVoice)

lemma sim_analyze_handler:
  "sim (analyze_handler E req) (analyze_handler (with_sink E s c) req)"
  unfolding analyze_handler_def with_sink_simps with_sink_pure
  by (intro sim_asyncHandler sim_intros sim_method_not_allowed sim_authMiddleware
        sim_analyzeConversation sim_analyzeVocabularyPractice)

lemma sim_email_handler:
  "sim (email_handler E req) (email_handler (with_sink E s c) req)"
  unfolding email_handler_def with_sink_simps with_sink_pure
  by (intro sim_asyncHandler sim_intros sim_method_not_allowed sim_authMiddleware sim_sendEmail)

lemma sim_conversation_handler:
  "sim (conversation_handler E req) (conversation_handler (with_sink E s c) req)"
  unfolding conversation_handler_def with_sink_simps with_sink_pure
  by (intro sim_asyncHandler sim_intros sim_method_not_allowed sim_authMiddleware
        sim_conversation_route)

lemma sim_activity_handler:
  "sim (activity_handler E req) (activity_handler (with_sink E s c) req)"
  unfolding activity_handler_def activity_access_check_def activity_post_def activity_get_def
    Let_def with_sink_simps with_sink_pure
  by (intro sim_asyncHandler sim_intros sim_authMiddleware)

lemma simE:
  assumes "sim m1 m2"
  shows "fst (m2 w) = fst (m1 w) \<and> primary (snd (m2 w)) = primary (snd (m1 w))"
  using assms unfolding sim_def by metis

lemma logApiCall_sink_throws:
  assumes "e_logging_configured E" and "e_sink E (w_sink_attempts w) = (\<lambda>row. SinkThrows m)"
  shows "logApiCall E logData w =
           (Inr (), w\<lparr>w_sink_attempts := Suc (w_sink_attempts w),
                      w_console := w_console w @ [ConsoleError (ustr ''Logging service error'')]\<rparr>)"
  using assms
  by (simp add: logApiCall_def io_catch_def io_bind_def io_now_def sink_insert_def Let_def
        console_print_def)

section \<open>Running a request with the logger muted\<close>

lemmas io_defs = io_bind_def io_catch_def io_return_def io_throw_def io_lift_def io_now_def
  io_invoked_def console_print_def res_send_def

lemmas exec_defs = io_defs cache_get_def cache_set_def openai_create_def fetch_call_def
  resend_send_def db_insert_def db_select_def response_json_def Let_def

lemma mute_simps [simp]:
  "e_logging_configured (mute E) = False"
  "e_sink (mute E) = (\<lambda>n row. SinkOk)"
  "e_API_SECRET_KEY (mute E) = e_API_SECRET_KEY E"
  "e_production (mute E) = e_production E"
  "e_sessionId (mute E) = e_sessionId E"
  "e_getUser (mute E) = e_getUser E"
  "e_numberToString (mute E) = e_numberToString E"
  "e_toISOString (mute E) = e_toISOString E"
  "e_toString (mute E) = e_toString E"
  "e_zod_issues (mute E) = e_zod_issues E"
  "e_isEmail (mute E) = e_isEmail E"
  "e_isDatetime (mute E) = e_isDatetime E"
  "e_getActivePrompt (mute E) = e_getActivePrompt E"
  "e_generatePrompt (mute E) = e_generatePrompt E"
  "e_generateVocabularyPrompt (mute E) = e_generateVocabularyPrompt E"
  "e_cache_set (mute E) = e_cache_set E"
  "e_JSON_parse (mute E) = e_JSON_parse E"
  "e_openai (mute E) = e_openai E"
  "e_fetch (mute E) = e_fetch E"
  "e_renderTemplate (mute E) = e_renderTemplate E"
  "e_resend (mute E) = e_resend E"
  "e_profile (mute E) = e_profile E"
  "e_db_insert (mute E) = e_db_insert E"
  "e_db_select (mute E) = e_db_select E"
  by (simp_all add: mute_def with_sink_def)

lemma mute_pure [simp]:
  "parseAnalysisResponse (mute E) = parseAnalysisResponse E"
  "elevenlabs_api_error (mute E) = elevenlabs_api_error E"
  "renderEmailTemplate (mute E) = renderEmailTemplate E"
  "authenticate (mute E) = authenticate E"
  "VoiceRequestSchema_safeParse (mute E) = VoiceRequestSchema_safeParse E"
  "EmailRequestSchema_safeParse (mute E) = EmailRequestSchema_safeParse E"
  "ConversationRequestSchema_safeParse (mute E) = ConversationRequestSchema_safeParse E"
  "ActivityLogRequestSchema_safeParse (mute E) = ActivityLogRequestSchema_safeParse E"
  "AnalyzeRequestSchema_safeParse (mute E) = AnalyzeRequestSchema_safeParse E"
  by (simp_all add: mute_def with_sink_pure)

lemma mute_logs [simp]:
  "logApiCall (mute E) ld w =
     (Inr (), w\<lparr>w_console := w_console w
                  @ [ConsoleLog (ustr ''Logging disabled - Supabase not configured'')]\<rparr>)"
  "logError (mute E) e ctx w =
     (Inr (), w\<lparr>w_console := w_console w
                  @ [ConsoleError (ustr ''Error logging disabled - Supabase not configured'')]\<rparr>)"
  "logCacheOperation (mute E) op k sv w =
     (Inr (), w\<lparr>w_console := w_console w
                  @ [ConsoleLog (ustr ''Cache '' @ op @ ustr '': '' @ k @ ustr '' ('' @ sv @ ustr '')'')]\<rparr>)"
  "logEmailSend (mute E) ed rid w =
     (Inr (), w\<lparr>w_sink_attempts := Suc (w_sink_attempts w),
                w_unified_logs := w_unified_logs w @ [EmailSentRow (emailType ed) rid (to ed) (data ed)]\<rparr>)"
  by (simp_all add: logApiCall_def logError_def logCacheOperation_def logEmailSend_def io_defs
        sink_insert_def Let_def)

lemma mute_fst:
  assumes "\<And>s c. sim (m E) (m (with_sink E s c))"
  shows "fst (m E w) = fst (m (mute E) w)"
  unfolding mute_def using simE [OF assms] by metis

lemma mute_primary:
  assumes "\<And>s c. sim (m E) (m (with_sink E s c))"
  shows "primary (snd (m E w)) = primary (snd (m (mute E) w))"
  unfolding mute_def using simE [OF assms] by metis

lemma cache_lookup_simps [simp]:
  "cache_lookup (w\<lparr>w_console := c\<rparr>) k = cache_lookup w k"
  "cache_lookup (w\<lparr>w_invoked := i\<rparr>) k = cache_lookup w k"
  "cache_lookup (w\<lparr>w_unified_logs := l\<rparr>) k = cache_lookup w k"
  "cache_lookup (w\<lparr>w_sink_attempts := n\<rparr>) k = cache_lookup w k"
  "cache_lookup (w\<lparr>w_provider_calls := p\<rparr>) k = cache_lookup w k"
  "cache_lookup (w\<lparr>w_response := r\<rparr>) k = cache_lookup w k"
  by (auto simp: cache_lookup_def split: option.splits)

section \<open>A failing provider\<close>

lemma analyze_fails_mute:
  assumes "generateOpenAIKey (e_numberToString E) ms up st JUndefined = Inr key"
      and "\<not> truthy (cache_lookup w key)"
      and "e_getActivePrompt E (ustr ''general'') (languageCode_of up) = Some prompt"
      and "e_generatePrompt E prompt ms up st = Inr p"
      and "e_openai E (w_provider_calls w) p = (latency, outcome)"
      and "openai_failed outcome"
  shows "analyzeConversation (mute E) ms up st w =
           (Inr getFallbackAnalysis,
            w\<lparr>w_invoked := w_invoked w @ [M_analyzeConversation],
              w_provider_calls := w_provider_calls w @ [OpenAICall p],
              w_clock := w_clock w + latency,
              w_console := w_console w
                @ [ConsoleLog (ustr ''Cache '' @ ustr ''miss'' @ ustr '': '' @ key @ ustr '' (''
                               @ ustr ''openai'' @ ustr '')''),
                   ConsoleLog (ustr ''Logging disabled - Supabase not configured'')]\<rparr>)"
  using assms
  by (cases outcome)
     (simp_all add: analyzeConversation_def analyze_miss_def analyze_failed_def exec_defs)

lemma voice_fails_mute:
  assumes "\<not> truthy (cache_lookup w
             (generateElevenLabsVoiceKey (e_numberToString E) t v (JObj (settings_or_empty st))))"
      and "e_fetch E (w_provider_calls w) (ustr ''POST'') (voice_endpoint v)
             (voice_requestBody t (settings_or_empty st)) = (latency, outcome)"
      and "fetch_failed outcome"
  shows "\<exists>orig w'. generateVoice (mute E) t v st w =
           (Inl (ExternalAPIError (ustr ''Failed to generate voice with ElevenLabs'')
                   (ustr ''elevenlabs'') (Some orig)), w')
         \<and> w_response w' = w_response w"
  using assms
  by (cases outcome)
     (simp_all add: generateVoice_def voice_miss_def elevenlabs_failed_def exec_defs)

lemma email_fails_mute:
  assumes "validateEmailData (emailType d) (data d) = Inr ()"
      and "renderEmailTemplate E (emailType d) (data d) = Inr rendered"
      and "e_resend E (w_provider_calls w) (to d) rendered = (latency, outcome)"
      and "resend_failed outcome"
  shows "\<exists>orig w'. sendEmail (mute E) d w =
           (Inl (ExternalAPIError (ustr ''Failed to send email via Resend'') (ustr ''resend'')
                   (Some orig)), w')
         \<and> w_response w' = w_response w"
  using assms
  by (cases outcome)
     (auto simp add: sendEmail_def send_attempt_def send_failed_def exec_defs)

lemma asyncHandler_raises_mute:
  assumes "fn w = (Inl e, w1)" and "w_response w1 = None"
  shows "w_response (snd (asyncHandler (mute E) req fn w)) =
           Some (getStatusCode e,
                 ErrorBody (createErrorResponse (e_production E) (e_toISOString E (w_clock w1)) e))"
  using assms
  by (simp add: asyncHandler_def handleError_def ErrorHandler_logError_def exec_defs)

lemma authMiddleware_ok:
  "authenticate E req = Inr ctx \<Longrightarrow> authMiddleware E req w = (Inr ctx, w)"
  by (simp add: authMiddleware_def io_defs)

lemma response_of_primary: "primary w1 = primary w2 \<Longrightarrow> w_response w1 = w_response w2"
  by (simp add: primary_def)

lemma voice_handler_fails:
  assumes "rq_method req = ustr ''POST''" and "authenticate E req = Inr ctx"
      and "VoiceRequestSchema_safeParse E (rq_body req)
             = Inr \<lparr>vr_text = t, vr_voiceId = v, vr_settings = st\<rparr>"
      and "w_response w = None"
      and "\<not> truthy (cache_lookup w
             (generateElevenLabsVoiceKey (e_numberToString E) t v (JObj (settings_or_empty st))))"
      and "e_fetch E (w_provider_calls w) (ustr ''POST'') (voice_endpoint v)
             (voice_requestBody t (settings_or_empty st)) = (latency, outcome)"
      and "fetch_failed outcome"
  shows "\<exists>body. w_response (snd (voice_handler E req w)) = Some (502, ErrorBody body)
           \<and> er_error body = ustr ''External API Error''"
proof -
  from voice_fails_mute [OF assms(5,6,7)] obtain orig w1 where
    g: "generateVoice (mute E) t v st w =
          (Inl (ExternalAPIError (ustr ''Failed to generate voice with ElevenLabs'')
                  (ustr ''elevenlabs'') (Some orig)), w1)"
    and r: "w_response w1 = w_response w" by blast
  let ?fn = "io_bind (authMiddleware (mute E) req) (\<lambda>authContext.
          case VoiceRequestSchema_safeParse (mute E) (rq_body req) of
            Inl issues \<Rightarrow> io_throw (invalid_request_data issues)
          | Inr d \<Rightarrow>
              io_bind (generateVoice (mute E) (vr_text d) (vr_voiceId d) (vr_settings d)) (\<lambda>result.
              io_bind io_now (\<lambda>now.
              res_send 200
                (Json (JObj [(ustr ''success'', JBool True),
                             (ustr ''data'', result),
                             (ustr ''timestamp'', JStr (e_toISOString (mute E) now))])))))"
  have fn: "?fn w = (Inl (ExternalAPIError (ustr ''Failed to generate voice with ElevenLabs'')
                  (ustr ''elevenlabs'') (Some orig)), w1)"
    using assms(2,3) g by (simp add: io_bind_def authMiddleware_ok)
  have "voice_handler (mute E) req w = asyncHandler (mute E) req ?fn w"
    using assms(1) by (simp add: voice_handler_def)
  with asyncHandler_raises_mute [where fn = ?fn and w = w and E = E and req = req, OF fn] r assms(4)
  have "w_response (snd (voice_handler (mute E) req w)) =
          Some (502, ErrorBody (createErrorResponse (e_production E) (e_toISOString E (w_clock w1))
                  (ExternalAPIError (ustr ''Failed to generate voice with ElevenLabs'')
                     (ustr ''elevenlabs'') (Some orig))))"
    by simp
  moreover have "w_response (snd (voice_handler E req w)) = w_response (snd (voice_handler (mute E) req w))"
    by (rule response_of_primary, rule mute_primary [where m = "\<lambda>E. voice_handler E req"])
       (rule sim_voice_handler)
  ultimately show ?thesis by simp
qed

lemma email_handler_fails:
  assumes "rq_method req = ustr ''POST''" and "authenticate E req = Inr ctx"
      and "EmailRequestSchema_safeParse E (rq_body req) = Inr d"
      and "w_response w = None"
      and "validateEmailData (emailType d) (data d) = Inr ()"
      and "renderEmailTemplate E (emailType d) (data d) = Inr rendered"
      and "e_resend E (w_provider_calls w) (to d) rendered = (latency, outcome)"
      and "resend_failed outcome"
  shows "\<exists>body. w_response (snd (email_handler E req w)) = Some (502, ErrorBody body)
           \<and> er_error body = ustr ''External API Error''"
proof -
  from email_fails_mute [OF assms(5,6,7,8)] obtain orig w1 where
    g: "sendEmail (mute E) d w =
          (Inl (ExternalAPIError (ustr ''Failed to send email via Resend'') (ustr ''resend'')
                  (Some orig)), w1)"
    and r: "w_response w1 = w_response w" by blast
  let ?fn = "io_bind (authMiddleware (mute E) req) (\<lambda>authContext.
          case EmailRequestSchema_safeParse (mute E) (rq_body req) of
            Inl issues \<Rightarrow> io_throw (invalid_request_data issues)
          | Inr d \<Rightarrow>
              io_bind (sendEmail (mute E) d) (\<lambda>result.
              io_bind io_now (\<lambda>now.
              res_send 200
                (Json (JObj [(ustr ''success'', JBool True),
                             (ustr ''data'', result),
                             (ustr ''message'', JStr (ustr ''Email sent successfully'')),
                             (ustr ''timestamp'', JStr (e_toISOString (mute E) now))])))))"
  have fn: "?fn w = (Inl (ExternalAPIError (ustr ''Failed to send email via Resend'')
                  (ustr ''resend'') (Some orig)), w1)"
    using assms(2,3) g by (simp add: io_bind_def authMiddleware_ok)
  have "email_handler (mute E) req w = asyncHandler (mute E) req ?fn w"
    using assms(1) by (simp add: email_handler_def)
  with asyncHandler_raises_mute [where fn = ?fn and w = w and E = E and req = req, OF fn] r assms(4)
  have "w_response (snd (email_handler (mute E) req w)) =
          Some (502, ErrorBody (createErrorResponse (e_production E) (e_toISOString E (w_clock w1))
                  (ExternalAPIError (ustr ''Failed to send email via Resend'')
                     (ustr ''resend'') (Some orig))))"
    by simp
  moreover have "w_response (snd (email_handler E req w)) = w_response (snd (email_handler (mute E) req w))"
    by (rule response_of_primary, rule mute_primary [where m = "\<lambda>E. email_handler E req"])
       (rule sim_email_handler)
  ultimately show ?thesis by simp
qed

section \<open>The sample environment, evaluated\<close>

lemma env0_simps [simp]:
  "e_API_SECRET_KEY env0 = Some (ustr ''k1'')"
  "e_production env0 = True"
  "e_logging_configured env0 = True"
  "e_sessionId env0 = ustr ''api_1_abc''"
  "e_sink env0 = (\<lambda>n row. SinkOk)"
  "e_numberToString env0 = print_number"
  "e_toISOString env0 = (\<lambda>t. ustr ''T'' @ decimal t)"
  "e_toString env0 = string_of"
  "e_zod_issues env0 = (\<lambda>body. [ustr ''Invalid input''])"
  "e_isEmail env0 = (\<lambda>s. 0x40 \<in> set s)"
  "e_isDatetime env0 = (\<lambda>s. True)"
  "e_getActivePrompt env0 = (\<lambda>conversationType languageCode. Some sample_prompt)"
  "e_generatePrompt env0 = (\<lambda>p messages userProfile studyTopic. Inr (prompt_template p))"
  "e_generateVocabularyPrompt env0 =
     (\<lambda>p messages userProfile vocabularyContext. Inr (prompt_template p))"
  "e_cache_set env0 = (\<lambda>n key. None)"
  "e_JSON_parse env0 = (\<lambda>s. if s = ustr ''{}'' then Some (JObj []) else None)"
  "e_openai env0 = (\<lambda>calls generatedPrompt. (120, OpenAIContent (JStr (ustr ''{}''))))"
  "e_fetch env0 = (\<lambda>calls method endpoint body. (250, FetchResponse True 200 [] (Some (JObj []))))"
  "e_renderTemplate env0 = (\<lambda>et d. Inr sample_rendered)"
  "e_resend env0 =
     (\<lambda>calls recipient rendered. (80, ResendResult (JObj [(ustr ''id'', JStr (ustr ''e1''))]) None))"
  "e_profile env0 = (\<lambda>uid. JObj [(ustr ''user_role'', JStr (ustr ''student''))])"
  "e_db_insert env0 = (\<lambda>calls row. (row, None))"
  "e_db_select env0 = (\<lambda>calls uid limit offset actionType. (JArr [], None))"
  by (simp_all add: env0_def sample_prompt_def sample_rendered_def)

lemma env0_getUser [simp]:
  "e_getUser env0 (ustr ''t1'') = GetUserResult (Some \<lparr>u_id = ustr ''u1'', u_email = None\<rparr>) False"
  by (simp add: env0_def)

lemma world0_simps [simp]:
  "w_clock world0 = 1000" "w_cache world0 = (\<lambda>key. None)" "w_cache_sets world0 = 0"
  "w_unified_logs world0 = []" "w_sink_attempts world0 = 0" "w_console world0 = []"
  "w_provider_calls world0 = []" "w_invoked world0 = []" "w_db_calls world0 = []"
  "w_response world0 = None"
  by (simp_all add: world0_def)

lemma cache_lookup_world0 [simp]: "cache_lookup world0 key = JUndefined"
  by (simp add: cache_lookup_def)

lemma sample_key:
  "generateOpenAIKey ns [message_plain] profile_level_first JUndefined JUndefined =
     Inr (ustr ''openai:'' @ hashString (stringify_object ns
            [(ustr ''messages'',
                JArr [JObj [(ustr ''role'', JStr (ustr ''user'')),
                            (ustr ''content'', JStr (ustr ''Hello''))]]),
             (ustr ''userProfile'', profile_level_first),
             (ustr ''studyTopic'', JUndefined),
             (ustr ''vocabularyContext'', JUndefined)]))"
  by (simp add: generateOpenAIKey_def pick_role_content_def member_def nullish_def get_prop_def
        message_plain_def)

lemma system_key_authenticates:
  "rq_authorization req = None \<Longrightarrow> rq_x_api_key req = Some (ustr ''k1'') \<Longrightarrow>
   e_API_SECRET_KEY E = Some (ustr ''k1'') \<Longrightarrow> authenticate E req = Inr system_context"
  by (simp add: authenticate_def authenticateAPIKey_def system_context_def)

lemma voice_request_parsed:
  "VoiceRequestSchema_safeParse E (rq_body voice_request)
     = Inr \<lparr>vr_text = ustr ''Hi'', vr_voiceId = ustr ''v1'', vr_settings = None\<rparr>"
  by (simp add: VoiceRequestSchema_safeParse_def VoiceRequestSchema_ok_def voice_request_def
        is_object_def get_prop_def string_between_def string_min_def voice_settings_ok_def
        string_of_def)
     (simp add: ustr_def)

lemma email_request_parsed:
  "e_isEmail E = (\<lambda>s. 0x40 \<in> set s) \<Longrightarrow> EmailRequestSchema_safeParse E (rq_body email_request)
     = Inr \<lparr>emailType = ustr ''welcome'', to = ustr ''al@example.org'', data = welcome_data\<rparr>"
  by (simp add: EmailRequestSchema_safeParse_def EmailRequestSchema_ok_def email_request_def
        is_object_def get_prop_def email_types_def string_of_def welcome_data_def)
     (simp add: ustr_def)

lemma welcome_data_valid: "validateEmailData (ustr ''welcome'') welcome_data = Inr ()"
  by (simp add: validateEmailData_def getRequiredFields_def welcome_data_def nullish_def
        get_prop_def)

lemma env_down_simps [simp]:
  "e_openai env_down = (\<lambda>calls generatedPrompt. (120, OpenAIRejects (ustr ''503'')))"
  "e_fetch env_down =
     (\<lambda>calls method endpoint body. (250, FetchResponse False 500 (ustr ''overloaded'') None))"
  "e_resend env_down =
     (\<lambda>calls recipient rendered. (80, ResendResult JNull (Some (ustr ''rate limited''))))"
  "e_API_SECRET_KEY env_down = Some (ustr ''k1'')"
  "e_numberToString env_down = print_number"
  "e_isEmail env_down = (\<lambda>s. 0x40 \<in> set s)"
  "e_getActivePrompt env_down = (\<lambda>conversationType languageCode. Some sample_prompt)"
  "e_generatePrompt env_down = (\<lambda>p messages userProfile studyTopic. Inr (prompt_template p))"
  "e_cache_set env_down = (\<lambda>n key. None)"
  "e_renderTemplate env_down = (\<lambda>et d. Inr sample_rendered)"
  by (simp_all add: env_down_def)

section \<open>A request served from the cache\<close>

lemma cache_lookup_stored:
  assumes "w_cache w key = Some (v, expires)" and "w_clock w \<le> expires" and "is_object v"
  shows "cache_lookup w key = v \<and> truthy v"
  using assms by (cases v) (simp_all add: cache_lookup_def is_object_def)

lemma sim_apart:
  assumes "sim m1 m2" and "primary w1 = primary w2"
  shows "fst (m1 w1) = fst (m2 w2) \<and> primary (snd (m1 w1)) = primary (snd (m2 w2))"
  using assms unfolding sim_def by blast

lemma analyze_hit_mute:
  assumes "generateOpenAIKey (e_numberToString E) ms up st JUndefined = Inr key"
      and "truthy (cache_lookup w key)"
  shows "analyzeConversation (mute E) ms up st w =
           (Inr (cache_lookup w key),
            w\<lparr>w_invoked := w_invoked w @ [M_analyzeConversation],
              w_console := w_console w
                @ [ConsoleLog (ustr ''Cache '' @ ustr ''hit'' @ ustr '': '' @ key @ ustr '' (''
                               @ ustr ''openai'' @ ustr '')'')]\<rparr>)"
  using assms by (simp add: analyzeConversation_def exec_defs)

lemma voice_hit_mute:
  assumes "truthy (cache_lookup w
             (generateElevenLabsVoiceKey (e_numberToString E) t v (JObj (settings_or_empty st))))"
  shows "generateVoice (mute E) t v st w =
           (Inr (cache_lookup w
                   (generateElevenLabsVoiceKey (e_numberToString E) t v (JObj (settings_or_empty st)))),
            w\<lparr>w_invoked := w_invoked w @ [M_generateVoice],
              w_console := w_console w
                @ [ConsoleLog (ustr ''Cache '' @ ustr ''hit'' @ ustr '': ''
                     @ generateElevenLabsVoiceKey (e_numberToString E) t v (JObj (settings_or_empty st))
                     @ ustr '' ('' @ ustr ''elevenlabs'' @ ustr '')'')]\<rparr>)"
  using assms by (simp add: generateVoice_def exec_defs)

lemma voice_handler_hit_mute:
  assumes "rq_method req = ustr ''POST''" and "authenticate E req = Inr ctx"
      and "VoiceRequestSchema_safeParse E (rq_body req)
             = Inr \<lparr>vr_text = t, vr_voiceId = v, vr_settings = st\<rparr>"
      and "w_response w = None"
      and "truthy (cache_lookup w
             (generateElevenLabsVoiceKey (e_numberToString E) t v (JObj (settings_or_empty st))))"
  shows "primary (snd (voice_handler (mute E) req w)) =
           primary (w\<lparr>w_invoked := w_invoked w @ [M_generateVoice],
                      w_response := Some (200, Json (JObj
                        [(ustr ''success'', JBool True),
                         (ustr ''data'', cache_lookup w
                            (generateElevenLabsVoiceKey (e_numberToString E) t v
                               (JObj (settings_or_empty st)))),
                         (ustr ''timestamp'', JStr (e_toISOString E (w_clock w)))]))\<rparr>)"
  using assms
  by (simp add: voice_handler_def asyncHandler_def authMiddleware_ok voice_hit_mute io_defs
        primary_def)

lemma sample_keys_differ: "sample_analysis_key \<noteq> sample_voice_key"
  by (simp add: sample_analysis_key_def sample_voice_key_def generateElevenLabsVoiceKey_def
        ustr_def)

lemma world_cached_simps [simp]:
  "w_clock world_cached = 1000" "w_response world_cached = None"
  "w_provider_calls world_cached = []"
  "w_cache world_cached sample_voice_key = Some (sample_voice, 5000)"
  "w_cache world_cached sample_analysis_key = Some (sample_analysis, 5000)"
  by (simp_all add: world_cached_def sample_keys_differ)

section \<open>A failed analysis leaves the cache alone\<close>

lemma analyze_miss_calls_mute:
  assumes "generateOpenAIKey (e_numberToString E) ms up st JUndefined = Inr key"
      and "\<not> truthy (cache_lookup w key)"
      and "e_getActivePrompt E (ustr ''general'') (languageCode_of up) = Some prompt"
      and "e_generatePrompt E prompt ms up st = Inr p"
  shows "w_provider_calls (snd (analyzeConversation (mute E) ms up st w))
           = w_provider_calls w @ [OpenAICall p]"
proof -
  obtain latency outcome where o: "e_openai E (w_provider_calls w) p = (latency, outcome)"
    by (cases "e_openai E (w_provider_calls w) p")
  show ?thesis
  proof (cases outcome)
    case (OpenAIRejects m)
    with assms o show ?thesis
      by (simp add: analyzeConversation_def analyze_miss_def analyze_failed_def exec_defs)
  next
    case (OpenAIContent c)
    with assms o show ?thesis
      by (cases "truthy c")
         (simp_all add: analyzeConversation_def analyze_miss_def analyze_failed_def exec_defs
            split: option.splits)
  qed
qed

lemma still_a_miss:
  assumes "\<not> truthy (cache_lookup w key)" and "w_cache w1 = w_cache w"
      and "w_clock w \<le> w_clock w1"
  shows "\<not> truthy (cache_lookup w1 key)"
  using assms by (auto simp: cache_lookup_def split: option.splits if_splits)

text \<open>
  When the provider call itself fails (it rejects, or the completion is empty) and the
  fallback is returned, the request writes nothing to the cache, and the same request
  made again misses the cache and calls the provider again.
\<close>

lemma provider_failure_leaves_cache:
  assumes "generateOpenAIKey (e_numberToString E) messages userProfile studyTopic JUndefined
             = Inr key"
      and "\<not> truthy (cache_lookup w key)"
      and "e_getActivePrompt E (ustr ''general'') (languageCode_of userProfile) = Some prompt"
      and "e_generatePrompt E prompt messages userProfile studyTopic = Inr generatedPrompt"
      and "openai_failed (snd (e_openai E (w_provider_calls w) generatedPrompt))"
      and "w1 = snd (analyzeConversation E messages userProfile studyTopic w)"
  shows "fst (analyzeConversation E messages userProfile studyTopic w) = Inr getFallbackAnalysis
       \<and> w_cache w1 = w_cache w
       \<and> w_cache_sets w1 = w_cache_sets w
       \<and> \<not> truthy (cache_lookup w1 key)
       \<and> w_provider_calls w1 = w_provider_calls w @ [OpenAICall generatedPrompt]
       \<and> w_provider_calls (snd (analyzeConversation E messages userProfile studyTopic w1))
           = w_provider_calls w1 @ [OpenAICall generatedPrompt]"
proof -
  let ?run = "\<lambda>E. analyzeConversation E messages userProfile studyTopic"
  obtain latency outcome where
    o: "e_openai E (w_provider_calls w) generatedPrompt = (latency, outcome)"
    by (cases "e_openai E (w_provider_calls w) generatedPrompt")
  with assms(5) have f: "openai_failed outcome" by simp
  note m = analyze_fails_mute [OF assms(1-4) o f]
  have r: "fst (?run E w) = Inr getFallbackAnalysis"
    using mute_fst [where m = ?run, OF sim_analyzeConversation, of E w] m by simp
  have p: "primary w1 = primary (snd (?run (mute E) w))"
    unfolding assms(6)
    by (rule mute_primary [where m = ?run]) (rule sim_analyzeConversation)
  with m have c: "w_cache w1 = w_cache w" "w_cache_sets w1 = w_cache_sets w"
    "w_clock w1 = w_clock w + latency"
    "w_provider_calls w1 = w_provider_calls w @ [OpenAICall generatedPrompt]"
    by (simp_all add: primary_def)
  from still_a_miss [OF assms(2) c(1)] c(3) have miss: "\<not> truthy (cache_lookup w1 key)"
    by simp
  have "primary (snd (?run E w1)) = primary (snd (?run (mute E) w1))"
    by (rule mute_primary [where m = ?run]) (rule sim_analyzeConversation)
  then have "w_provider_calls (snd (?run E w1)) = w_provider_calls (snd (?run (mute E) w1))"
    by (simp add: primary_def)
  also have "\<dots> = w_provider_calls w1 @ [OpenAICall generatedPrompt]"
    by (rule analyze_miss_calls_mute [OF assms(1) miss assms(3,4)])
  finally have again: "w_provider_calls (snd (?run E w1))
      = w_provider_calls w1 @ [OpenAICall generatedPrompt]" .
  from r c(1,2) miss c(4) again show ?thesis by (intro conjI)
qed

lemma provider_failure_leaves_cache_example:
  "fst (analyzeConversation env_down [message_plain] profile_level_first JUndefined world0)
     = Inr getFallbackAnalysis
   \<and> w_cache (snd (analyzeConversation env_down [message_plain] profile_level_first JUndefined
                      world0)) = w_cache world0
   \<and> w_provider_calls
         (snd (analyzeConversation env_down [message_plain] profile_level_first JUndefined
                 (snd (analyzeConversation env_down [message_plain] profile_level_first JUndefined
                         world0))))
       = [OpenAICall (ustr ''Analyze''), OpenAICall (ustr ''Analyze'')]"
proof -
  have h1: "generateOpenAIKey (e_numberToString env_down) [message_plain] profile_level_first
              JUndefined JUndefined = Inr sample_analysis_key"
    by (simp add: sample_key sample_analysis_key_def)
  have h2: "\<not> truthy (cache_lookup world0 sample_analysis_key)" by simp
  have h3: "e_getActivePrompt env_down (ustr ''general'') (languageCode_of profile_level_first)
              = Some sample_prompt" by simp
  have h4: "e_generatePrompt env_down sample_prompt [message_plain] profile_level_first JUndefined
              = Inr (ustr ''Analyze'')" by (simp add: sample_prompt_def)
  have h5: "openai_failed (snd (e_openai env_down (w_provider_calls world0) (ustr ''Analyze'')))"
    by simp
  from provider_failure_leaves_cache [OF h1 h2 h3 h4 h5 refl]
  show ?thesis by simp
qed

section \<open>A body that fails its schema\<close>

lemma authMiddleware_fails_mute:
  assumes "authenticate E req = Inl e"
  shows "authMiddleware (mute E) req w =
           (Inl e,
            if w_response w = None then
              w\<lparr>w_response := Some (if is_AuthenticationError e then 401 else 500,
                 Json (JObj [(ustr ''error'', JStr (ustr ''Authentication Error'')),
                             (ustr ''message'', JStr (error_message e)),
                             (ustr ''timestamp'', JStr (e_toISOString E (w_clock w)))]))\<rparr>
            else w)"
  using assms by (simp add: authMiddleware_def io_defs)

lemma voice_handler_invalid_mute:
  assumes "VoiceRequestSchema_safeParse E (rq_body req) = Inl issues"
  shows "w_invoked (snd (voice_handler (mute E) req w)) = w_invoked w
       \<and> w_provider_calls (snd (voice_handler (mute E) req w)) = w_provider_calls w
       \<and> (rq_method req = ustr ''POST'' \<and> authenticate E req = Inr ctx \<and> w_response w = None
            \<longrightarrow> w_response (snd (voice_handler (mute E) req w))
                = Some (400, ErrorBody (createErrorResponse (e_production E)
                                          (e_toISOString E (w_clock w))
                                          (invalid_request_data issues))))"
proof (cases "authenticate E req")
  case (Inl e)
  with assms show ?thesis
    by (simp add: voice_handler_def asyncHandler_def handleError_def ErrorHandler_logError_def
          method_not_allowed_def authMiddleware_fails_mute io_defs)
next
  case (Inr c)
  with assms show ?thesis
    by (simp add: voice_handler_def asyncHandler_def handleError_def ErrorHandler_logError_def
          method_not_allowed_def authMiddleware_ok io_defs invalid_request_data_def)
qed

lemma email_handler_invalid_mute:
  assumes "EmailRequestSchema_safeParse E (rq_body req) = Inl issues"
  shows "w_invoked (snd (email_handler (mute E) req w)) = w_invoked w
       \<and> w_provider_calls (snd (email_handler (mute E) req w)) = w_provider_calls w
       \<and> (rq_method req = ustr ''POST'' \<and> authenticate E req = Inr ctx \<and> w_response w = None
            \<longrightarrow> w_response (snd (email_handler (mute E) req w))
                = Some (400, ErrorBody (createErrorResponse (e_production E)
                                          (e_toISOString E (w_clock w))
                                          (invalid_request_data issues))))"
proof (cases "authenticate E req")
  case (Inl e)
  with assms show ?thesis
    by (simp add: email_handler_def asyncHandler_def handleError_def ErrorHandler_logError_def
          method_not_allowed_def authMiddleware_fails_mute io_defs)
next
  case (Inr c)
  with assms show ?thesis
    by (simp add: email_handler_def asyncHandler_def handleError_def ErrorHandler_logError_def
          method_not_allowed_def authMiddleware_ok io_defs invalid_request_data_def)
qed

lemma conversation_handler_invalid_mute:
  assumes "ConversationRequestSchema_safeParse E (rq_body req) = Inl issues"
  shows "w_invoked (snd (conversation_handler (mute E) req w)) = w_invoked w
       \<and> w_provider_calls (snd (conversation_handler (mute E) req w)) = w_provider_calls w
       \<and> (rq_method req = ustr ''POST'' \<and> authenticate E req = Inr ctx \<and> w_response w = None
            \<longrightarrow> w_response (snd (conversation_handler (mute E) req w))
                = Some (400, ErrorBody (createErrorResponse (e_production E)
                                          (e_toISOString E (w_clock w))
                                          (invalid_request_data issues))))"
proof (cases "authenticate E req")
  case (Inl e)
  with assms show ?thesis
    by (simp add: conversation_handler_def asyncHandler_def handleError_def
          ErrorHandler_logError_def method_not_allowed_def authMiddleware_fails_mute io_defs)
next
  case (Inr c)
  with assms show ?thesis
    by (simp add: conversation_handler_def asyncHandler_def handleError_def
          ErrorHandler_logError_def method_not_allowed_def authMiddleware_ok io_defs
          invalid_request_data_def)
qed

lemma primary_fields:
  assumes "primary w1 = primary w2"
  shows "w_invoked w1 = w_invoked w2" "w_provider_calls w1 = w_provider_calls w2"
    "w_response w1 = w_response w2" "w_cache w1 = w_cache w2" "w_db_calls w1 = w_db_calls w2"
    "w_cache_sets w1 = w_cache_sets w2" "w_clock w1 = w_clock w2"
  using assms by (simp_all add: primary_def)

lemma empty_text_refused:
  "get_prop body (ustr ''text'') = JStr [] \<Longrightarrow>
   VoiceRequestSchema_safeParse E body = Inl (e_zod_issues E body)"
  by (simp add: VoiceRequestSchema_safeParse_def VoiceRequestSchema_ok_def string_between_def)

lemma undeclared_email_type_refused:
  "get_prop body (ustr ''emailType'') = JStr et \<Longrightarrow> et \<notin> set email_types \<Longrightarrow>
   EmailRequestSchema_safeParse E body = Inl (e_zod_issues E body)"
  by (simp add: EmailRequestSchema_safeParse_def EmailRequestSchema_ok_def)

section \<open>The access check of the activity log\<close>

lemma bearer_t1_authenticates:
  "rq_authorization req = Some (ustr ''Bearer t1'') \<Longrightarrow>
   authenticate env0 req = Inr \<lparr>userId = ustr ''u1'', email = [], authMethod = jwt\<rparr>"
proof -
  have d: "drop 7 (ustr ''Bearer t1'') = ustr ''t1''" "take 7 (ustr ''Bearer t1'') = ustr ''Bearer ''"
    by (simp_all add: ustr_def)
  assume "rq_authorization req = Some (ustr ''Bearer t1'')"
  then show ?thesis
    by (simp add: authenticate_def authenticateJWT_def d)
qed

lemma activity_cross_user_mute:
  assumes "rq_method req \<noteq> ustr ''OPTIONS''" and "authenticate E req = Inr ctx"
      and "authMethod ctx = jwt"
      and "get_prop (rq_query req) (ustr ''userId'') = JStr uid" and "uid \<noteq> []"
      and "userId ctx \<noteq> uid"
      and "opt_member (e_profile E (userId ctx)) (ustr ''user_role'') \<noteq> JStr (ustr ''admin'')"
      and "w_response w = None"
  shows "w_response (snd (activity_handler (mute E) req w))
           = Some (400, ErrorBody (createErrorResponse (e_production E)
                     (e_toISOString E (w_clock w))
                     (ValidationError
                        (ustr ''Access denied: You can only access your own activity logs'') None)))
       \<and> w_db_calls (snd (activity_handler (mute E) req w)) = w_db_calls w"
  using assms
  by (simp add: activity_handler_def activity_access_check_def asyncHandler_def handleError_def
        ErrorHandler_logError_def authMiddleware_ok io_defs)

text \<open>
  C3. A token user \<open>u1\<close> without the admin role asks for the activity records of \<open>u2\<close>:
  no record is created or read, but the handler raises a \<open>ValidationError\<close> and the answer
  has status 400, where an \<open>AuthorizationError\<close> would give 403.
\<close>

theorem cross_user_access_answers_400:
  "w_response (snd (activity_handler env0 cross_user_request world0))
     = Some (400, ErrorBody
         \<lparr>er_error = ustr ''Validation Error'',
          er_message = ustr ''Access denied: You can only access your own activity logs'',
          er_code = Some (ustr ''VALIDATION_ERROR''),
          er_timestamp = e_toISOString env0 1000\<rparr>)
   \<and> w_db_calls (snd (activity_handler env0 cross_user_request world0)) = []
   \<and> getStatusCode (AuthorizationError (ustr ''Insufficient permissions'')) = 403"
proof -
  have p: "primary (snd (activity_handler env0 cross_user_request world0))
         = primary (snd (activity_handler (mute env0) cross_user_request world0))"
    by (rule mute_primary [where m = "\<lambda>E. activity_handler E cross_user_request"])
       (rule sim_activity_handler)
  have a: "authenticate env0 cross_user_request
             = Inr \<lparr>userId = ustr ''u1'', email = [], authMethod = jwt\<rparr>"
    by (rule bearer_t1_authenticates) (simp add: cross_user_request_def)
  have "w_response (snd (activity_handler (mute env0) cross_user_request world0))
           = Some (400, ErrorBody (createErrorResponse (e_production env0)
                     (e_toISOString env0 (w_clock world0))
                     (ValidationError
                        (ustr ''Access denied: You can only access your own activity logs'') None)))
       \<and> w_db_calls (snd (activity_handler (mute env0) cross_user_request world0))
           = w_db_calls world0"
    by (rule activity_cross_user_mute [OF _ a, where uid = "ustr ''u2''"])
       (simp_all add: cross_user_request_def get_prop_def opt_member_def nullish_def)
  then show ?thesis
    unfolding primary_fields(3,5) [OF p] by simp
qed

section \<open>What a call writes to the log and to the cache\<close>

lemma loud_logs:
  assumes "e_logging_configured E" and "e_sink E = (\<lambda>n row. SinkOk)"
  shows "logApiCall E ld w =
           (Inr (), w\<lparr>w_sink_attempts := Suc (w_sink_attempts w),
                      w_unified_logs := w_unified_logs w
                        @ [ApiCallRow (logEntry_of E ld (w_clock w))],
                      w_console := w_console w
                        @ [ConsoleLog (ustr ''API call logged successfully'')]\<rparr>)"
    and "logError E e ctx w =
           (Inr (), w\<lparr>w_sink_attempts := Suc (w_sink_attempts w),
                      w_unified_logs := w_unified_logs w
                        @ [ErrorRow (error_message e) (error_name e) ctx]\<rparr>)"
    and "logCacheOperation E op k sv w =
           (Inr (), w\<lparr>w_console := w_console w
                        @ [ConsoleLog (ustr ''Cache '' @ op @ ustr '': '' @ k @ ustr '' (''
                                         @ sv @ ustr '')'')],
                      w_sink_attempts := Suc (w_sink_attempts w),
                      w_unified_logs := w_unified_logs w @ [CacheRow op k sv]\<rparr>)"
    and "logEmailSend E ed rid w =
           (Inr (), w\<lparr>w_sink_attempts := Suc (w_sink_attempts w),
                      w_unified_logs := w_unified_logs w
                        @ [EmailSentRow (emailType ed) rid (to ed) (data ed)]\<rparr>)"
  using assms
  by (simp_all add: logApiCall_def logError_def logCacheOperation_def logEmailSend_def io_defs
        sink_insert_def Let_def)

lemma api_calls_simps [simp]:
  "api_calls [] = []"
  "api_calls (r # rows) = api_call_of r @ api_calls rows"
  "api_calls (rows @ rows2) = api_calls rows @ api_calls rows2"
  by (simp_all add: api_calls_def)

lemma complete_logged [simp]:
  "complete_record n (logEntry_of E (resend_logged status d rb rs em) t) \<longleftrightarrow> d = n"
  "complete_record n (logEntry_of E (openai_logged status d rb rs em) t) \<longleftrightarrow> d = n"
  "complete_record n (logEntry_of E (elevenlabs_logged ep m status d rb rs em) t)
     \<longleftrightarrow> m \<noteq> [] \<and> ep \<noteq> [] \<and> d = n"
  by (auto simp add: complete_record_def logEntry_of_def resend_logged_def openai_logged_def
        elevenlabs_logged_def resend_endpoint_def openai_endpoint_def)

lemma sendEmail_loud:
  assumes "e_logging_configured E" and "e_sink E = (\<lambda>n row. SinkOk)"
  shows "call_records w (snd (sendEmail E d w)) = [True]"
  by (auto simp add: call_records_def rows_written_def sendEmail_def send_attempt_def
        send_failed_def exec_defs loud_logs [OF assms]
        split: sum.splits prod.splits resend_outcome.splits option.splits)

lemma conversation_call_loud:
  assumes "e_logging_configured E" and "e_sink E = (\<lambda>n row. SinkOk)"
      and "m \<noteq> []" and "ep \<noteq> []"
  shows "call_records w (snd (io_catch (conversation_call E (w_clock w) m ep b)
                                 (elevenlabs_failed E (w_clock w) ep m msg) w)) = [True]"
  using assms(3,4)
  by (auto simp add: call_records_def rows_written_def conversation_call_def
        elevenlabs_failed_def exec_defs loud_logs [OF assms(1,2)]
        split: sum.splits prod.splits fetch_outcome.splits option.splits)

lemma call_records_invoked [simp]:
  "call_records (w\<lparr>w_invoked := i\<rparr>) w' = call_records w w'"
  by (simp add: call_records_def rows_written_def)

lemma conversations_loud:
  assumes "e_logging_configured E" and "e_sink E = (\<lambda>n row. SinkOk)"
  shows "call_records w (snd (startConversation E a c w)) = [True]"
    and "call_records w (snd (sendMessage E cid msg c w)) = [True]"
    and "call_records w (snd (endConversation E cid w)) = [True]"
  using conversation_call_loud [OF assms, where w = "w\<lparr>w_invoked := w_invoked w @ [M_startConversation]\<rparr>"]
    conversation_call_loud [OF assms, where w = "w\<lparr>w_invoked := w_invoked w @ [M_sendMessage]\<rparr>"]
    conversation_call_loud [OF assms, where w = "w\<lparr>w_invoked := w_invoked w @ [M_endConversation]\<rparr>"]
  by (simp_all add: startConversation_def sendMessage_def endConversation_def io_bind_def
        io_invoked_def io_now_def Let_def baseUrl_def)

lemma generateVoice_loud:
  assumes "e_logging_configured E" and "e_sink E = (\<lambda>n row. SinkOk)"
  shows "call_records w (snd (generateVoice E t v st w))
           = (if truthy (cache_lookup w (generateElevenLabsVoiceKey (e_numberToString E) t v
                                           (JObj (settings_or_empty st))))
              then [] else [True])"
  by (auto simp add: call_records_def rows_written_def generateVoice_def voice_miss_def
        elevenlabs_failed_def exec_defs voice_endpoint_def baseUrl_def
        loud_logs [OF assms]
        split: sum.splits prod.splits fetch_outcome.splits option.splits)

lemma analyzeConversation_loud:
  assumes "e_logging_configured E" and "e_sink E = (\<lambda>n row. SinkOk)"
  shows "call_records w (snd (analyzeConversation E ms up st w))
           = (case generateOpenAIKey (e_numberToString E) ms up st JUndefined of
                Inl e \<Rightarrow> [True]
              | Inr key \<Rightarrow> if truthy (cache_lookup w key) then [] else [True])"
  by (auto simp add: call_records_def rows_written_def analyzeConversation_def analyze_miss_def
        analyze_failed_def exec_defs
        loud_logs [OF assms]
        split: sum.splits prod.splits openai_outcome.splits option.splits)

lemma cache_sets_mute:
  "w_cache_sets (snd (sendEmail (mute E) d w)) = w_cache_sets w"
  "w_cache_sets (snd (generateVoice (mute E) t v st w)) \<le> Suc (w_cache_sets w)"
  "w_cache_sets (snd (analyzeConversation (mute E) ms up st2 w)) \<le> Suc (w_cache_sets w)"
  by (auto simp add: sendEmail_def send_attempt_def send_failed_def generateVoice_def
        voice_miss_def elevenlabs_failed_def analyzeConversation_def analyze_miss_def
        analyze_failed_def exec_defs
        split: sum.splits prod.splits fetch_outcome.splits option.splits openai_outcome.splits
               resend_outcome.splits)

lemma conversation_sets_mute:
  "w_cache_sets (snd (io_catch (conversation_call (mute E) t0 m ep b)
                        (elevenlabs_failed (mute E) t0 ep m msg) w)) = w_cache_sets w"
  by (auto simp add: conversation_call_def elevenlabs_failed_def exec_defs
        split: sum.splits prod.splits fetch_outcome.splits option.splits)

lemma cache_sets_any:
  "w_cache_sets (snd (sendEmail E d w)) = w_cache_sets w"
  "w_cache_sets (snd (generateVoice E t v st w)) \<le> Suc (w_cache_sets w)"
  "w_cache_sets (snd (analyzeConversation E ms up st2 w)) \<le> Suc (w_cache_sets w)"
proof -
  have "w_cache_sets (snd (sendEmail E d w)) = w_cache_sets (snd (sendEmail (mute E) d w))"
    by (rule primary_fields(6), rule mute_primary [where m = "\<lambda>E. sendEmail E d"])
       (rule sim_sendEmail)
  then show "w_cache_sets (snd (sendEmail E d w)) = w_cache_sets w"
    by (simp only: cache_sets_mute(1))
  have "w_cache_sets (snd (generateVoice E t v st w))
          = w_cache_sets (snd (generateVoice (mute E) t v st w))"
    by (rule primary_fields(6), rule mute_primary [where m = "\<lambda>E. generateVoice E t v st"])
       (rule sim_generateVoice)
  then show "w_cache_sets (snd (generateVoice E t v st w)) \<le> Suc (w_cache_sets w)"
    by (simp only: cache_sets_mute(2))
  have "w_cache_sets (snd (analyzeConversation E ms up st2 w))
          = w_cache_sets (snd (analyzeConversation (mute E) ms up st2 w))"
    by (rule primary_fields(6),
        rule mute_primary [where m = "\<lambda>E. analyzeConversation E ms up st2"])
       (rule sim_analyzeConversation)
  then show "w_cache_sets (snd (analyzeConversation E ms up st2 w)) \<le> Suc (w_cache_sets w)"
    by (simp only: cache_sets_mute(3))
qed

lemma conversation_sets_any:
  "w_cache_sets (snd (startConversation E a c w)) = w_cache_sets w"
  "w_cache_sets (snd (sendMessage E cid msg c w)) = w_cache_sets w"
  "w_cache_sets (snd (endConversation E cid w)) = w_cache_sets w"
proof -
  have s: "\<And>s c t0 m ep b msg. sim (io_catch (conversation_call E t0 m ep b)
                      (elevenlabs_failed E t0 ep m msg))
                (io_catch (conversation_call (with_sink E s c) t0 m ep b)
                      (elevenlabs_failed (with_sink E s c) t0 ep m msg))"
    unfolding elevenlabs_failed_def Let_def with_sink_simps with_sink_pure
    by (intro sim_intros sim_conversation_call)
  have "w_cache_sets (snd (io_catch (conversation_call E t0 m ep b)
                        (elevenlabs_failed E t0 ep m msg) w)) = w_cache_sets w" for t0 m ep b msg w
  proof -
    have "w_cache_sets (snd (io_catch (conversation_call E t0 m ep b)
                        (elevenlabs_failed E t0 ep m msg) w))
        = w_cache_sets (snd (io_catch (conversation_call (mute E) t0 m ep b)
                        (elevenlabs_failed (mute E) t0 ep m msg) w))"
      by (rule primary_fields(6),
          rule mute_primary [where m = "\<lambda>E. io_catch (conversation_call E t0 m ep b)
                        (elevenlabs_failed E t0 ep m msg)"])
         (rule s)
    then show ?thesis by (simp only: conversation_sets_mute)
  qed
  then show "w_cache_sets (snd (startConversation E a c w)) = w_cache_sets w"
    "w_cache_sets (snd (sendMessage E cid msg c w)) = w_cache_sets w"
    "w_cache_sets (snd (endConversation E cid w)) = w_cache_sets w"
    by (simp_all add: startConversation_def sendMessage_def endConversation_def io_bind_def
        io_invoked_def io_now_def Let_def)
qed

lemma world_cached_more [simp]:
  "w_unified_logs world_cached = []" "w_cache_sets world_cached = 0"
  "w_invoked world_cached = []" "w_console world_cached = []" "w_sink_attempts world_cached = 0"
  by (simp_all add: world_cached_def)

lemma voice_hit_env0:
  "truthy (cache_lookup world_cached
             (generateElevenLabsVoiceKey print_number (ustr ''Hi'') (ustr ''v1'')
                (JObj (settings_or_empty None))))"
   "cache_lookup world_cached
             (generateElevenLabsVoiceKey print_number (ustr ''Hi'') (ustr ''v1'')
                (JObj (settings_or_empty None))) = sample_voice"
proof -
  have "w_cache world_cached
              (generateElevenLabsVoiceKey print_number (ustr ''Hi'') (ustr ''v1'')
                 (JObj (settings_or_empty None))) = Some (sample_voice, 5000)"
    using world_cached_simps(4) by (simp add: sample_voice_key_def settings_or_empty_def)
  from cache_lookup_stored [OF this]
  show "truthy (cache_lookup world_cached
             (generateElevenLabsVoiceKey print_number (ustr ''Hi'') (ustr ''v1'')
                (JObj (settings_or_empty None))))"
   "cache_lookup world_cached
             (generateElevenLabsVoiceKey print_number (ustr ''Hi'') (ustr ''v1'')
                (JObj (settings_or_empty None))) = sample_voice"
    by (simp_all add: sample_voice_def is_object_def)
qed

lemma truthy_sample_voice [simp]: "truthy sample_voice"
  by (simp add: sample_voice_def)

lemma voice_hit_loud:
  assumes "e_logging_configured E" and "e_sink E = (\<lambda>n row. SinkOk)"
      and "truthy (cache_lookup w
             (generateElevenLabsVoiceKey (e_numberToString E) t v (JObj (settings_or_empty st))))"
  shows "w_unified_logs (snd (generateVoice E t v st w)) =
           w_unified_logs w
             @ [CacheRow (ustr ''hit'')
                  (generateElevenLabsVoiceKey (e_numberToString E) t v
                     (JObj (settings_or_empty st)))
                  (ustr ''elevenlabs'')]"
  using assms(3) by (simp add: generateVoice_def exec_defs loud_logs [OF assms(1,2)])

lemma sample_voice_key_eq:
  "generateElevenLabsVoiceKey print_number (ustr ''Hi'') (ustr ''v1'')
     (JObj (settings_or_empty None)) = sample_voice_key"
  by (simp add: sample_voice_key_def settings_or_empty_def)




section \<open>A completion that cannot be parsed\<close>

lemma analyze_caches_mute:
  assumes "generateOpenAIKey (e_numberToString E) ms up st JUndefined = Inr key"
      and "\<not> truthy (cache_lookup w key)"
      and "e_getActivePrompt E (ustr ''general'') (languageCode_of up) = Some prompt"
      and "e_generatePrompt E prompt ms up st = Inr p"
      and "e_openai E (w_provider_calls w) p = (latency, OpenAIContent c)"
      and "truthy c"
      and "e_cache_set E (w_cache_sets w) key = None"
  shows "analyzeConversation (mute E) ms up st w =
           (Inr (parseAnalysisResponse E c),
            w\<lparr>w_invoked := w_invoked w @ [M_analyzeConversation],
              w_provider_calls := w_provider_calls w @ [OpenAICall p],
              w_clock := w_clock w + latency,
              w_cache := (w_cache w)(key \<mapsto> (parseAnalysisResponse E c,
                                              w_clock w + latency + 7200 * 1000)),
              w_cache_sets := Suc (w_cache_sets w),
              w_console := w_console w
                @ [ConsoleLog (ustr ''Cache '' @ ustr ''miss'' @ ustr '': '' @ key @ ustr '' (''
                               @ ustr ''openai'' @ ustr '')''),
                   ConsoleLog (ustr ''Logging disabled - Supabase not configured'')]\<rparr>)"
  using assms
  by (simp add: analyzeConversation_def analyze_miss_def analyze_failed_def exec_defs)

lemma analyze_handler_mute:
  assumes "rq_method req = ustr ''POST''" and "authenticate E req = Inr ctx"
      and "AnalyzeRequestSchema_safeParse E (rq_body req)
             = Inr \<lparr>ar_messages = ms, ar_userProfile = up, ar_studyTopic = st,
                    ar_vocabularyContext = vc\<rparr>"
      and "\<not> truthy vc"
      and "w_response w = None"
      and "analyzeConversation (mute E) ms up st w = (Inr a, w1)"
      and "w_response w1 = None"
  shows "primary (snd (analyze_handler (mute E) req w)) =
           primary (w1\<lparr>w_response := Some (200, Json (JObj
                        [(ustr ''success'', JBool True), (ustr ''data'', a),
                         (ustr ''timestamp'', JStr (e_toISOString E (w_clock w1)))]))\<rparr>)"
  using assms
  by (simp add: analyze_handler_def asyncHandler_def authMiddleware_ok io_defs primary_def)

lemma env_prose_simps [simp]:
  "e_API_SECRET_KEY env_prose = Some (ustr ''k1'')"
  "e_numberToString env_prose = print_number"
  "e_toISOString env_prose = (\<lambda>t. ustr ''T'' @ decimal t)"
  "e_getActivePrompt env_prose = (\<lambda>conversationType languageCode. Some sample_prompt)"
  "e_generatePrompt env_prose = (\<lambda>p messages userProfile studyTopic. Inr (prompt_template p))"
  "e_openai env_prose =
     (\<lambda>calls generatedPrompt. (120, OpenAIContent (JStr (ustr ''I cannot help with that''))))"
  "e_cache_set env_prose = (\<lambda>n key. None)"
  by (simp_all add: env_prose_def)

lemma no_json_in_prose: "jsonMatch (ustr ''I cannot help with that'') = None"
  by (simp add: jsonMatch_def ustr_def)

lemma prose_is_fallback:
  "parseAnalysisResponse E (JStr (ustr ''I cannot help with that'')) = getFallbackAnalysis"
  by (simp add: parseAnalysisResponse_def no_json_in_prose)

lemma parsed_key:
  "generateOpenAIKey print_number [message_parsed] profile_level_first JUndefined JUndefined
     = Inr sample_analysis_key"
  by (simp add: generateOpenAIKey_def pick_role_content_def member_def nullish_def get_prop_def
        message_parsed_def sample_analysis_key_def)

lemma analysis_request_parsed:
  "AnalyzeRequestSchema_safeParse E (rq_body analysis_request)
     = Inr \<lparr>ar_messages = [message_parsed], ar_userProfile = profile_level_first,
            ar_studyTopic = JUndefined, ar_vocabularyContext = JUndefined\<rparr>"
  by (simp add: AnalyzeRequestSchema_safeParse_def AnalyzeRequestSchema_ok_def
        AnalyzeRequestSchema_data_def analysis_request_def is_object_def get_prop_def
        messages_ok_def message_ok_def message_plain_def message_roles_def string_min_def
        opt_string_def userProfile_ok_def profile_level_first_def opt_string_array_def
        studyTopic_ok_def vocabularyContext_ok_def parsed_vocabularyContext_def elements_def
        pick_keys_def message_keys_def profile_keys_def message_parsed_def)
     (simp add: ustr_def)

lemma fallback_is_object: "is_object getFallbackAnalysis" "truthy getFallbackAnalysis"
  by (simp_all add: getFallbackAnalysis_def is_object_def)

lemma analysis_request_simps:
  "rq_method analysis_request = ustr ''POST''"
  "authenticate env_prose analysis_request = Inr system_context"
  by (simp_all add: analysis_request_def authenticate_def authenticateAPIKey_def
        system_context_def)

lemma prose_first_mute:
  "primary (snd (analyzeConversation (mute env_prose) [message_parsed] profile_level_first
                   JUndefined world0)) = primary prose_cached
   \<and> fst (analyzeConversation (mute env_prose) [message_parsed] profile_level_first
                   JUndefined world0) = Inr getFallbackAnalysis"
  using analyze_caches_mute [of env_prose "[message_parsed]" profile_level_first JUndefined
          sample_analysis_key world0 sample_prompt "ustr ''Analyze''" 120
          "JStr (ustr ''I cannot help with that'')"]
  by (simp add: parsed_key sample_prompt_def prose_is_fallback primary_def prose_cached_def)

lemma prose_cached_simps [simp]:
  "w_clock prose_cached = 1120" "w_response prose_cached = None"
  "w_provider_calls prose_cached = [OpenAICall (ustr ''Analyze'')]"
  "w_invoked prose_cached = [M_analyzeConversation]"
  "w_cache prose_cached sample_analysis_key = Some (getFallbackAnalysis, 7201120)"
  "w_cache_sets prose_cached = 1"
  by (simp_all add: prose_cached_def)

lemma prose_second_mute:
  "analyzeConversation (mute env_prose) [message_parsed] profile_level_first JUndefined prose_cached
     = (Inr getFallbackAnalysis,
        prose_cached\<lparr>w_invoked := [M_analyzeConversation, M_analyzeConversation],
          w_console := w_console prose_cached
            @ [ConsoleLog (ustr ''Cache '' @ ustr ''hit'' @ ustr '': '' @ sample_analysis_key
                           @ ustr '' ('' @ ustr ''openai'' @ ustr '')'')]\<rparr>)"
proof -
  have "cache_lookup prose_cached sample_analysis_key = getFallbackAnalysis"
    by (simp add: cache_lookup_def)
  with analyze_hit_mute [of env_prose "[message_parsed]" profile_level_first JUndefined
          sample_analysis_key prose_cached]
  show ?thesis by (simp add: parsed_key fallback_is_object)
qed

text \<open>
  C10 fails on the code. The provider answers with a completion that holds no JSON:
  \<open>parseAnalysisResponse\<close> turns it into the fallback analysis, and the success path
  stores that fallback in the cache for two hours. The same request made again is served
  the fallback from the cache, and the provider is not called a second time. Shown on the
  adapter and on the handler of \<open>POST /api/openai/analyze\<close>.
\<close>

theorem unparseable_completion_fallback_is_cached:
  "fst (analyzeConversation env_prose [message_parsed] profile_level_first JUndefined world0)
     = Inr getFallbackAnalysis
   \<and> primary (snd (analyzeConversation env_prose [message_parsed] profile_level_first JUndefined
                       world0)) = primary prose_cached
   \<and> w_cache prose_cached sample_analysis_key = Some (getFallbackAnalysis, 7201120)
   \<and> w_cache_sets prose_cached = 1
   \<and> fst (analyzeConversation env_prose [message_parsed] profile_level_first JUndefined
            (snd (analyzeConversation env_prose [message_parsed] profile_level_first JUndefined
                    world0)))
       = Inr getFallbackAnalysis
   \<and> w_provider_calls
         (snd (analyzeConversation env_prose [message_parsed] profile_level_first JUndefined
            (snd (analyzeConversation env_prose [message_parsed] profile_level_first JUndefined
                    world0))))
       = [OpenAICall (ustr ''Analyze'')]
   \<and> w_response (snd (analyze_handler env_prose analysis_request world0))
       = Some (200, Json (JObj [(ustr ''success'', JBool True),
                                (ustr ''data'', getFallbackAnalysis),
                                (ustr ''timestamp'', JStr (ustr ''T'' @ decimal 1120))]))
   \<and> w_cache (snd (analyze_handler env_prose analysis_request world0)) sample_analysis_key
       = Some (getFallbackAnalysis, 7201120)
   \<and> w_response (snd (analyze_handler env_prose analysis_request
                         ((snd (analyze_handler env_prose analysis_request world0))
                            \<lparr>w_response := None\<rparr>)))
       = Some (200, Json (JObj [(ustr ''success'', JBool True),
                                (ustr ''data'', getFallbackAnalysis),
                                (ustr ''timestamp'', JStr (ustr ''T'' @ decimal 1120))]))
   \<and> w_provider_calls (snd (analyze_handler env_prose analysis_request
                         ((snd (analyze_handler env_prose analysis_request world0))
                            \<lparr>w_response := None\<rparr>)))
       = [OpenAICall (ustr ''Analyze'')]"
proof -
  let ?run = "\<lambda>E. analyzeConversation E [message_parsed] profile_level_first JUndefined"
  let ?req = "\<lambda>E. analyze_handler E analysis_request"
  let ?d = "\<lparr>ar_messages = [message_parsed], ar_userProfile = profile_level_first,
            ar_studyTopic = JUndefined, ar_vocabularyContext = JUndefined\<rparr>"
  let ?body = "Json (JObj [(ustr ''success'', JBool True), (ustr ''data'', getFallbackAnalysis),
                           (ustr ''timestamp'', JStr (ustr ''T'' @ decimal 1120))])"
  have s: "\<And>s c. sim (?run env_prose) (?run (with_sink env_prose s c))"
    by (rule sim_analyzeConversation)
  have sh: "\<And>s c. sim (?req env_prose) (?req (with_sink env_prose s c))"
    by (rule sim_analyze_handler)
  have f1: "fst (?run env_prose world0) = Inr getFallbackAnalysis"
    using mute_fst [where m = ?run, OF s, of world0] prose_first_mute by simp
  have p1: "primary (snd (?run env_prose world0)) = primary prose_cached"
    using mute_primary [where m = ?run, OF s, of world0] prose_first_mute by simp
  have c: "w_cache prose_cached sample_analysis_key = Some (getFallbackAnalysis, 7201120)"
    "w_cache_sets prose_cached = 1"
    by simp_all
  have second: "fst (?run env_prose (snd (?run env_prose world0))) = Inr getFallbackAnalysis
      \<and> primary (snd (?run env_prose (snd (?run env_prose world0))))
          = primary (snd (?run (mute env_prose) prose_cached))"
    using sim_apart [OF s [of "\<lambda>n row. SinkOk" False] p1] prose_second_mute
    by (simp add: mute_def)
  then have f2: "fst (?run env_prose (snd (?run env_prose world0))) = Inr getFallbackAnalysis"
    and c2: "w_provider_calls (snd (?run env_prose (snd (?run env_prose world0))))
               = [OpenAICall (ustr ''Analyze'')]"
    using primary_fields(2) [of "snd (?run env_prose (snd (?run env_prose world0)))"
            "snd (?run (mute env_prose) prose_cached)"]
    by (simp_all add: prose_second_mute)
  obtain w1 where m1: "?run (mute env_prose) world0 = (Inr getFallbackAnalysis, w1)"
    and pw1: "primary w1 = primary prose_cached"
    using prose_first_mute by (cases "?run (mute env_prose) world0") simp
  have h1m: "primary (snd (?req (mute env_prose) world0))
      = primary (w1\<lparr>w_response := Some (200, Json (JObj
                        [(ustr ''success'', JBool True), (ustr ''data'', getFallbackAnalysis),
                         (ustr ''timestamp'', JStr (e_toISOString env_prose (w_clock w1)))]))\<rparr>)"
    using primary_fields(3) [OF pw1]
      analyze_handler_mute [where ctx = system_context and E = env_prose
            and req = analysis_request and w = world0 and vc = JUndefined, OF _ _ _ _ _ m1]
    by (simp add: analysis_request_simps analysis_request_parsed)
  have h1: "primary (snd (?req env_prose world0))
      = primary (prose_cached\<lparr>w_response := Some (200, ?body)\<rparr>)"
    using mute_primary [where m = ?req, OF sh, of world0] h1m primary_fields [OF pw1]
    by (simp add: primary_def)
  have r1: "w_response (snd (?req env_prose world0)) = Some (200, ?body)"
    and k1: "w_cache (snd (?req env_prose world0)) sample_analysis_key
               = Some (getFallbackAnalysis, 7201120)"
    using primary_fields(3,4) [OF h1] by simp_all
  have pn: "primary ((snd (?req env_prose world0))\<lparr>w_response := None\<rparr>) = primary prose_cached"
    using h1 by (simp add: primary_def)
  have h2m: "primary (snd (?req (mute env_prose) prose_cached))
      = primary (prose_cached\<lparr>w_invoked := [M_analyzeConversation, M_analyzeConversation],
                   w_response := Some (200, ?body)\<rparr>)"
    using analyze_handler_mute [where ctx = system_context and E = env_prose
            and req = analysis_request and w = prose_cached and vc = JUndefined,
            OF _ _ _ _ _ prose_second_mute]
    by (simp add: analysis_request_simps analysis_request_parsed primary_def)
  have h2: "primary (snd (?req env_prose ((snd (?req env_prose world0))\<lparr>w_response := None\<rparr>)))
      = primary (snd (?req (mute env_prose) prose_cached))"
    using sim_apart [OF sh [of "\<lambda>n row. SinkOk" False] pn] by (simp add: mute_def)
  have r2: "w_response (snd (?req env_prose ((snd (?req env_prose world0))\<lparr>w_response := None\<rparr>)))
      = Some (200, ?body)"
    and c3: "w_provider_calls
         (snd (?req env_prose ((snd (?req env_prose world0))\<lparr>w_response := None\<rparr>)))
      = [OpenAICall (ustr ''Analyze'')]"
    using primary_fields(2,3) [OF h2 [unfolded h2m]] by simp_all
  from f1 p1 c f2 c2 r1 k1 r2 c3 show ?thesis by (intro conjI)
qed

section \<open>A failing provider, capability by capability\<close>

lemma vocabulary_fails_mute:
  assumes "generateOpenAIKey (e_numberToString E) ms up JUndefined vc = Inr key"
      and "\<not> truthy (cache_lookup w key)"
      and "e_getActivePrompt E (ustr ''vocabulary_practice'') (languageCode_of up) = Some prompt"
      and "e_generateVocabularyPrompt E prompt ms up vc = Inr p"
      and "e_openai E (w_provider_calls w) p = (latency, outcome)"
      and "openai_failed outcome"
  shows "analyzeVocabularyPractice (mute E) ms up vc w =
           (Inr getFallbackAnalysis,
            w\<lparr>w_invoked := w_invoked w @ [M_analyzeVocabularyPractice],
              w_provider_calls := w_provider_calls w @ [OpenAICall p],
              w_clock := w_clock w + latency,
              w_console := w_console w
                @ [ConsoleLog (ustr ''Cache '' @ ustr ''miss'' @ ustr '': '' @ key @ ustr '' (''
                               @ ustr ''openai'' @ ustr '')''),
                   ConsoleLog (ustr ''Logging disabled - Supabase not configured'')]\<rparr>)"
  using assms
  by (cases outcome)
     (simp_all add: analyzeVocabularyPractice_def vocabulary_miss_def analyze_failed_def exec_defs)

lemma analyze_handler_vocabulary_mute:
  assumes "rq_method req = ustr ''POST''" and "authenticate E req = Inr ctx"
      and "AnalyzeRequestSchema_safeParse E (rq_body req)
             = Inr \<lparr>ar_messages = ms, ar_userProfile = up, ar_studyTopic = st,
                    ar_vocabularyContext = vc\<rparr>"
      and "truthy vc"
      and "w_response w = None"
      and "analyzeVocabularyPractice (mute E) ms up vc w = (Inr a, w1)"
      and "w_response w1 = None"
  shows "primary (snd (analyze_handler (mute E) req w)) =
           primary (w1\<lparr>w_response := Some (200, Json (JObj
                        [(ustr ''success'', JBool True), (ustr ''data'', a),
                         (ustr ''timestamp'', JStr (e_toISOString E (w_clock w1)))]))\<rparr>)"
  using assms
  by (simp add: analyze_handler_def asyncHandler_def authMiddleware_ok io_defs primary_def)

lemma analyze_handler_fails:
  assumes "rq_method req = ustr ''POST''" and "authenticate E req = Inr ctx"
      and "AnalyzeRequestSchema_safeParse E (rq_body req)
             = Inr \<lparr>ar_messages = ms, ar_userProfile = up, ar_studyTopic = st,
                    ar_vocabularyContext = vc\<rparr>"
      and "\<not> truthy vc"
      and "w_response w = None"
      and "generateOpenAIKey (e_numberToString E) ms up st JUndefined = Inr key"
      and "\<not> truthy (cache_lookup w key)"
      and "e_getActivePrompt E (ustr ''general'') (languageCode_of up) = Some prompt"
      and "e_generatePrompt E prompt ms up st = Inr p"
      and "e_openai E (w_provider_calls w) p = (latency, outcome)"
      and "openai_failed outcome"
  shows "w_response (snd (analyze_handler E req w))
           = Some (200, Json (JObj [(ustr ''success'', JBool True),
                                    (ustr ''data'', getFallbackAnalysis),
                                    (ustr ''timestamp'',
                                       JStr (e_toISOString E (w_clock w + latency)))]))"
proof -
  note m = analyze_fails_mute [OF assms(6-11)]
  have "primary (snd (analyze_handler E req w)) = primary (snd (analyze_handler (mute E) req w))"
    by (rule mute_primary [where m = "\<lambda>E. analyze_handler E req"]) (rule sim_analyze_handler)
  also have "\<dots> = primary ((w\<lparr>w_invoked := w_invoked w @ [M_analyzeConversation],
              w_provider_calls := w_provider_calls w @ [OpenAICall p],
              w_clock := w_clock w + latency,
              w_console := w_console w
                @ [ConsoleLog (ustr ''Cache '' @ ustr ''miss'' @ ustr '': '' @ key @ ustr '' (''
                               @ ustr ''openai'' @ ustr '')''),
                   ConsoleLog (ustr ''Logging disabled - Supabase not configured'')]\<rparr>)
            \<lparr>w_response := Some (200, Json (JObj
                        [(ustr ''success'', JBool True), (ustr ''data'', getFallbackAnalysis),
                         (ustr ''timestamp'', JStr (e_toISOString E (w_clock w + latency)))]))\<rparr>)"
    using analyze_handler_mute [OF assms(1-5) m] assms(5) by simp
  finally show ?thesis by (simp add: primary_def)
qed

lemma analyze_handler_vocabulary_fails:
  assumes "rq_method req = ustr ''POST''" and "authenticate E req = Inr ctx"
      and "AnalyzeRequestSchema_safeParse E (rq_body req)
             = Inr \<lparr>ar_messages = ms, ar_userProfile = up, ar_studyTopic = st,
                    ar_vocabularyContext = vc\<rparr>"
      and "truthy vc"
      and "w_response w = None"
      and "generateOpenAIKey (e_numberToString E) ms up JUndefined vc = Inr key"
      and "\<not> truthy (cache_lookup w key)"
      and "e_getActivePrompt E (ustr ''vocabulary_practice'') (languageCode_of up) = Some prompt"
      and "e_generateVocabularyPrompt E prompt ms up vc = Inr p"
      and "e_openai E (w_provider_calls w) p = (latency, outcome)"
      and "openai_failed outcome"
  shows "w_response (snd (analyze_handler E req w))
           = Some (200, Json (JObj [(ustr ''success'', JBool True),
                                    (ustr ''data'', getFallbackAnalysis),
                                    (ustr ''timestamp'',
                                       JStr (e_toISOString E (w_clock w + latency)))]))"
proof -
  note m = vocabulary_fails_mute [OF assms(6-11)]
  have "primary (snd (analyze_handler E req w)) = primary (snd (analyze_handler (mute E) req w))"
    by (rule mute_primary [where m = "\<lambda>E. analyze_handler E req"]) (rule sim_analyze_handler)
  also have "\<dots> = primary ((w\<lparr>w_invoked := w_invoked w @ [M_analyzeVocabularyPractice],
              w_provider_calls := w_provider_calls w @ [OpenAICall p],
              w_clock := w_clock w + latency,
              w_console := w_console w
                @ [ConsoleLog (ustr ''Cache '' @ ustr ''miss'' @ ustr '': '' @ key @ ustr '' (''
                               @ ustr ''openai'' @ ustr '')''),
                   ConsoleLog (ustr ''Logging disabled - Supabase not configured'')]\<rparr>)
            \<lparr>w_response := Some (200, Json (JObj
                        [(ustr ''success'', JBool True), (ustr ''data'', getFallbackAnalysis),
                         (ustr ''timestamp'', JStr (e_toISOString E (w_clock w + latency)))]))\<rparr>)"
    using analyze_handler_vocabulary_mute [OF assms(1-5) m] assms(5) by simp
  finally show ?thesis by (simp add: primary_def)
qed

lemma analysis_fails:
  assumes "generateOpenAIKey (e_numberToString E) ms up st JUndefined = Inr key"
      and "\<not> truthy (cache_lookup w key)"
      and "e_getActivePrompt E (ustr ''general'') (languageCode_of up) = Some prompt"
      and "e_generatePrompt E prompt ms up st = Inr p"
      and "openai_failed (snd (e_openai E (w_provider_calls w) p))"
  shows "fst (analyzeConversation E ms up st w) = Inr getFallbackAnalysis"
proof -
  obtain l1 o1 where o1: "e_openai E (w_provider_calls w) p = (l1, o1)"
    by (cases "e_openai E (w_provider_calls w) p")
  with assms(5) have f1: "openai_failed o1" by simp
  show ?thesis
    using mute_fst [where m = "\<lambda>E. analyzeConversation E ms up st",
                    OF sim_analyzeConversation, of E w]
          analyze_fails_mute [OF assms(1-4) o1 f1]
    by simp
qed

lemma vocabulary_fails:
  assumes "generateOpenAIKey (e_numberToString E) ms up JUndefined vc = Inr key"
      and "\<not> truthy (cache_lookup w key)"
      and "e_getActivePrompt E (ustr ''vocabulary_practice'') (languageCode_of up) = Some prompt"
      and "e_generateVocabularyPrompt E prompt ms up vc = Inr p"
      and "openai_failed (snd (e_openai E (w_provider_calls w) p))"
  shows "fst (analyzeVocabularyPractice E ms up vc w) = Inr getFallbackAnalysis"
proof -
  obtain l1 o1 where o1: "e_openai E (w_provider_calls w) p = (l1, o1)"
    by (cases "e_openai E (w_provider_calls w) p")
  with assms(5) have f1: "openai_failed o1" by simp
  show ?thesis
    using mute_fst [where m = "\<lambda>E. analyzeVocabularyPractice E ms up vc",
                    OF sim_analyzeVocabularyPractice, of E w]
          vocabulary_fails_mute [OF assms(1-4) o1 f1]
    by simp
qed

lemma analysis_request_fails:
  assumes "rq_method req = ustr ''POST''" and "authenticate E req = Inr ctx"
      and "AnalyzeRequestSchema_safeParse E (rq_body req)
             = Inr \<lparr>ar_messages = ms, ar_userProfile = up, ar_studyTopic = st,
                    ar_vocabularyContext = vc\<rparr>"
      and "w_response w = None"
      and "if truthy vc
           then generateOpenAIKey (e_numberToString E) ms up JUndefined vc = Inr key
              \<and> e_getActivePrompt E (ustr ''vocabulary_practice'') (languageCode_of up)
                  = Some prompt
              \<and> e_generateVocabularyPrompt E prompt ms up vc = Inr p
           else generateOpenAIKey (e_numberToString E) ms up st JUndefined = Inr key
              \<and> e_getActivePrompt E (ustr ''general'') (languageCode_of up) = Some prompt
              \<and> e_generatePrompt E prompt ms up st = Inr p"
      and "\<not> truthy (cache_lookup w key)"
      and "openai_failed (snd (e_openai E (w_provider_calls w) p))"
  shows "w_response (snd (analyze_handler E req w))
           = Some (200, Json (JObj [(ustr ''success'', JBool True),
                                    (ustr ''data'', getFallbackAnalysis),
                                    (ustr ''timestamp'',
                                       JStr (e_toISOString E
                                          (w_clock w + fst (e_openai E (w_provider_calls w) p))))]))"
proof -
  obtain l1 o1 where o1: "e_openai E (w_provider_calls w) p = (l1, o1)"
    by (cases "e_openai E (w_provider_calls w) p")
  with assms(7) have f1: "openai_failed o1" by simp
  show ?thesis
  proof (cases "truthy vc")
    case True
    with assms(5) have k: "generateOpenAIKey (e_numberToString E) ms up JUndefined vc = Inr key"
      "e_getActivePrompt E (ustr ''vocabulary_practice'') (languageCode_of up) = Some prompt"
      "e_generateVocabularyPrompt E prompt ms up vc = Inr p" by simp_all
    from analyze_handler_vocabulary_fails [OF assms(1-3) True assms(4) k(1) assms(6) k(2,3) o1 f1]
    show ?thesis by (simp add: o1)
  next
    case False
    with assms(5) have k: "generateOpenAIKey (e_numberToString E) ms up st JUndefined = Inr key"
      "e_getActivePrompt E (ustr ''general'') (languageCode_of up) = Some prompt"
      "e_generatePrompt E prompt ms up st = Inr p" by simp_all
    from analyze_handler_fails [OF assms(1-3) False assms(4) k(1) assms(6) k(2,3) o1 f1]
    show ?thesis by (simp add: o1)
  qed
qed

lemma voice_fails:
  assumes "rq_method req = ustr ''POST''" and "authenticate E req = Inr ctx"
      and "VoiceRequestSchema_safeParse E (rq_body req)
             = Inr \<lparr>vr_text = t, vr_voiceId = v, vr_settings = st\<rparr>"
      and "w_response w = None"
      and "\<not> truthy (cache_lookup w
             (generateElevenLabsVoiceKey (e_numberToString E) t v (JObj (settings_or_empty st))))"
      and "fetch_failed (snd (e_fetch E (w_provider_calls w) (ustr ''POST'') (voice_endpoint v)
             (voice_requestBody t (settings_or_empty st))))"
  shows "(\<exists>orig. fst (generateVoice E t v st w)
             = Inl (ExternalAPIError (ustr ''Failed to generate voice with ElevenLabs'')
                      (ustr ''elevenlabs'') (Some orig)))
       \<and> (\<exists>body. w_response (snd (voice_handler E req w)) = Some (502, ErrorBody body)
              \<and> er_error body = ustr ''External API Error'')"
proof -
  obtain l2 o2 where o2: "e_fetch E (w_provider_calls w) (ustr ''POST'') (voice_endpoint v)
             (voice_requestBody t (settings_or_empty st)) = (l2, o2)"
    by (cases "e_fetch E (w_provider_calls w) (ustr ''POST'') (voice_endpoint v)
             (voice_requestBody t (settings_or_empty st))")
  with assms(6) have f2: "fetch_failed o2" by simp
  have "\<exists>orig. fst (generateVoice E t v st w)
             = Inl (ExternalAPIError (ustr ''Failed to generate voice with ElevenLabs'')
                      (ustr ''elevenlabs'') (Some orig))"
    using mute_fst [where m = "\<lambda>E. generateVoice E t v st", OF sim_generateVoice, of E w]
          voice_fails_mute [OF assms(5) o2 f2]
    by auto
  with voice_handler_fails [OF assms(1-5) o2 f2] show ?thesis by (rule conjI [rotated])
qed

lemma email_fails:
  assumes "rq_method req = ustr ''POST''" and "authenticate E req = Inr ctx"
      and "EmailRequestSchema_safeParse E (rq_body req) = Inr d"
      and "w_response w = None"
      and "validateEmailData (emailType d) (data d) = Inr ()"
      and "renderEmailTemplate E (emailType d) (data d) = Inr rendered"
      and "resend_failed (snd (e_resend E (w_provider_calls w) (to d) rendered))"
  shows "(\<exists>orig. fst (sendEmail E d w)
             = Inl (ExternalAPIError (ustr ''Failed to send email via Resend'') (ustr ''resend'')
                      (Some orig)))
       \<and> (\<exists>body. w_response (snd (email_handler E req w)) = Some (502, ErrorBody body)
              \<and> er_error body = ustr ''External API Error'')"
proof -
  obtain l3 o3 where o3: "e_resend E (w_provider_calls w) (to d) rendered = (l3, o3)"
    by (cases "e_resend E (w_provider_calls w) (to d) rendered")
  with assms(7) have f3: "resend_failed o3" by simp
  have "\<exists>orig. fst (sendEmail E d w)
             = Inl (ExternalAPIError (ustr ''Failed to send email via Resend'') (ustr ''resend'')
                      (Some orig))"
    using mute_fst [where m = "\<lambda>E. sendEmail E d", OF sim_sendEmail, of E w]
          email_fails_mute [OF assms(5,6) o3 f3]
    by auto
  with email_handler_fails [OF assms(1-6) o3 f3] show ?thesis by (rule conjI [rotated])
qed

text \<open>
  C2. When the provider call fails, the outcome differs by capability, each under its own
  conditions. Analysis: on a cache miss with the prompt at hand, \<open>analyzeConversation\<close> and
  \<open>analyzeVocabularyPractice\<close> return the fallback analysis, which holds a summary string
  and an array of key topics, and do not raise; the handler answers 200 with it. Voice and
  email: \<open>generateVoice\<close> and \<open>sendEmail\<close> raise an \<open>ExternalAPIError\<close>, whose status is 502,
  and their handlers answer 502.
\<close>

theorem provider_failure_per_capability:
  "(generateOpenAIKey (e_numberToString E1) ms1 up1 st1 JUndefined = Inr key1
      \<and> \<not> truthy (cache_lookup w1 key1)
      \<and> e_getActivePrompt E1 (ustr ''general'') (languageCode_of up1) = Some prompt1
      \<and> e_generatePrompt E1 prompt1 ms1 up1 st1 = Inr p1
      \<and> openai_failed (snd (e_openai E1 (w_provider_calls w1) p1))
    \<longrightarrow> fst (analyzeConversation E1 ms1 up1 st1 w1) = Inr getFallbackAnalysis)
   \<and> (generateOpenAIKey (e_numberToString E2) ms2 up2 JUndefined vc2 = Inr key2
      \<and> \<not> truthy (cache_lookup w2 key2)
      \<and> e_getActivePrompt E2 (ustr ''vocabulary_practice'') (languageCode_of up2) = Some prompt2
      \<and> e_generateVocabularyPrompt E2 prompt2 ms2 up2 vc2 = Inr p2
      \<and> openai_failed (snd (e_openai E2 (w_provider_calls w2) p2))
    \<longrightarrow> fst (analyzeVocabularyPractice E2 ms2 up2 vc2 w2) = Inr getFallbackAnalysis)
   \<and> (rq_method req3 = ustr ''POST'' \<and> authenticate E3 req3 = Inr ctx3
      \<and> AnalyzeRequestSchema_safeParse E3 (rq_body req3)
          = Inr \<lparr>ar_messages = ms3, ar_userProfile = up3, ar_studyTopic = st3,
                 ar_vocabularyContext = vc3\<rparr>
      \<and> w_response w3 = None
      \<and> (if truthy vc3
          then generateOpenAIKey (e_numberToString E3) ms3 up3 JUndefined vc3 = Inr key3
             \<and> e_getActivePrompt E3 (ustr ''vocabulary_practice'') (languageCode_of up3)
                 = Some prompt3
             \<and> e_generateVocabularyPrompt E3 prompt3 ms3 up3 vc3 = Inr p3
          else generateOpenAIKey (e_numberToString E3) ms3 up3 st3 JUndefined = Inr key3
             \<and> e_getActivePrompt E3 (ustr ''general'') (languageCode_of up3) = Some prompt3
             \<and> e_generatePrompt E3 prompt3 ms3 up3 st3 = Inr p3)
      \<and> \<not> truthy (cache_lookup w3 key3)
      \<and> openai_failed (snd (e_openai E3 (w_provider_calls w3) p3))
    \<longrightarrow> w_response (snd (analyze_handler E3 req3 w3))
          = Some (200, Json (JObj [(ustr ''success'', JBool True),
                                   (ustr ''data'', getFallbackAnalysis),
                                   (ustr ''timestamp'',
                                      JStr (e_toISOString E3
                                        (w_clock w3 + fst (e_openai E3 (w_provider_calls w3) p3))))])))
   \<and> get_prop getFallbackAnalysis (ustr ''summary'')
       = JStr (ustr ''Conversation analysis failed - using fallback summary'')
   \<and> get_prop getFallbackAnalysis (ustr ''keyTopics'')
       = JArr [JStr (ustr ''conversation''), JStr (ustr ''language practice'')]
   \<and> (rq_method req4 = ustr ''POST'' \<and> authenticate E4 req4 = Inr ctx4
      \<and> VoiceRequestSchema_safeParse E4 (rq_body req4)
          = Inr \<lparr>vr_text = t4, vr_voiceId = v4, vr_settings = vs4\<rparr>
      \<and> w_response w4 = None
      \<and> \<not> truthy (cache_lookup w4
             (generateElevenLabsVoiceKey (e_numberToString E4) t4 v4 (JObj (settings_or_empty vs4))))
      \<and> fetch_failed (snd (e_fetch E4 (w_provider_calls w4) (ustr ''POST'') (voice_endpoint v4)
             (voice_requestBody t4 (settings_or_empty vs4))))
    \<longrightarrow> (\<exists>orig. fst (generateVoice E4 t4 v4 vs4 w4)
             = Inl (ExternalAPIError (ustr ''Failed to generate voice with ElevenLabs'')
                      (ustr ''elevenlabs'') (Some orig)))
       \<and> (\<exists>body. w_response (snd (voice_handler E4 req4 w4)) = Some (502, ErrorBody body)
              \<and> er_error body = ustr ''External API Error''))
   \<and> (rq_method req5 = ustr ''POST'' \<and> authenticate E5 req5 = Inr ctx5
      \<and> EmailRequestSchema_safeParse E5 (rq_body req5) = Inr d5
      \<and> w_response w5 = None
      \<and> validateEmailData (emailType d5) (data d5) = Inr ()
      \<and> renderEmailTemplate E5 (emailType d5) (data d5) = Inr rendered5
      \<and> resend_failed (snd (e_resend E5 (w_provider_calls w5) (to d5) rendered5))
    \<longrightarrow> (\<exists>orig. fst (sendEmail E5 d5 w5)
             = Inl (ExternalAPIError (ustr ''Failed to send email via Resend'') (ustr ''resend'')
                      (Some orig)))
       \<and> (\<exists>body. w_response (snd (email_handler E5 req5 w5)) = Some (502, ErrorBody body)
              \<and> er_error body = ustr ''External API Error''))
   \<and> getStatusCode (ExternalAPIError message service original) = 502"
proof -
  have f: "get_prop getFallbackAnalysis (ustr ''summary'')
       = JStr (ustr ''Conversation analysis failed - using fallback summary'')"
    "get_prop getFallbackAnalysis (ustr ''keyTopics'')
       = JArr [JStr (ustr ''conversation''), JStr (ustr ''language practice'')]"
    by (simp_all add: getFallbackAnalysis_def get_prop_def)
  show ?thesis
    apply (intro conjI impI f)
    subgoal by (elim conjE) (rule analysis_fails; assumption)
    subgoal by (elim conjE) (rule vocabulary_fails; assumption)
    subgoal by (elim conjE) (rule analysis_request_fails; assumption)
    subgoal by (elim conjE) (rule voice_fails [THEN conjunct1]; assumption)
    subgoal by (elim conjE) (rule voice_fails [THEN conjunct2]; assumption)
    subgoal by (elim conjE) (rule email_fails [THEN conjunct1]; assumption)
    subgoal by (elim conjE) (rule email_fails [THEN conjunct2]; assumption)
    subgoal by simp
    done
qed

lemma env_completion_down_simps [simp]:
  "e_API_SECRET_KEY env_completion_down = Some (ustr ''k1'')"
  "e_numberToString env_completion_down = print_number"
  "e_toISOString env_completion_down = (\<lambda>t. ustr ''T'' @ decimal t)"
  "e_getActivePrompt env_completion_down = (\<lambda>conversationType languageCode. Some sample_prompt)"
  "e_generatePrompt env_completion_down
     = (\<lambda>p messages userProfile studyTopic. Inr (prompt_template p))"
  "e_openai env_completion_down = (\<lambda>calls generatedPrompt. (120, OpenAIRejects (ustr ''503'')))"
  by (simp_all add: env_completion_down_def)

lemma env_voice_down_simps [simp]:
  "e_API_SECRET_KEY env_voice_down = Some (ustr ''k1'')"
  "e_numberToString env_voice_down = print_number"
  "e_fetch env_voice_down
     = (\<lambda>calls method endpoint body. (250, FetchResponse False 500 (ustr ''overloaded'') None))"
  by (simp_all add: env_voice_down_def)

lemma env_email_down_simps [simp]:
  "e_API_SECRET_KEY env_email_down = Some (ustr ''k1'')"
  "e_isEmail env_email_down = (\<lambda>s. 0x40 \<in> set s)"
  "e_renderTemplate env_email_down = (\<lambda>et d. Inr sample_rendered)"
  "e_resend env_email_down
     = (\<lambda>calls recipient rendered. (80, ResendResult JNull (Some (ustr ''rate limited''))))"
  by (simp_all add: env_email_down_def)

theorem provider_failure_per_capability_witness:
  "fst (analyzeConversation env_completion_down [message_parsed] profile_level_first JUndefined
          world0) = Inr getFallbackAnalysis
   \<and> w_response (snd (analyze_handler env_completion_down analysis_request world0))
       = Some (200, Json (JObj [(ustr ''success'', JBool True),
                                (ustr ''data'', getFallbackAnalysis),
                                (ustr ''timestamp'', JStr (ustr ''T'' @ decimal 1120))]))
   \<and> (\<exists>body. w_response (snd (voice_handler env_voice_down voice_request world0))
             = Some (502, ErrorBody body) \<and> er_error body = ustr ''External API Error'')
   \<and> (\<exists>body. w_response (snd (email_handler env_email_down email_request world0))
             = Some (502, ErrorBody body) \<and> er_error body = ustr ''External API Error'')"
proof -
  have a: "authenticate env_completion_down analysis_request = Inr system_context"
    by (rule system_key_authenticates) (simp_all add: analysis_request_def)
  have v: "authenticate env_voice_down voice_request = Inr system_context"
    by (rule system_key_authenticates) (simp_all add: voice_request_def)
  have e: "authenticate env_email_down email_request = Inr system_context"
    by (rule system_key_authenticates) (simp_all add: email_request_def)
  have m: "rq_method analysis_request = ustr ''POST''" "rq_method voice_request = ustr ''POST''"
    "rq_method email_request = ustr ''POST''"
    by (simp_all add: analysis_request_def voice_request_def email_request_def)
  have p: "e_generatePrompt env_completion_down sample_prompt ms up st = Inr (ustr ''Analyze'')"
    for ms up st by (simp add: sample_prompt_def)
  from provider_failure_per_capability
         [where ?E1.0 = env_completion_down and ?ms1.0 = "[message_parsed]"
            and ?up1.0 = profile_level_first and ?st1.0 = JUndefined
            and ?key1.0 = sample_analysis_key and ?w1.0 = world0 and ?prompt1.0 = sample_prompt
            and ?p1.0 = "ustr ''Analyze''", THEN conjunct1]
  have c1: "fst (analyzeConversation env_completion_down [message_parsed] profile_level_first
                   JUndefined world0) = Inr getFallbackAnalysis"
    by (simp add: parsed_key sample_prompt_def)
  from provider_failure_per_capability
         [where ?E3.0 = env_completion_down and ?req3.0 = analysis_request
            and ?ctx3.0 = system_context and ?ms3.0 = "[message_parsed]"
            and ?up3.0 = profile_level_first and ?st3.0 = JUndefined and ?vc3.0 = JUndefined
            and ?key3.0 = sample_analysis_key and ?w3.0 = world0 and ?prompt3.0 = sample_prompt
            and ?p3.0 = "ustr ''Analyze''", THEN conjunct2, THEN conjunct2, THEN conjunct1]
  have c2: "w_response (snd (analyze_handler env_completion_down analysis_request world0))
       = Some (200, Json (JObj [(ustr ''success'', JBool True),
                                (ustr ''data'', getFallbackAnalysis),
                                (ustr ''timestamp'', JStr (ustr ''T'' @ decimal 1120))]))"
    by (simp add: parsed_key sample_prompt_def a m analysis_request_parsed)
  from provider_failure_per_capability
         [where ?E4.0 = env_voice_down and ?req4.0 = voice_request and ?ctx4.0 = system_context
            and ?t4.0 = "ustr ''Hi''" and ?v4.0 = "ustr ''v1''" and ?vs4.0 = None
            and ?w4.0 = world0,
          THEN conjunct2, THEN conjunct2, THEN conjunct2, THEN conjunct2, THEN conjunct2,
          THEN conjunct1]
  have c3: "\<exists>body. w_response (snd (voice_handler env_voice_down voice_request world0))
             = Some (502, ErrorBody body) \<and> er_error body = ustr ''External API Error''"
    by (simp add: v m voice_request_parsed)
  from provider_failure_per_capability
         [where ?E5.0 = env_email_down and ?req5.0 = email_request and ?ctx5.0 = system_context
            and ?d5.0 = "\<lparr>emailType = ustr ''welcome'', to = ustr ''al@example.org'',
                           data = welcome_data\<rparr>"
            and ?rendered5.0 = sample_rendered and ?w5.0 = world0,
          THEN conjunct2, THEN conjunct2, THEN conjunct2, THEN conjunct2, THEN conjunct2,
          THEN conjunct2, THEN conjunct1]
  have c4: "\<exists>body. w_response (snd (email_handler env_email_down email_request world0))
             = Some (502, ErrorBody body) \<and> er_error body = ustr ''External API Error''"
    by (simp add: e m email_request_parsed welcome_data_valid renderEmailTemplate_def)
  from c1 c2 c3 c4 show ?thesis by (intro conjI)
qed

section \<open>A request served from the cache: what is returned, what is called\<close>

lemma cache_lookup_unexpired:
  assumes "w_cache w key = Some (v, expires)" and "w_clock w \<le> expires"
  shows "cache_lookup w key = v"
  using assms by (simp add: cache_lookup_def)

lemma vocabulary_hit_mute:
  assumes "generateOpenAIKey (e_numberToString E) ms up JUndefined vc = Inr key"
      and "truthy (cache_lookup w key)"
  shows "analyzeVocabularyPractice (mute E) ms up vc w =
           (Inr (cache_lookup w key),
            w\<lparr>w_invoked := w_invoked w @ [M_analyzeVocabularyPractice],
              w_console := w_console w
                @ [ConsoleLog (ustr ''Cache '' @ ustr ''hit'' @ ustr '': '' @ key @ ustr '' (''
                               @ ustr ''openai'' @ ustr '')'')]\<rparr>)"
  using assms by (simp add: analyzeVocabularyPractice_def exec_defs)

lemma analysis_adapter_hit:
  assumes "generateOpenAIKey (e_numberToString E) ms up st JUndefined = Inr key"
      and "w_cache w key = Some (analysis, expires)" and "w_clock w \<le> expires"
      and "truthy analysis"
  shows "fst (analyzeConversation E ms up st w) = Inr analysis
       \<and> primary (snd (analyzeConversation E ms up st w))
           = primary (w\<lparr>w_invoked := w_invoked w @ [M_analyzeConversation]\<rparr>)"
proof -
  from cache_lookup_unexpired [OF assms(2,3)] assms(4)
  have a: "cache_lookup w key = analysis" "truthy (cache_lookup w key)" by simp_all
  note am = analyze_hit_mute [OF assms(1) a(2)]
  show ?thesis
    using mute_fst [where m = "\<lambda>E. analyzeConversation E ms up st",
                    OF sim_analyzeConversation, of E w]
          mute_primary [where m = "\<lambda>E. analyzeConversation E ms up st",
                    OF sim_analyzeConversation, of E w] am a(1)
    by (simp add: primary_def)
qed

lemma voice_adapter_hit:
  assumes "w_cache w (generateElevenLabsVoiceKey (e_numberToString E) t v
                        (JObj (settings_or_empty st))) = Some (voice, expires)"
      and "w_clock w \<le> expires" and "truthy voice"
  shows "fst (generateVoice E t v st w) = Inr voice
       \<and> primary (snd (generateVoice E t v st w))
           = primary (w\<lparr>w_invoked := w_invoked w @ [M_generateVoice]\<rparr>)"
proof -
  from cache_lookup_unexpired [OF assms(1,2)] assms(3)
  have b: "cache_lookup w (generateElevenLabsVoiceKey (e_numberToString E) t v
                        (JObj (settings_or_empty st))) = voice"
    "truthy (cache_lookup w (generateElevenLabsVoiceKey (e_numberToString E) t v
                        (JObj (settings_or_empty st))))" by simp_all
  note vm = voice_hit_mute [OF b(2)]
  show ?thesis
    using mute_fst [where m = "\<lambda>E. generateVoice E t v st", OF sim_generateVoice, of E w]
          mute_primary [where m = "\<lambda>E. generateVoice E t v st", OF sim_generateVoice, of E w]
          vm b(1)
    by (simp add: primary_def)
qed

lemma analysis_request_hit:
  assumes "rq_method req = ustr ''POST''" and "authenticate E req = Inr ctx"
      and "AnalyzeRequestSchema_safeParse E (rq_body req)
             = Inr \<lparr>ar_messages = ms, ar_userProfile = up, ar_studyTopic = st,
                    ar_vocabularyContext = vc\<rparr>"
      and "w_response w = None"
      and "(if truthy vc then generateOpenAIKey (e_numberToString E) ms up JUndefined vc
            else generateOpenAIKey (e_numberToString E) ms up st JUndefined) = Inr key"
      and "w_cache w key = Some (analysis, expires)" and "w_clock w \<le> expires"
      and "truthy analysis"
  shows "primary (snd (analyze_handler E req w))
           = primary (w\<lparr>w_invoked := w_invoked w
                          @ [if truthy vc then M_analyzeVocabularyPractice
                             else M_analyzeConversation],
                        w_response := Some (200, Json (JObj
                          [(ustr ''success'', JBool True), (ustr ''data'', analysis),
                           (ustr ''timestamp'', JStr (e_toISOString E (w_clock w)))]))\<rparr>)"
proof -
  from cache_lookup_unexpired [OF assms(6,7)] assms(8)
  have a: "cache_lookup w key = analysis" "truthy (cache_lookup w key)" by simp_all
  have t: "primary (snd (analyze_handler E req w)) = primary (snd (analyze_handler (mute E) req w))"
    by (rule mute_primary [where m = "\<lambda>E. analyze_handler E req"]) (rule sim_analyze_handler)
  show ?thesis
  proof (cases "truthy vc")
    case True
    with assms(5) have k: "generateOpenAIKey (e_numberToString E) ms up JUndefined vc = Inr key"
      by simp
    from analyze_handler_vocabulary_mute [OF assms(1-3) True assms(4) vocabulary_hit_mute [OF k a(2)]]
      assms(4) a(1) True t
    show ?thesis by (simp add: primary_def)
  next
    case False
    with assms(5) have k: "generateOpenAIKey (e_numberToString E) ms up st JUndefined = Inr key"
      by simp
    from analyze_handler_mute [OF assms(1-3) False assms(4) analyze_hit_mute [OF k a(2)]]
      assms(4) a(1) False t
    show ?thesis by (simp add: primary_def)
  qed
qed

lemma voice_request_hit:
  assumes "rq_method req = ustr ''POST''" and "authenticate E req = Inr ctx"
      and "VoiceRequestSchema_safeParse E (rq_body req)
             = Inr \<lparr>vr_text = t, vr_voiceId = v, vr_settings = st\<rparr>"
      and "w_response w = None"
      and "w_cache w (generateElevenLabsVoiceKey (e_numberToString E) t v
                        (JObj (settings_or_empty st))) = Some (voice, expires)"
      and "w_clock w \<le> expires" and "truthy voice"
  shows "primary (snd (voice_handler E req w))
           = primary (w\<lparr>w_invoked := w_invoked w @ [M_generateVoice],
                        w_response := Some (200, Json (JObj
                          [(ustr ''success'', JBool True), (ustr ''data'', voice),
                           (ustr ''timestamp'', JStr (e_toISOString E (w_clock w)))]))\<rparr>)"
proof -
  from cache_lookup_unexpired [OF assms(5,6)] assms(7)
  have b: "cache_lookup w (generateElevenLabsVoiceKey (e_numberToString E) t v
                        (JObj (settings_or_empty st))) = voice"
    "truthy (cache_lookup w (generateElevenLabsVoiceKey (e_numberToString E) t v
                        (JObj (settings_or_empty st))))" by simp_all
  show ?thesis
    using mute_primary [where m = "\<lambda>E. voice_handler E req", OF sim_voice_handler, of E w]
          voice_handler_hit_mute [OF assms(1-4) b(2)] b(1)
    by simp
qed

lemma sample_voice_key_settings:
  "generateElevenLabsVoiceKey print_number (ustr ''Hi'') (ustr ''v1'')
     (JObj (settings_or_empty None)) = sample_voice_key"
  by (simp add: sample_voice_key_def settings_or_empty_def)

lemma world_cached_invoked [simp]: "w_invoked world_cached = []"
  by (simp add: world_cached_def)

lemma samples_truthy: "truthy sample_voice" "truthy sample_analysis"
  by (simp_all add: sample_voice_def sample_analysis_def)

text \<open>
  C7, refuted as stated. The cache holds an unexpired value under the key of the request,
  and the request still enters the adapter method (\<open>generateVoice\<close> for voice synthesis,
  \<open>analyzeConversation\<close> for analysis): the cache lookup is made inside the adapter, not by
  the handler. No provider call is made.
\<close>

theorem cache_hit_enters_adapter_counterexample:
  "w_cache world_cached sample_voice_key = Some (sample_voice, 5000)
   \<and> w_clock world_cached = 1000
   \<and> w_invoked world_cached = []
   \<and> w_invoked (snd (voice_handler env0 voice_request world_cached)) = [M_generateVoice]
   \<and> w_provider_calls (snd (voice_handler env0 voice_request world_cached)) = []
   \<and> w_cache world_cached sample_analysis_key = Some (sample_analysis, 5000)
   \<and> w_invoked (snd (analyze_handler env0 analysis_request world_cached))
       = [M_analyzeConversation]
   \<and> w_provider_calls (snd (analyze_handler env0 analysis_request world_cached)) = []"
proof -
  have aa: "authenticate env0 analysis_request = Inr system_context"
    by (rule system_key_authenticates) (simp_all add: analysis_request_def)
  have av: "authenticate env0 voice_request = Inr system_context"
    by (rule system_key_authenticates) (simp_all add: voice_request_def)
  have m: "rq_method analysis_request = ustr ''POST''" "rq_method voice_request = ustr ''POST''"
    by (simp_all add: analysis_request_def voice_request_def)
  have v: "primary (snd (voice_handler env0 voice_request world_cached))
      = primary (world_cached\<lparr>w_invoked := w_invoked world_cached @ [M_generateVoice],
                        w_response := Some (200, Json (JObj
                          [(ustr ''success'', JBool True), (ustr ''data'', sample_voice),
                           (ustr ''timestamp'',
                              JStr (e_toISOString env0 (w_clock world_cached)))]))\<rparr>)"
    by (rule voice_request_hit [where ctx = system_context and expires = 5000
          and t = "ustr ''Hi''" and v = "ustr ''v1''" and st = None])
       (simp_all add: voice_request_parsed sample_voice_key_settings samples_truthy av m)
  have a: "primary (snd (analyze_handler env0 analysis_request world_cached))
      = primary (world_cached\<lparr>w_invoked := w_invoked world_cached
                          @ [if truthy JUndefined then M_analyzeVocabularyPractice
                             else M_analyzeConversation],
                        w_response := Some (200, Json (JObj
                          [(ustr ''success'', JBool True), (ustr ''data'', sample_analysis),
                           (ustr ''timestamp'',
                              JStr (e_toISOString env0 (w_clock world_cached)))]))\<rparr>)"
    by (rule analysis_request_hit [where ctx = system_context and expires = 5000
          and key = sample_analysis_key and st = JUndefined and ms = "[message_parsed]"
          and up = profile_level_first])
       (simp_all add: analysis_request_parsed parsed_key samples_truthy aa m)
  from primary_fields(1,2) [OF v] primary_fields(1,2) [OF a] show ?thesis by simp
qed

text \<open>
  C7, amended. When the derived key holds an unexpired stored value that the adapter takes
  for a hit (\<open>if (cached)\<close>: every value the adapters store is an object), the adapter
  returns that value unchanged and the handler answers 200 with it as \<open>data\<close>; no call to the
  external provider is made. The adapter method itself is entered, once. Each capability
  under its own conditions: the completion adapter, the voice adapter, the analysis
  handler (either method), the voice handler.
\<close>

theorem cache_hit_skips_provider:
  "(generateOpenAIKey (e_numberToString E1) ms1 up1 st1 JUndefined = Inr key1
      \<and> w_cache w1 key1 = Some (analysis1, expires1) \<and> w_clock w1 \<le> expires1
      \<and> truthy analysis1
    \<longrightarrow> fst (analyzeConversation E1 ms1 up1 st1 w1) = Inr analysis1
       \<and> w_provider_calls (snd (analyzeConversation E1 ms1 up1 st1 w1)) = w_provider_calls w1)
   \<and> (w_cache w2 (generateElevenLabsVoiceKey (e_numberToString E2) t2 v2
                     (JObj (settings_or_empty vs2))) = Some (voice2, expires2)
      \<and> w_clock w2 \<le> expires2 \<and> truthy voice2
    \<longrightarrow> fst (generateVoice E2 t2 v2 vs2 w2) = Inr voice2
       \<and> w_provider_calls (snd (generateVoice E2 t2 v2 vs2 w2)) = w_provider_calls w2)
   \<and> (rq_method req3 = ustr ''POST'' \<and> authenticate E3 req3 = Inr ctx3
      \<and> AnalyzeRequestSchema_safeParse E3 (rq_body req3)
          = Inr \<lparr>ar_messages = ms3, ar_userProfile = up3, ar_studyTopic = st3,
                 ar_vocabularyContext = vc3\<rparr>
      \<and> w_response w3 = None
      \<and> (if truthy vc3 then generateOpenAIKey (e_numberToString E3) ms3 up3 JUndefined vc3
          else generateOpenAIKey (e_numberToString E3) ms3 up3 st3 JUndefined) = Inr key3
      \<and> w_cache w3 key3 = Some (analysis3, expires3) \<and> w_clock w3 \<le> expires3
      \<and> truthy analysis3
    \<longrightarrow> w_response (snd (analyze_handler E3 req3 w3))
          = Some (200, Json (JObj [(ustr ''success'', JBool True), (ustr ''data'', analysis3),
                                   (ustr ''timestamp'', JStr (e_toISOString E3 (w_clock w3)))]))
       \<and> w_provider_calls (snd (analyze_handler E3 req3 w3)) = w_provider_calls w3
       \<and> w_invoked (snd (analyze_handler E3 req3 w3))
           = w_invoked w3 @ [if truthy vc3 then M_analyzeVocabularyPractice
                             else M_analyzeConversation])
   \<and> (rq_method req4 = ustr ''POST'' \<and> authenticate E4 req4 = Inr ctx4
      \<and> VoiceRequestSchema_safeParse E4 (rq_body req4)
          = Inr \<lparr>vr_text = t4, vr_voiceId = v4, vr_settings = vs4\<rparr>
      \<and> w_response w4 = None
      \<and> w_cache w4 (generateElevenLabsVoiceKey (e_numberToString E4) t4 v4
                      (JObj (settings_or_empty vs4))) = Some (voice4, expires4)
      \<and> w_clock w4 \<le> expires4 \<and> truthy voice4
    \<longrightarrow> w_response (snd (voice_handler E4 req4 w4))
          = Some (200, Json (JObj [(ustr ''success'', JBool True), (ustr ''data'', voice4),
                                   (ustr ''timestamp'', JStr (e_toISOString E4 (w_clock w4)))]))
       \<and> w_provider_calls (snd (voice_handler E4 req4 w4)) = w_provider_calls w4
       \<and> w_invoked (snd (voice_handler E4 req4 w4)) = w_invoked w4 @ [M_generateVoice])"
proof (intro conjI impI)
  assume h: "generateOpenAIKey (e_numberToString E1) ms1 up1 st1 JUndefined = Inr key1
      \<and> w_cache w1 key1 = Some (analysis1, expires1) \<and> w_clock w1 \<le> expires1
      \<and> truthy analysis1"
  then have r: "fst (analyzeConversation E1 ms1 up1 st1 w1) = Inr analysis1
       \<and> primary (snd (analyzeConversation E1 ms1 up1 st1 w1))
           = primary (w1\<lparr>w_invoked := w_invoked w1 @ [M_analyzeConversation]\<rparr>)"
    by (elim conjE) (rule analysis_adapter_hit; assumption)
  then show "fst (analyzeConversation E1 ms1 up1 st1 w1) = Inr analysis1" by simp
  from r primary_fields(2) [of "snd (analyzeConversation E1 ms1 up1 st1 w1)"
                              "w1\<lparr>w_invoked := w_invoked w1 @ [M_analyzeConversation]\<rparr>"]
  show "w_provider_calls (snd (analyzeConversation E1 ms1 up1 st1 w1)) = w_provider_calls w1"
    by simp
next
  assume h: "w_cache w2 (generateElevenLabsVoiceKey (e_numberToString E2) t2 v2
                     (JObj (settings_or_empty vs2))) = Some (voice2, expires2)
      \<and> w_clock w2 \<le> expires2 \<and> truthy voice2"
  then have r: "fst (generateVoice E2 t2 v2 vs2 w2) = Inr voice2
       \<and> primary (snd (generateVoice E2 t2 v2 vs2 w2))
           = primary (w2\<lparr>w_invoked := w_invoked w2 @ [M_generateVoice]\<rparr>)"
    by (elim conjE) (rule voice_adapter_hit; assumption)
  then show "fst (generateVoice E2 t2 v2 vs2 w2) = Inr voice2" by simp
  from r primary_fields(2) [of "snd (generateVoice E2 t2 v2 vs2 w2)"
                              "w2\<lparr>w_invoked := w_invoked w2 @ [M_generateVoice]\<rparr>"]
  show "w_provider_calls (snd (generateVoice E2 t2 v2 vs2 w2)) = w_provider_calls w2"
    by simp
next
  assume h: "rq_method req3 = ustr ''POST'' \<and> authenticate E3 req3 = Inr ctx3
      \<and> AnalyzeRequestSchema_safeParse E3 (rq_body req3)
          = Inr \<lparr>ar_messages = ms3, ar_userProfile = up3, ar_studyTopic = st3,
                 ar_vocabularyContext = vc3\<rparr>
      \<and> w_response w3 = None
      \<and> (if truthy vc3 then generateOpenAIKey (e_numberToString E3) ms3 up3 JUndefined vc3
          else generateOpenAIKey (e_numberToString E3) ms3 up3 st3 JUndefined) = Inr key3
      \<and> w_cache w3 key3 = Some (analysis3, expires3) \<and> w_clock w3 \<le> expires3
      \<and> truthy analysis3"
  then have r: "primary (snd (analyze_handler E3 req3 w3))
           = primary (w3\<lparr>w_invoked := w_invoked w3
                          @ [if truthy vc3 then M_analyzeVocabularyPractice
                             else M_analyzeConversation],
                        w_response := Some (200, Json (JObj
                          [(ustr ''success'', JBool True), (ustr ''data'', analysis3),
                           (ustr ''timestamp'', JStr (e_toISOString E3 (w_clock w3)))]))\<rparr>)"
    by (elim conjE) (rule analysis_request_hit; assumption)
  from primary_fields(1,2,3) [OF r]
  show "w_response (snd (analyze_handler E3 req3 w3))
          = Some (200, Json (JObj [(ustr ''success'', JBool True), (ustr ''data'', analysis3),
                                   (ustr ''timestamp'', JStr (e_toISOString E3 (w_clock w3)))]))"
    "w_provider_calls (snd (analyze_handler E3 req3 w3)) = w_provider_calls w3"
    "w_invoked (snd (analyze_handler E3 req3 w3))
           = w_invoked w3 @ [if truthy vc3 then M_analyzeVocabularyPractice
                             else M_analyzeConversation]"
    by simp_all
next
  assume h: "rq_method req4 = ustr ''POST'' \<and> authenticate E4 req4 = Inr ctx4
      \<and> VoiceRequestSchema_safeParse E4 (rq_body req4)
          = Inr \<lparr>vr_text = t4, vr_voiceId = v4, vr_settings = vs4\<rparr>
      \<and> w_response w4 = None
      \<and> w_cache w4 (generateElevenLabsVoiceKey (e_numberToString E4) t4 v4
                      (JObj (settings_or_empty vs4))) = Some (voice4, expires4)
      \<and> w_clock w4 \<le> expires4 \<and> truthy voice4"
  then have r: "primary (snd (voice_handler E4 req4 w4))
           = primary (w4\<lparr>w_invoked := w_invoked w4 @ [M_generateVoice],
                        w_response := Some (200, Json (JObj
                          [(ustr ''success'', JBool True), (ustr ''data'', voice4),
                           (ustr ''timestamp'', JStr (e_toISOString E4 (w_clock w4)))]))\<rparr>)"
    by (elim conjE) (rule voice_request_hit; assumption)
  from primary_fields(1,2,3) [OF r]
  show "w_response (snd (voice_handler E4 req4 w4))
          = Some (200, Json (JObj [(ustr ''success'', JBool True), (ustr ''data'', voice4),
                                   (ustr ''timestamp'', JStr (e_toISOString E4 (w_clock w4)))]))"
    "w_provider_calls (snd (voice_handler E4 req4 w4)) = w_provider_calls w4"
    "w_invoked (snd (voice_handler E4 req4 w4)) = w_invoked w4 @ [M_generateVoice]"
    by simp_all
qed

theorem cache_hit_skips_provider_witness:
  "fst (analyzeConversation env0 [message_parsed] profile_level_first JUndefined world_cached)
     = Inr sample_analysis
   \<and> fst (generateVoice env0 (ustr ''Hi'') (ustr ''v1'') None world_cached) = Inr sample_voice
   \<and> w_response (snd (analyze_handler env0 analysis_request world_cached))
       = Some (200, Json (JObj [(ustr ''success'', JBool True), (ustr ''data'', sample_analysis),
                                (ustr ''timestamp'', JStr (ustr ''T'' @ decimal 1000))]))
   \<and> w_provider_calls (snd (analyze_handler env0 analysis_request world_cached)) = []
   \<and> w_response (snd (voice_handler env0 voice_request world_cached))
       = Some (200, Json (JObj [(ustr ''success'', JBool True), (ustr ''data'', sample_voice),
                                (ustr ''timestamp'', JStr (ustr ''T'' @ decimal 1000))]))
   \<and> w_provider_calls (snd (voice_handler env0 voice_request world_cached)) = []"
proof -
  have a: "authenticate env0 analysis_request = Inr system_context"
    by (rule system_key_authenticates) (simp_all add: analysis_request_def)
  have v: "authenticate env0 voice_request = Inr system_context"
    by (rule system_key_authenticates) (simp_all add: voice_request_def)
  have m: "rq_method analysis_request = ustr ''POST''" "rq_method voice_request = ustr ''POST''"
    by (simp_all add: analysis_request_def voice_request_def)
  from cache_hit_skips_provider
         [where ?E1.0 = env0 and ?ms1.0 = "[message_parsed]" and ?up1.0 = profile_level_first
            and ?st1.0 = JUndefined and ?key1.0 = sample_analysis_key and ?w1.0 = world_cached
            and ?analysis1.0 = sample_analysis and ?expires1.0 = 5000, THEN conjunct1]
  have c1: "fst (analyzeConversation env0 [message_parsed] profile_level_first JUndefined
                   world_cached) = Inr sample_analysis"
    by (simp add: parsed_key samples_truthy)
  from cache_hit_skips_provider
         [where ?E2.0 = env0 and ?t2.0 = "ustr ''Hi''" and ?v2.0 = "ustr ''v1''"
            and ?vs2.0 = None and ?w2.0 = world_cached and ?voice2.0 = sample_voice
            and ?expires2.0 = 5000, THEN conjunct2, THEN conjunct1]
  have c2: "fst (generateVoice env0 (ustr ''Hi'') (ustr ''v1'') None world_cached)
              = Inr sample_voice"
    by (simp add: sample_voice_key_settings samples_truthy)
  from cache_hit_skips_provider
         [where ?E3.0 = env0 and ?req3.0 = analysis_request and ?ctx3.0 = system_context
            and ?ms3.0 = "[message_parsed]" and ?up3.0 = profile_level_first
            and ?st3.0 = JUndefined and ?vc3.0 = JUndefined and ?key3.0 = sample_analysis_key
            and ?w3.0 = world_cached and ?analysis3.0 = sample_analysis
            and ?expires3.0 = 5000, THEN conjunct2, THEN conjunct2, THEN conjunct1]
  have c3: "w_response (snd (analyze_handler env0 analysis_request world_cached))
       = Some (200, Json (JObj [(ustr ''success'', JBool True), (ustr ''data'', sample_analysis),
                                (ustr ''timestamp'', JStr (ustr ''T'' @ decimal 1000))]))
     \<and> w_provider_calls (snd (analyze_handler env0 analysis_request world_cached)) = []"
    by (simp add: a m analysis_request_parsed parsed_key samples_truthy)
  from cache_hit_skips_provider
         [where ?E4.0 = env0 and ?req4.0 = voice_request and ?ctx4.0 = system_context
            and ?t4.0 = "ustr ''Hi''" and ?v4.0 = "ustr ''v1''" and ?vs4.0 = None
            and ?w4.0 = world_cached and ?voice4.0 = sample_voice and ?expires4.0 = 5000,
          THEN conjunct2, THEN conjunct2, THEN conjunct2]
  have c4: "w_response (snd (voice_handler env0 voice_request world_cached))
       = Some (200, Json (JObj [(ustr ''success'', JBool True), (ustr ''data'', sample_voice),
                                (ustr ''timestamp'', JStr (ustr ''T'' @ decimal 1000))]))
     \<and> w_provider_calls (snd (voice_handler env0 voice_request world_cached)) = []"
    by (simp add: v m voice_request_parsed sample_voice_key_settings samples_truthy)
  from c1 c2 c3 c4 show ?thesis by simp
qed

section \<open>A body that fails validation\<close>

lemma analyze_handler_invalid_mute:
  assumes "AnalyzeRequestSchema_safeParse E (rq_body req) = Inl issues"
  shows "w_invoked (snd (analyze_handler (mute E) req w)) = w_invoked w
       \<and> w_provider_calls (snd (analyze_handler (mute E) req w)) = w_provider_calls w
       \<and> (rq_method req = ustr ''POST'' \<and> authenticate E req = Inr ctx \<and> w_response w = None
            \<longrightarrow> w_response (snd (analyze_handler (mute E) req w))
                = Some (400, ErrorBody (createErrorResponse (e_production E)
                                          (e_toISOString E (w_clock w))
                                          (invalid_request_data issues))))"
proof (cases "authenticate E req")
  case (Inl e)
  with assms show ?thesis
    by (simp add: analyze_handler_def asyncHandler_def handleError_def ErrorHandler_logError_def
          method_not_allowed_def authMiddleware_fails_mute io_defs)
next
  case (Inr c)
  with assms show ?thesis
    by (simp add: analyze_handler_def asyncHandler_def handleError_def ErrorHandler_logError_def
          method_not_allowed_def authMiddleware_ok io_defs invalid_request_data_def)
qed

text \<open>
  A body that the schema of its handler refuses never enters a method of a provider
  adapter and causes no provider call, whatever the method and the credentials of the
  request; when the request is a \<open>POST\<close> that passes authentication, the handler answers
  the \<open>ValidationError\<close> with status 400. For the analysis, the voice-synthesis, the
  voice-conversation and the email-send handler, each with its own request.
\<close>

lemma refused_body_never_reaches_adapter:
  "(AnalyzeRequestSchema_safeParse E1 (rq_body req1) = Inl issues1
    \<longrightarrow> w_invoked (snd (analyze_handler E1 req1 w1)) = w_invoked w1
       \<and> w_provider_calls (snd (analyze_handler E1 req1 w1)) = w_provider_calls w1
       \<and> (rq_method req1 = ustr ''POST'' \<and> authenticate E1 req1 = Inr ctx1
           \<and> w_response w1 = None
            \<longrightarrow> w_response (snd (analyze_handler E1 req1 w1))
                = Some (400, ErrorBody (createErrorResponse (e_production E1)
                                          (e_toISOString E1 (w_clock w1))
                                          (invalid_request_data issues1)))))
   \<and> (VoiceRequestSchema_safeParse E2 (rq_body req2) = Inl issues2
    \<longrightarrow> w_invoked (snd (voice_handler E2 req2 w2)) = w_invoked w2
       \<and> w_provider_calls (snd (voice_handler E2 req2 w2)) = w_provider_calls w2
       \<and> (rq_method req2 = ustr ''POST'' \<and> authenticate E2 req2 = Inr ctx2
           \<and> w_response w2 = None
            \<longrightarrow> w_response (snd (voice_handler E2 req2 w2))
                = Some (400, ErrorBody (createErrorResponse (e_production E2)
                                          (e_toISOString E2 (w_clock w2))
                                          (invalid_request_data issues2)))))
   \<and> (ConversationRequestSchema_safeParse E3 (rq_body req3) = Inl issues3
    \<longrightarrow> w_invoked (snd (conversation_handler E3 req3 w3)) = w_invoked w3
       \<and> w_provider_calls (snd (conversation_handler E3 req3 w3)) = w_provider_calls w3
       \<and> (rq_method req3 = ustr ''POST'' \<and> authenticate E3 req3 = Inr ctx3
           \<and> w_response w3 = None
            \<longrightarrow> w_response (snd (conversation_handler E3 req3 w3))
                = Some (400, ErrorBody (createErrorResponse (e_production E3)
                                          (e_toISOString E3 (w_clock w3))
                                          (invalid_request_data issues3)))))
   \<and> (EmailRequestSchema_safeParse E4 (rq_body req4) = Inl issues4
    \<longrightarrow> w_invoked (snd (email_handler E4 req4 w4)) = w_invoked w4
       \<and> w_provider_calls (snd (email_handler E4 req4 w4)) = w_provider_calls w4
       \<and> (rq_method req4 = ustr ''POST'' \<and> authenticate E4 req4 = Inr ctx4
           \<and> w_response w4 = None
            \<longrightarrow> w_response (snd (email_handler E4 req4 w4))
                = Some (400, ErrorBody (createErrorResponse (e_production E4)
                                          (e_toISOString E4 (w_clock w4))
                                          (invalid_request_data issues4)))))
   \<and> kind_of (invalid_request_data issues) = Validation"
proof -
  have a: "primary (snd (analyze_handler E1 req1 w1))
         = primary (snd (analyze_handler (mute E1) req1 w1))"
    by (rule mute_primary [where m = "\<lambda>E. analyze_handler E req1"]) (rule sim_analyze_handler)
  have v: "primary (snd (voice_handler E2 req2 w2)) = primary (snd (voice_handler (mute E2) req2 w2))"
    by (rule mute_primary [where m = "\<lambda>E. voice_handler E req2"]) (rule sim_voice_handler)
  have c: "primary (snd (conversation_handler E3 req3 w3))
         = primary (snd (conversation_handler (mute E3) req3 w3))"
    by (rule mute_primary [where m = "\<lambda>E. conversation_handler E req3"])
       (rule sim_conversation_handler)
  have e: "primary (snd (email_handler E4 req4 w4)) = primary (snd (email_handler (mute E4) req4 w4))"
    by (rule mute_primary [where m = "\<lambda>E. email_handler E req4"]) (rule sim_email_handler)
  show ?thesis
    unfolding primary_fields(1,2,3) [OF a] primary_fields(1,2,3) [OF v]
      primary_fields(1,2,3) [OF c] primary_fields(1,2,3) [OF e]
    using analyze_handler_invalid_mute [where E = E1 and req = req1 and w = w1 and ctx = ctx1
            and issues = issues1]
          voice_handler_invalid_mute [where E = E2 and req = req2 and w = w2 and ctx = ctx2
            and issues = issues2]
          conversation_handler_invalid_mute [where E = E3 and req = req3 and w = w3
            and ctx = ctx3 and issues = issues3]
          email_handler_invalid_mute [where E = E4 and req = req4 and w = w4 and ctx = ctx4
            and issues = issues4]
    by (simp add: invalid_request_data_def)
qed

lemma missing_fields_raise:
  "validateEmailData (ustr ''welcome'') (JObj [])
     = Inl (ValidationError
              (ustr ''Missing required fields for welcome: userName, language, dashboardLink'')
              None)"
  by (simp add: validateEmailData_def getRequiredFields_def nullish_def get_prop_def ustr_def)

lemma welcome_missing_parsed:
  "e_isEmail E = (\<lambda>s. 0x40 \<in> set s) \<Longrightarrow>
   EmailRequestSchema_safeParse E (rq_body welcome_missing_request)
     = Inr \<lparr>emailType = ustr ''welcome'', to = ustr ''al@example.org'', data = JObj []\<rparr>"
  by (simp add: EmailRequestSchema_safeParse_def EmailRequestSchema_ok_def
        welcome_missing_request_def is_object_def get_prop_def email_types_def string_of_def)
     (simp add: ustr_def)

lemma start_without_agent_parsed:
  "ConversationRequestSchema_safeParse E (rq_body start_without_agent_request)
     = Inr \<lparr>cr_action = ustr ''start_conversation'', cr_agentId = None, cr_message = None,
            cr_conversationId = None, cr_config = None\<rparr>"
  by (simp add: ConversationRequestSchema_safeParse_def ConversationRequestSchema_ok_def
        start_without_agent_request_def is_object_def get_prop_def conversation_actions_def
        string_of_def opt_string_def opt_record_def to_opt_string_def to_opt_record_def)

lemma send_missing_mute:
  "sendEmail (mute E) \<lparr>emailType = ustr ''welcome'', to = t, data = JObj []\<rparr> w
     = (Inl (ExternalAPIError (ustr ''Failed to send email via Resend'') (ustr ''resend'')
               (Some (ValidationError
                  (ustr ''Missing required fields for welcome: userName, language, dashboardLink'')
                  None))),
        w\<lparr>w_invoked := w_invoked w @ [M_sendEmail],
          w_console := w_console w
            @ [ConsoleLog (ustr ''Logging disabled - Supabase not configured'')]\<rparr>)"
  by (simp add: sendEmail_def send_attempt_def send_failed_def exec_defs missing_fields_raise)

lemma email_missing_mute:
  "primary (snd (email_handler (mute env0) welcome_missing_request world0))
     = primary (world0\<lparr>w_invoked := [M_sendEmail],
          w_response := Some (502, ErrorBody
            \<lparr>er_error = ustr ''External API Error'',
             er_message = ustr ''resend'' @ ustr '': '' @ ustr ''Failed to send email via Resend'',
             er_code = Some (ustr ''EXTERNAL_API_ERROR''),
             er_timestamp = ustr ''T'' @ decimal 1000\<rparr>)\<rparr>)"
proof -
  have a: "authenticate env0 welcome_missing_request = Inr system_context"
    by (rule system_key_authenticates) (simp_all add: welcome_missing_request_def)
  have m: "rq_method welcome_missing_request = ustr ''POST''"
    by (simp add: welcome_missing_request_def)
  show ?thesis
    by (simp add: email_handler_def asyncHandler_def handleError_def ErrorHandler_logError_def
          authMiddleware_ok a m welcome_missing_parsed send_missing_mute io_defs primary_def)
qed

lemma start_without_agent_mute:
  "primary (snd (conversation_handler (mute env0) start_without_agent_request world0))
     = primary (world0\<lparr>w_response := Some (400, ErrorBody
            \<lparr>er_error = ustr ''Validation Error'',
             er_message = ustr ''agentId is required for start_conversation'',
             er_code = Some (ustr ''VALIDATION_ERROR''),
             er_timestamp = ustr ''T'' @ decimal 1000\<rparr>)\<rparr>)"
proof -
  have a: "authenticate env0 start_without_agent_request = Inr system_context"
    by (rule system_key_authenticates) (simp_all add: start_without_agent_request_def)
  have m: "rq_method start_without_agent_request = ustr ''POST''"
    by (simp add: start_without_agent_request_def)
  show ?thesis
    by (simp add: conversation_handler_def conversation_route_def absent_def asyncHandler_def
          handleError_def ErrorHandler_logError_def authMiddleware_ok a m
          start_without_agent_parsed io_defs primary_def)
qed

text \<open>
  C1 fails on the code. A welcome email whose data holds none of the fields its template
  requires passes the schema of the handler (\<open>data\<close> is any record), so the handler calls
  \<open>sendEmail\<close>; there \<open>validateEmailData\<close> raises a \<open>ValidationError\<close> naming the missing
  fields, the \<open>catch\<close> of \<open>sendEmail\<close> wraps it in an \<open>ExternalAPIError\<close>, and the request
  is answered 502, not 400. No call reaches the email provider. The conversation handler,
  by contrast, checks the fields its action requires before it calls the adapter and
  answers 400.
\<close>

theorem missing_template_fields_answer_502:
  "EmailRequestSchema_safeParse env0 (rq_body welcome_missing_request)
     = Inr \<lparr>emailType = ustr ''welcome'', to = ustr ''al@example.org'', data = JObj []\<rparr>
   \<and> validateEmailData (ustr ''welcome'') (JObj [])
       = Inl (ValidationError
                (ustr ''Missing required fields for welcome: userName, language, dashboardLink'')
                None)
   \<and> w_invoked (snd (email_handler env0 welcome_missing_request world0)) = [M_sendEmail]
   \<and> w_provider_calls (snd (email_handler env0 welcome_missing_request world0)) = []
   \<and> w_response (snd (email_handler env0 welcome_missing_request world0))
       = Some (502, ErrorBody
            \<lparr>er_error = ustr ''External API Error'',
             er_message = ustr ''resend: Failed to send email via Resend'',
             er_code = Some (ustr ''EXTERNAL_API_ERROR''),
             er_timestamp = ustr ''T'' @ decimal 1000\<rparr>)
   \<and> w_invoked (snd (conversation_handler env0 start_without_agent_request world0)) = []
   \<and> w_response (snd (conversation_handler env0 start_without_agent_request world0))
       = Some (400, ErrorBody
            \<lparr>er_error = ustr ''Validation Error'',
             er_message = ustr ''agentId is required for start_conversation'',
             er_code = Some (ustr ''VALIDATION_ERROR''),
             er_timestamp = ustr ''T'' @ decimal 1000\<rparr>)"
proof -
  have e: "primary (snd (email_handler env0 welcome_missing_request world0))
      = primary (snd (email_handler (mute env0) welcome_missing_request world0))"
    by (rule mute_primary [where m = "\<lambda>E. email_handler E welcome_missing_request"])
       (rule sim_email_handler)
  have c: "primary (snd (conversation_handler env0 start_without_agent_request world0))
      = primary (snd (conversation_handler (mute env0) start_without_agent_request world0))"
    by (rule mute_primary [where m = "\<lambda>E. conversation_handler E start_without_agent_request"])
       (rule sim_conversation_handler)
  have t: "ustr ''resend'' @ ustr '': '' @ ustr ''Failed to send email via Resend''
             = ustr ''resend: Failed to send email via Resend''"
    by (simp add: ustr_def)
  from primary_fields(1,2,3) [OF e [unfolded email_missing_mute]]
       primary_fields(1,3) [OF c [unfolded start_without_agent_mute]]
  show ?thesis
    by (simp add: welcome_missing_parsed missing_fields_raise t)
qed

text \<open>The two requests of the specification's scenarios, with a valid key: an empty text
  for voice synthesis and an undeclared email type are answered 400, and no adapter method
  is entered.\<close>

lemma refused_body_examples:
  "w_invoked (snd (voice_handler env0 (empty_text_request\<lparr>rq_x_api_key := Some (ustr ''k1'')\<rparr>)
                     world0)) = []
   \<and> w_invoked (snd (email_handler env0 unknown_type_request world0)) = []
   \<and> w_response (snd (voice_handler env0 (empty_text_request\<lparr>rq_x_api_key := Some (ustr ''k1'')\<rparr>)
                        world0))
       = Some (400, ErrorBody (createErrorResponse (e_production env0) (e_toISOString env0 1000)
                                 (invalid_request_data [ustr ''Invalid input''])))
   \<and> w_response (snd (email_handler env0 unknown_type_request world0))
       = Some (400, ErrorBody (createErrorResponse (e_production env0) (e_toISOString env0 1000)
                                 (invalid_request_data [ustr ''Invalid input''])))"
proof -
  let ?vreq = "empty_text_request\<lparr>rq_x_api_key := Some (ustr ''k1'')\<rparr>"
  have h1: "VoiceRequestSchema_safeParse env0 (rq_body ?vreq) = Inl [ustr ''Invalid input'']"
    by (simp add: empty_text_refused empty_text_request_def get_prop_def)
  have h2: "EmailRequestSchema_safeParse env0 (rq_body unknown_type_request)
              = Inl [ustr ''Invalid input'']"
    by (simp add: undeclared_email_type_refused [where et = "ustr ''unknown_type''"]
          unknown_type_request_def get_prop_def email_types_def)
  have m: "rq_method ?vreq = ustr ''POST''" "rq_method unknown_type_request = ustr ''POST''"
    by (simp_all add: empty_text_request_def unknown_type_request_def)
  have a: "authenticate env0 ?vreq = Inr system_context"
    "authenticate env0 unknown_type_request = Inr system_context"
    by (rule system_key_authenticates;
        simp add: empty_text_request_def unknown_type_request_def)+
  from refused_body_never_reaches_adapter
         [where ?E2.0 = env0 and ?req2.0 = ?vreq and ?w2.0 = world0
            and ?issues2.0 = "[ustr ''Invalid input'']" and ?ctx2.0 = system_context
            and ?E4.0 = env0 and ?req4.0 = unknown_type_request and ?w4.0 = world0
            and ?issues4.0 = "[ustr ''Invalid input'']" and ?ctx4.0 = system_context]
       h1 h2 m a
  show ?thesis by simp
qed

section \<open>A failing log write, a failing cache write\<close>

lemma voice_stores_mute:
  assumes "\<not> truthy (cache_lookup w
             (generateElevenLabsVoiceKey (e_numberToString E) t v (JObj (settings_or_empty st))))"
      and "e_fetch E (w_provider_calls w) (ustr ''POST'') (voice_endpoint v)
             (voice_requestBody t (settings_or_empty st))
           = (latency, FetchResponse True status tx js)"
      and "e_cache_set E (w_cache_sets w)
             (generateElevenLabsVoiceKey (e_numberToString E) t v (JObj (settings_or_empty st)))
           = None"
  shows "\<exists>result w'. generateVoice (mute E) t v st w = (Inr result, w')
         \<and> w_response w' = w_response w \<and> w_clock w' = w_clock w + latency
         \<and> w_provider_calls w' = w_provider_calls w
              @ [FetchCall (ustr ''POST'') (voice_endpoint v)
                   (voice_requestBody t (settings_or_empty st))]"
  using assms
  by (simp add: generateVoice_def voice_miss_def elevenlabs_failed_def exec_defs)

lemma voice_cache_raises_mute:
  assumes "\<not> truthy (cache_lookup w
             (generateElevenLabsVoiceKey (e_numberToString E) t v (JObj (settings_or_empty st))))"
      and "e_fetch E (w_provider_calls w) (ustr ''POST'') (voice_endpoint v)
             (voice_requestBody t (settings_or_empty st))
           = (latency, FetchResponse True status tx js)"
      and "e_cache_set E (w_cache_sets w)
             (generateElevenLabsVoiceKey (e_numberToString E) t v (JObj (settings_or_empty st)))
           = Some m"
  shows "\<exists>w'. generateVoice (mute E) t v st w =
           (Inl (ExternalAPIError (ustr ''Failed to generate voice with ElevenLabs'')
                   (ustr ''elevenlabs'') (Some (OtherError (ustr ''Error'') m))), w')
         \<and> w_response w' = w_response w \<and> w_cache w' = w_cache w
         \<and> w_provider_calls w' = w_provider_calls w
              @ [FetchCall (ustr ''POST'') (voice_endpoint v)
                   (voice_requestBody t (settings_or_empty st))]"
  using assms
  by (simp add: generateVoice_def voice_miss_def elevenlabs_failed_def exec_defs)

lemma analysis_cache_raises_mute:
  assumes "generateOpenAIKey (e_numberToString E) ms up st JUndefined = Inr key"
      and "\<not> truthy (cache_lookup w key)"
      and "e_getActivePrompt E (ustr ''general'') (languageCode_of up) = Some prompt"
      and "e_generatePrompt E prompt ms up st = Inr p"
      and "e_openai E (w_provider_calls w) p = (latency, OpenAIContent c)"
      and "truthy c"
      and "e_cache_set E (w_cache_sets w) key = Some m"
  shows "\<exists>w'. analyzeConversation (mute E) ms up st w = (Inr getFallbackAnalysis, w')
         \<and> w_cache w' = w_cache w \<and> w_response w' = w_response w
         \<and> w_clock w' = w_clock w + latency"
  using assms
  by (simp add: analyzeConversation_def analyze_miss_def analyze_failed_def exec_defs)

lemma vocabulary_cache_raises_mute:
  assumes "generateOpenAIKey (e_numberToString E) ms up JUndefined vc = Inr key"
      and "\<not> truthy (cache_lookup w key)"
      and "e_getActivePrompt E (ustr ''vocabulary_practice'') (languageCode_of up) = Some prompt"
      and "e_generateVocabularyPrompt E prompt ms up vc = Inr p"
      and "e_openai E (w_provider_calls w) p = (latency, OpenAIContent c)"
      and "truthy c"
      and "e_cache_set E (w_cache_sets w) key = Some m"
  shows "\<exists>w'. analyzeVocabularyPractice (mute E) ms up vc w = (Inr getFallbackAnalysis, w')
         \<and> w_cache w' = w_cache w \<and> w_response w' = w_response w
         \<and> w_clock w' = w_clock w + latency"
  using assms
  by (simp add: analyzeVocabularyPractice_def vocabulary_miss_def analyze_failed_def exec_defs)

lemma voice_handler_raises:
  assumes "rq_method req = ustr ''POST''" and "authenticate E req = Inr ctx"
      and "VoiceRequestSchema_safeParse E (rq_body req)
             = Inr \<lparr>vr_text = t, vr_voiceId = v, vr_settings = st\<rparr>"
      and "w_response w = None"
      and "generateVoice (mute E) t v st w = (Inl e, w1)"
      and "w_response w1 = w_response w"
  shows "w_response (snd (voice_handler E req w))
           = Some (getStatusCode e,
                   ErrorBody (createErrorResponse (e_production E) (e_toISOString E (w_clock w1)) e))"
proof -
  let ?fn = "io_bind (authMiddleware (mute E) req) (\<lambda>authContext.
          case VoiceRequestSchema_safeParse (mute E) (rq_body req) of
            Inl issues \<Rightarrow> io_throw (invalid_request_data issues)
          | Inr d \<Rightarrow>
              io_bind (generateVoice (mute E) (vr_text d) (vr_voiceId d) (vr_settings d)) (\<lambda>result.
              io_bind io_now (\<lambda>now.
              res_send 200
                (Json (JObj [(ustr ''success'', JBool True),
                             (ustr ''data'', result),
                             (ustr ''timestamp'', JStr (e_toISOString (mute E) now))])))))"
  have fn: "?fn w = (Inl e, w1)"
    using assms(2,3,5) by (simp add: io_bind_def authMiddleware_ok)
  have "voice_handler (mute E) req w = asyncHandler (mute E) req ?fn w"
    using assms(1) by (simp add: voice_handler_def)
  with asyncHandler_raises_mute [where fn = ?fn and w = w and E = E and req = req, OF fn]
    assms(4,6)
  have "w_response (snd (voice_handler (mute E) req w)) =
          Some (getStatusCode e,
                ErrorBody (createErrorResponse (e_production E) (e_toISOString E (w_clock w1)) e))"
    by simp
  moreover have "w_response (snd (voice_handler E req w))
      = w_response (snd (voice_handler (mute E) req w))"
    by (rule response_of_primary, rule mute_primary [where m = "\<lambda>E. voice_handler E req"])
       (rule sim_voice_handler)
  ultimately show ?thesis by simp
qed

lemma voice_handler_returns:
  assumes "rq_method req = ustr ''POST''" and "authenticate E req = Inr ctx"
      and "VoiceRequestSchema_safeParse E (rq_body req)
             = Inr \<lparr>vr_text = t, vr_voiceId = v, vr_settings = st\<rparr>"
      and "w_response w = None"
      and "generateVoice (mute E) t v st w = (Inr result, w1)"
      and "w_response w1 = w_response w"
  shows "w_response (snd (voice_handler E req w))
           = Some (200, Json (JObj [(ustr ''success'', JBool True), (ustr ''data'', result),
                                    (ustr ''timestamp'', JStr (e_toISOString E (w_clock w1)))]))"
proof -
  have "w_response (snd (voice_handler (mute E) req w))
           = Some (200, Json (JObj [(ustr ''success'', JBool True), (ustr ''data'', result),
                                    (ustr ''timestamp'', JStr (e_toISOString E (w_clock w1)))]))"
    using assms
    by (simp add: voice_handler_def asyncHandler_def authMiddleware_ok io_defs)
  moreover have "w_response (snd (voice_handler E req w))
      = w_response (snd (voice_handler (mute E) req w))"
    by (rule response_of_primary, rule mute_primary [where m = "\<lambda>E. voice_handler E req"])
       (rule sim_voice_handler)
  ultimately show ?thesis by simp
qed


lemma voice_cache_write_raises:
  assumes "rq_method req = ustr ''POST''" and "authenticate E req = Inr ctx"
      and "VoiceRequestSchema_safeParse E (rq_body req)
             = Inr \<lparr>vr_text = t, vr_voiceId = v, vr_settings = st\<rparr>"
      and "w_response w = None"
      and "\<not> truthy (cache_lookup w
             (generateElevenLabsVoiceKey (e_numberToString E) t v (JObj (settings_or_empty st))))"
      and "snd (e_fetch E (w_provider_calls w) (ustr ''POST'') (voice_endpoint v)
             (voice_requestBody t (settings_or_empty st))) = FetchResponse True status tx js"
      and "e_cache_set E (w_cache_sets w)
             (generateElevenLabsVoiceKey (e_numberToString E) t v (JObj (settings_or_empty st)))
           = Some m"
  shows "fst (generateVoice E t v st w)
           = Inl (ExternalAPIError (ustr ''Failed to generate voice with ElevenLabs'')
                    (ustr ''elevenlabs'') (Some (OtherError (ustr ''Error'') m)))
       \<and> (\<exists>body. w_response (snd (voice_handler E req w)) = Some (502, ErrorBody body)
              \<and> er_error body = ustr ''External API Error'')"
proof -
  obtain l2 where o2: "e_fetch E (w_provider_calls w) (ustr ''POST'') (voice_endpoint v)
             (voice_requestBody t (settings_or_empty st)) = (l2, FetchResponse True status tx js)"
    using assms(6)
    by (cases "e_fetch E (w_provider_calls w) (ustr ''POST'') (voice_endpoint v)
             (voice_requestBody t (settings_or_empty st))") simp
  from voice_cache_raises_mute [OF assms(5) o2 assms(7)] obtain w1 where
    g: "generateVoice (mute E) t v st w =
          (Inl (ExternalAPIError (ustr ''Failed to generate voice with ElevenLabs'')
                  (ustr ''elevenlabs'') (Some (OtherError (ustr ''Error'') m))), w1)"
    and r: "w_response w1 = w_response w" by blast
  have "fst (generateVoice E t v st w)
           = Inl (ExternalAPIError (ustr ''Failed to generate voice with ElevenLabs'')
                    (ustr ''elevenlabs'') (Some (OtherError (ustr ''Error'') m)))"
    using mute_fst [where m = "\<lambda>E. generateVoice E t v st", OF sim_generateVoice, of E w] g
    by simp
  moreover from voice_handler_raises [OF assms(1-4) g r]
  have "\<exists>body. w_response (snd (voice_handler E req w)) = Some (502, ErrorBody body)
              \<and> er_error body = ustr ''External API Error''"
    by simp
  ultimately show ?thesis by (rule conjI)
qed

lemma analysis_cache_write_raises:
  assumes "generateOpenAIKey (e_numberToString E) ms up st JUndefined = Inr key"
      and "\<not> truthy (cache_lookup w key)"
      and "e_getActivePrompt E (ustr ''general'') (languageCode_of up) = Some prompt"
      and "e_generatePrompt E prompt ms up st = Inr p"
      and "snd (e_openai E (w_provider_calls w) p) = OpenAIContent c"
      and "truthy c"
      and "e_cache_set E (w_cache_sets w) key = Some m"
  shows "fst (analyzeConversation E ms up st w) = Inr getFallbackAnalysis"
proof -
  obtain l1 where o1: "e_openai E (w_provider_calls w) p = (l1, OpenAIContent c)"
    using assms(5) by (cases "e_openai E (w_provider_calls w) p") simp
  show ?thesis
    using mute_fst [where m = "\<lambda>E. analyzeConversation E ms up st",
                    OF sim_analyzeConversation, of E w]
          analysis_cache_raises_mute [OF assms(1-4) o1 assms(6,7)]
    by auto
qed

lemma vocabulary_cache_write_raises:
  assumes "generateOpenAIKey (e_numberToString E) ms up JUndefined vc = Inr key"
      and "\<not> truthy (cache_lookup w key)"
      and "e_getActivePrompt E (ustr ''vocabulary_practice'') (languageCode_of up) = Some prompt"
      and "e_generateVocabularyPrompt E prompt ms up vc = Inr p"
      and "snd (e_openai E (w_provider_calls w) p) = OpenAIContent c"
      and "truthy c"
      and "e_cache_set E (w_cache_sets w) key = Some m"
  shows "fst (analyzeVocabularyPractice E ms up vc w) = Inr getFallbackAnalysis"
proof -
  obtain l1 where o1: "e_openai E (w_provider_calls w) p = (l1, OpenAIContent c)"
    using assms(5) by (cases "e_openai E (w_provider_calls w) p") simp
  show ?thesis
    using mute_fst [where m = "\<lambda>E. analyzeVocabularyPractice E ms up vc",
                    OF sim_analyzeVocabularyPractice, of E w]
          vocabulary_cache_raises_mute [OF assms(1-4) o1 assms(6,7)]
    by auto
qed

lemma analysis_request_cache_write_raises:
  assumes "rq_method req = ustr ''POST''" and "authenticate E req = Inr ctx"
      and "AnalyzeRequestSchema_safeParse E (rq_body req)
             = Inr \<lparr>ar_messages = ms, ar_userProfile = up, ar_studyTopic = st,
                    ar_vocabularyContext = vc\<rparr>"
      and "w_response w = None"
      and "if truthy vc
           then generateOpenAIKey (e_numberToString E) ms up JUndefined vc = Inr key
              \<and> e_getActivePrompt E (ustr ''vocabulary_practice'') (languageCode_of up)
                  = Some prompt
              \<and> e_generateVocabularyPrompt E prompt ms up vc = Inr p
           else generateOpenAIKey (e_numberToString E) ms up st JUndefined = Inr key
              \<and> e_getActivePrompt E (ustr ''general'') (languageCode_of up) = Some prompt
              \<and> e_generatePrompt E prompt ms up st = Inr p"
      and "\<not> truthy (cache_lookup w key)"
      and "snd (e_openai E (w_provider_calls w) p) = OpenAIContent c"
      and "truthy c"
      and "e_cache_set E (w_cache_sets w) key = Some m"
  shows "w_response (snd (analyze_handler E req w))
           = Some (200, Json (JObj [(ustr ''success'', JBool True),
                                    (ustr ''data'', getFallbackAnalysis),
                                    (ustr ''timestamp'',
                                       JStr (e_toISOString E
                                          (w_clock w + fst (e_openai E (w_provider_calls w) p))))]))"
proof -
  obtain l1 where o1: "e_openai E (w_provider_calls w) p = (l1, OpenAIContent c)"
    using assms(7) by (cases "e_openai E (w_provider_calls w) p") simp
  have h: "primary (snd (analyze_handler E req w)) = primary (snd (analyze_handler (mute E) req w))"
    by (rule mute_primary [where m = "\<lambda>E. analyze_handler E req"]) (rule sim_analyze_handler)
  show ?thesis
  proof (cases "truthy vc")
    case True
    with assms(5) have k: "generateOpenAIKey (e_numberToString E) ms up JUndefined vc = Inr key"
      "e_getActivePrompt E (ustr ''vocabulary_practice'') (languageCode_of up) = Some prompt"
      "e_generateVocabularyPrompt E prompt ms up vc = Inr p" by simp_all
    from vocabulary_cache_raises_mute [OF k(1) assms(6) k(2,3) o1 assms(8,9)] obtain w1 where
      g: "analyzeVocabularyPractice (mute E) ms up vc w = (Inr getFallbackAnalysis, w1)"
      and r: "w_response w1 = w_response w" and c: "w_clock w1 = w_clock w + l1" by blast
    from r assms(4) have r1: "w_response w1 = None" by simp
    from analyze_handler_vocabulary_mute [OF assms(1-3) True assms(4) g r1] h c
    have "primary (snd (analyze_handler E req w))
        = primary (w1\<lparr>w_response := Some (200, Json (JObj
                        [(ustr ''success'', JBool True), (ustr ''data'', getFallbackAnalysis),
                         (ustr ''timestamp'', JStr (e_toISOString E (w_clock w + l1)))]))\<rparr>)"
      by simp
    then show ?thesis by (simp add: primary_def o1)
  next
    case False
    with assms(5) have k: "generateOpenAIKey (e_numberToString E) ms up st JUndefined = Inr key"
      "e_getActivePrompt E (ustr ''general'') (languageCode_of up) = Some prompt"
      "e_generatePrompt E prompt ms up st = Inr p" by simp_all
    from analysis_cache_raises_mute [OF k(1) assms(6) k(2,3) o1 assms(8,9)] obtain w1 where
      g: "analyzeConversation (mute E) ms up st w = (Inr getFallbackAnalysis, w1)"
      and r: "w_response w1 = w_response w" and c: "w_clock w1 = w_clock w + l1" by blast
    from r assms(4) have r1: "w_response w1 = None" by simp
    from analyze_handler_mute [OF assms(1-3) False assms(4) g r1] h c
    have "primary (snd (analyze_handler E req w))
        = primary (w1\<lparr>w_response := Some (200, Json (JObj
                        [(ustr ''success'', JBool True), (ustr ''data'', getFallbackAnalysis),
                         (ustr ''timestamp'', JStr (e_toISOString E (w_clock w + l1)))]))\<rparr>)"
      by simp
    then show ?thesis by (simp add: primary_def o1)
  qed
qed

lemma env_cache_raises_simps [simp]:
  "e_API_SECRET_KEY env_cache_raises = Some (ustr ''k1'')"
  "e_numberToString env_cache_raises = print_number"
  "e_fetch env_cache_raises
     = (\<lambda>calls method endpoint body. (250, FetchResponse True 200 [] (Some (JObj []))))"
  "e_cache_set env_cache_raises = (\<lambda>n key. Some (ustr ''ECACHEFULL''))"
  "e_toISOString env_cache_raises = (\<lambda>t. ustr ''T'' @ decimal t)"
  "e_getActivePrompt env_cache_raises = (\<lambda>conversationType languageCode. Some sample_prompt)"
  "e_generatePrompt env_cache_raises
     = (\<lambda>p messages userProfile studyTopic. Inr (prompt_template p))"
  "e_generateVocabularyPrompt env_cache_raises
     = (\<lambda>p messages userProfile vocabularyContext. Inr (prompt_template p))"
  "e_openai env_cache_raises
     = (\<lambda>calls generatedPrompt. (120, OpenAIContent (JStr (ustr ''{}''))))"
  by (simp_all add: env_cache_raises_def)





end
